theory Spec2Isabelle
  imports Complex_Main "HOL-Library.AList"
begin

section \<open>JavaScript values reaching the ledger\<close>

text \<open>
  The ledger's arithmetic is on JavaScript numbers: \<open>NaN\<close>, the two infinities and the
  finite numbers. A finite number is \<open>Num n\<close> when it is the integer \<open>n\<close>, and \<open>Frac r\<close>
  when it is the rational \<open>r\<close> and not an integer. The sum and the difference of finite
  numbers are exact here. The code's are rounded to the nearest double: they are the exact
  ones whenever the operands and the result are integers of magnitude at most
  \<open>MAX_SAFE_INTEGER\<close>, and the statements about the invariant, the deposit, the debit and
  the first daily claim carry that bound.
\<close>

datatype number = NaN | PosInf | NegInf | Num int | Frac rat

definition MAX_SAFE_INTEGER :: int where
  "MAX_SAFE_INTEGER = 9007199254740991"

fun finite_value :: "number \<Rightarrow> rat" where
  "finite_value (Num n) = of_int n"
| "finite_value (Frac r) = r"
| "finite_value x = 0"

definition mk_number :: "rat \<Rightarrow> number" where
  "mk_number r = (if of_int \<lfloor>r\<rfloor> = r then Num \<lfloor>r\<rfloor> else Frac r)"

fun js_neg :: "number \<Rightarrow> number" where
  "js_neg NaN = NaN"
| "js_neg PosInf = NegInf"
| "js_neg NegInf = PosInf"
| "js_neg (Num n) = Num (- n)"
| "js_neg (Frac r) = Frac (- r)"

text \<open>\<open>a + b\<close>: \<open>NaN\<close> is absorbing and the sum of the two infinities is \<open>NaN\<close>.\<close>

fun js_add :: "number \<Rightarrow> number \<Rightarrow> number" where
  "js_add (Num a) (Num b) = Num (a + b)"
| "js_add NaN b = NaN"
| "js_add a NaN = NaN"
| "js_add PosInf NegInf = NaN"
| "js_add NegInf PosInf = NaN"
| "js_add PosInf b = PosInf"
| "js_add a PosInf = PosInf"
| "js_add NegInf b = NegInf"
| "js_add a NegInf = NegInf"
| "js_add a b = mk_number (finite_value a + finite_value b)"

fun js_sub :: "number \<Rightarrow> number \<Rightarrow> number" where
  "js_sub (Num a) (Num b) = Num (a - b)"
| "js_sub a b = js_add a (js_neg b)"

text \<open>Comparisons with \<open>NaN\<close> are false.\<close>

fun js_lt :: "number \<Rightarrow> number \<Rightarrow> bool" where
  "js_lt (Num a) (Num b) = (a < b)"
| "js_lt NaN b = False"
| "js_lt a NaN = False"
| "js_lt a NegInf = False"
| "js_lt NegInf b = True"
| "js_lt PosInf b = False"
| "js_lt a PosInf = True"
| "js_lt a b = (finite_value a < finite_value b)"

fun js_le :: "number \<Rightarrow> number \<Rightarrow> bool" where
  "js_le (Num a) (Num b) = (a \<le> b)"
| "js_le NaN b = False"
| "js_le a NaN = False"
| "js_le NegInf b = True"
| "js_le a PosInf = True"
| "js_le a NegInf = False"
| "js_le PosInf b = False"
| "js_le a b = (finite_value a \<le> finite_value b)"

fun Math_min :: "number \<Rightarrow> number \<Rightarrow> number" where
  "Math_min (Num a) (Num b) = Num (min a b)"
| "Math_min NaN b = NaN"
| "Math_min a NaN = NaN"
| "Math_min a b = (if js_lt b a then b else a)"

text \<open>\<open>x || d\<close> on a number: \<open>NaN\<close> and \<open>0\<close> are falsy.\<close>

fun or_default :: "number \<Rightarrow> int \<Rightarrow> number" where
  "or_default NaN d = Num d"
| "or_default (Num n) d = (if n = 0 then Num d else Num n)"
| "or_default (Frac r) d = (if r = 0 then Num d else Frac r)"
| "or_default x d = x"

text \<open>
  An argument of an operation is a JavaScript value. The ledger's code looks at an
  argument through \<open>typeof\<close>, its truthiness, the comparison with \<open>'all'\<close>, \<open>Number\<close> (which
  \<open>isNaN\<close>, \<open><\<close>, \<open>Math.min\<close> and \<open>+\<close> on a number apply) and \<open>parseInt\<close>; a string is
  given by what these see of it:
  \<^item> \<open>Undefined\<close>, \<open>Null\<close>, \<open>Boolean b\<close>;
  \<^item> \<open>Val x\<close>: a value of type number;
  \<^item> \<open>Str_empty\<close>: the empty string; \<open>Str_all\<close>: the string \<open>'all'\<close>;
  \<^item> \<open>Str x i\<close>: a non-empty string other than \<open>'all'\<close> that \<open>Number\<close> reads as \<open>x\<close> and
    \<open>parseInt\<close> reads as \<open>i\<close>. So \<open>'50'\<close> is \<open>Str (Num 50) (Num 50)\<close>, \<open>'1e3'\<close> is
    \<open>Str (Num 1000) (Num 1)\<close>, \<open>'.5'\<close> is \<open>Str (Frac (1 / 2)) NaN\<close>, a blank \<open>' '\<close> is
    \<open>Str (Num 0) NaN\<close>, \<open>'12px'\<close> is \<open>Str NaN (Num 12)\<close> and \<open>'abc'\<close> is \<open>Str NaN NaN\<close>.
\<close>

datatype jsval = Undefined | Null | Boolean bool | Val number | Str_empty | Str_all | Str number number

text \<open>The decimal rendering of an integer as a string, and a string that reads as no number.\<close>

abbreviation Str_numeric :: "int \<Rightarrow> jsval" where
  "Str_numeric n \<equiv> Str (Num n) (Num n)"

abbreviation Str_other :: jsval where
  "Str_other \<equiv> Str NaN NaN"

fun truthy :: "jsval \<Rightarrow> bool" where
  "truthy Undefined = False"
| "truthy Null = False"
| "truthy (Boolean b) = b"
| "truthy (Val NaN) = False"
| "truthy (Val (Num n)) = (n \<noteq> 0)"
| "truthy (Val (Frac r)) = (r \<noteq> 0)"
| "truthy (Val x) = True"
| "truthy Str_empty = False"
| "truthy Str_all = True"
| "truthy (Str x i) = True"

fun typeof_string :: "jsval \<Rightarrow> bool" where
  "typeof_string Str_empty = True"
| "typeof_string Str_all = True"
| "typeof_string (Str x i) = True"
| "typeof_string v = False"

fun typeof_number :: "jsval \<Rightarrow> bool" where
  "typeof_number (Val x) = True"
| "typeof_number v = False"

text \<open>\<open>Number(v)\<close>, the coercion that \<open>isNaN\<close>, \<open><\<close> and \<open>Math.min\<close> apply.\<close>

fun Number :: "jsval \<Rightarrow> number" where
  "Number Undefined = NaN"
| "Number Null = Num 0"
| "Number (Boolean b) = (if b then Num 1 else Num 0)"
| "Number (Val x) = x"
| "Number Str_empty = Num 0"
| "Number Str_all = NaN"
| "Number (Str x i) = x"

text \<open>
  \<open>parseInt(v)\<close> reads the leading integer of the string rendering of \<open>v\<close>. A number is
  rendered in plain decimal when its magnitude is at least \<open>10\<^sup>-\<^sup>6\<close> and below
  \<open>10\<^sup>2\<^sup>1\<close>, and \<open>parseInt\<close> then reads its integer part; a smaller or larger one is
  rendered with an exponent, as in \<open>5e-7\<close> and \<open>1.5e+21\<close>, and \<open>parseInt\<close> reads the digit
  before the point. The renderings of \<open>NaN\<close> and the infinities start with no digit.
\<close>

fun leading_digit :: "nat \<Rightarrow> nat" where
  "leading_digit n = (if n < 10 then n else leading_digit (n div 10))"

declare leading_digit.simps [simp del]

function first_digit :: "rat \<Rightarrow> int" where
  "first_digit r = (if r \<le> 0 \<or> 1 \<le> r then \<lfloor>r\<rfloor> else first_digit (10 * r))"
  by pat_completeness auto
termination
proof (relation "measure (\<lambda>r. nat \<lceil>1 / r\<rceil>)")
  show "wf (measure (\<lambda>r::rat. nat \<lceil>1 / r\<rceil>))" by simp
next
  fix r :: rat
  assume "\<not> (r \<le> 0 \<or> 1 \<le> r)"
  then have r: "0 < r" "r < 1" by auto
  define k where "k = \<lceil>1 / r\<rceil>"
  from r have "1 < 1 / r" by simp
  then have k: "2 \<le> k" unfolding k_def by linarith
  have "1 / (10 * r) = (1 / r) / 10" by simp
  also have "\<dots> \<le> of_int k / 10" unfolding k_def by (simp add: divide_right_mono)
  also have "\<dots> \<le> of_int (k - 1)" using k by simp
  finally have "\<lceil>1 / (10 * r)\<rceil> \<le> k - 1" by (simp only: ceiling_le_iff)
  then have "nat \<lceil>1 / (10 * r)\<rceil> < nat k" using k by linarith
  then show "(10 * r, r) \<in> measure (\<lambda>r. nat \<lceil>1 / r\<rceil>)" unfolding in_measure k_def .
qed

declare first_digit.simps [simp del]

fun parseInt_number :: "number \<Rightarrow> number" where
  "parseInt_number (Num n) =
     (if \<bar>n\<bar> < 10 ^ 21 then Num n else Num (sgn n * int (leading_digit (nat \<bar>n\<bar>))))"
| "parseInt_number (Frac r) =
     (let s = (if r < 0 then - 1 else 1)
      in if 10 ^ 21 \<le> \<bar>r\<bar> then Num (s * int (leading_digit (nat \<lfloor>\<bar>r\<bar>\<rfloor>)))
         else if 1 / 10 ^ 6 \<le> \<bar>r\<bar> then Num (s * \<lfloor>\<bar>r\<bar>\<rfloor>)
         else Num (s * first_digit \<bar>r\<bar>))"
| "parseInt_number x = NaN"

fun parseInt :: "jsval \<Rightarrow> number" where
  "parseInt (Val x) = parseInt_number x"
| "parseInt (Str x i) = i"
| "parseInt v = NaN"

definition isNaN :: "jsval \<Rightarrow> bool" where
  "isNaN v = (Number v = NaN)"

datatype error = TypeError string

section \<open>Accounts and the storage adapter\<close>

text \<open>
  The record of the JavaScript variants. The field \<open>daily\<close> holds the time of the last
  claim in milliseconds; where the source keeps it as the string \<open>Date.now().toString()\<close>
  (initially \<open>"0"\<close>) and reads it back with \<open>parseInt\<close>, the model keeps the integer.
\<close>

record account =
  userID :: string
  platform :: string
  wallet :: number
  bank :: number
  bankCapacity :: number
  daily :: int

text \<open>The TypeScript variant's \<open>EconomyUser\<close> has two more fields.\<close>

record EconomyUser = account +
  createdAt :: int
  updatedAt :: int

text \<open>
  Modelled from the spec: the collection of the storage engine (the package \<open>flaredb\<close>,
  which is not among the sources), as the specification's storage adapter contract has
  it: point lookup by the exact key \<open>(userID, platform)\<close>, insert-or-replace by key,
  update of the fields of the record a filter matches, delete by key, and a scan, taken
  here in insertion order.
\<close>

type_synonym 'a collection = "((string \<times> string) \<times> 'a) list"

definition findOne :: "'a collection \<Rightarrow> string \<Rightarrow> string \<Rightarrow> 'a option" where
  "findOne users uid p = map_of users (uid, p)"

definition put :: "'a account_scheme collection \<Rightarrow> 'a account_scheme \<Rightarrow> 'a account_scheme collection" where
  "put users u = AList.update (userID u, platform u) u users"

definition updateOne :: "'a collection \<Rightarrow> string \<Rightarrow> string \<Rightarrow> ('a \<Rightarrow> 'a) \<Rightarrow> 'a collection" where
  "updateOne users uid p upd =
     (case map_of users (uid, p) of
        None \<Rightarrow> users
      | Some u \<Rightarrow> AList.update (uid, p) (upd u) users)"

definition deleteOne :: "'a collection \<Rightarrow> string \<Rightarrow> string \<Rightarrow> 'a collection" where
  "deleteOne users uid p = AList.delete (uid, p) users"

definition find_platform :: "'a account_scheme collection \<Rightarrow> string \<Rightarrow> 'a account_scheme list" where
  "find_platform users p = filter (\<lambda>u. platform u = p) (map snd users)"

definition find_all :: "'a collection \<Rightarrow> 'a list" where
  "find_all users = map snd users"

text \<open>The data model's invariant of one account, and of every stored account.\<close>

definition account_ok :: "'a account_scheme \<Rightarrow> bool" where
  "account_ok u = (js_le (Num 0) (wallet u) \<and> js_le (Num 0) (bank u) \<and> js_le (bank u) (bankCapacity u))"

definition store_ok :: "('k \<times> 'a account_scheme) list \<Rightarrow> bool" where
  "store_ok users = (\<forall>k u. map_of users k = Some u \<longrightarrow> account_ok u)"

section \<open>The TypeScript variant\<close>

subsection \<open>Amount and time helpers\<close>

definition DAILY_COOLDOWN :: int where
  "DAILY_COOLDOWN = 86400000"

definition isValidAmount :: "jsval \<Rightarrow> bool" where
  "isValidAmount amount =
     (let num = (if typeof_string amount then parseInt amount else Number amount)
      in num \<noteq> NaN \<and> js_lt (Num 0) num)"

definition parseAmount :: "jsval \<Rightarrow> number" where
  "parseAmount amount = (if typeof_string amount then parseInt amount else Number amount)"

text \<open>Decimal rendering of a natural number, as a template literal prints it.\<close>

definition digit :: "nat \<Rightarrow> char" where
  "digit d = ''0123456789'' ! d"

fun decimal :: "nat \<Rightarrow> string" where
  "decimal n = (if 10 \<le> n then decimal (n div 10) @ [digit (n mod 10)] else [digit n])"

declare decimal.simps [simp del]

fun join :: "string \<Rightarrow> string list \<Rightarrow> string" where
  "join sep [] = []"
| "join sep [x] = x"
| "join sep (x # y # ys) = x @ sep @ join sep (y # ys)"

record Cooldown =
  hours :: nat
  minutes :: nat
  seconds :: nat
  formatted :: string

text \<open>
  \<open>formatCooldown\<close> is only called with a positive number of milliseconds, so the argument
  is a natural number; on it \<open>Math.floor((ms / 1000) % 60)\<close> is \<open>(ms div 1000) mod 60\<close>.
\<close>

definition formatCooldown :: "nat \<Rightarrow> Cooldown" where
  "formatCooldown milliseconds =
     (let seconds = (milliseconds div 1000) mod 60;
          minutes = (milliseconds div (1000 * 60)) mod 60;
          hours = (milliseconds div (1000 * 60 * 60)) mod 24;
          parts = (if hours > 0 then [decimal hours @ '' hour(s)''] else [])
                @ (if minutes > 0 then [decimal minutes @ '' minute(s)''] else [])
                @ (if seconds > 0 then [decimal seconds @ '' second(s)''] else [])
      in \<lparr>hours = hours, minutes = minutes, seconds = seconds,
          formatted = (if join '', '' parts = [] then ''0 seconds'' else join '', '' parts)\<rparr>)"

subsection \<open>Results\<close>

record BalanceResult =
  res_wallet :: number
  res_bank :: number
  res_bankCapacity :: number
  netWorth :: number

record TransferResult =
  t_success :: bool
  t_amount :: number
  t_fromUser :: string
  t_toUser :: string
  t_platform :: string

record DailyResult =
  d_success :: bool
  d_amount :: "number option"
  d_cooldown :: "Cooldown option"

record BankResult =
  b_success :: bool
  b_amount :: number
  b_newBalance :: number
  b_type :: string

record LeaderboardEntry =
  l_userID :: string
  l_platform :: string
  l_wallet :: number
  l_bank :: number
  l_netWorth :: number
  l_rank :: nat

subsection \<open>Operations\<close>

text \<open>
  Every operation takes the collection and returns its outcome (\<open>Inl\<close> for a thrown
  error) with the collection as it has left it: a throw after a write keeps the write.
  All readings of \<open>Date.now()\<close> within one call are the one value \<open>now\<close>.
\<close>

definition createUser :: "EconomyUser collection \<Rightarrow> string \<Rightarrow> string \<Rightarrow> int \<Rightarrow> EconomyUser \<times> EconomyUser collection" where
  "createUser users uid p now =
     (let newUser = \<lparr>userID = uid, platform = p, wallet = Num 0, bank = Num 0,
                      bankCapacity = Num 2500, daily = 0, createdAt = now, updatedAt = now\<rparr>
      in (newUser, put users newUser))"

text \<open>The source's \<open>findOne({ userID, platform }) || createUser(userID, platform)\<close>.\<close>

definition findOrCreate_ts :: "EconomyUser collection \<Rightarrow> string \<Rightarrow> string \<Rightarrow> int \<Rightarrow> EconomyUser \<times> EconomyUser collection" where
  "findOrCreate_ts users uid p now =
     (case findOne users uid p of
        Some user \<Rightarrow> (user, users)
      | None \<Rightarrow> createUser users uid p now)"

definition balance_ts :: "EconomyUser collection \<Rightarrow> string \<Rightarrow> string \<Rightarrow> int \<Rightarrow> (error + BalanceResult) \<times> EconomyUser collection" where
  "balance_ts users uid p now =
     (if uid = [] then (Inl (TypeError ''Please provide a User ID''), users)
      else let (user, users1) = findOrCreate_ts users uid p now
           in (Inr \<lparr>res_wallet = wallet user, res_bank = bank user,
                    res_bankCapacity = bankCapacity user,
                    netWorth = js_add (wallet user) (bank user)\<rparr>, users1))"

definition addMoney_ts :: "EconomyUser collection \<Rightarrow> string \<Rightarrow> jsval \<Rightarrow> string \<Rightarrow> int \<Rightarrow> (error + number) \<times> EconomyUser collection" where
  "addMoney_ts users uid amount p now =
     (if uid = [] then (Inl (TypeError ''Please provide a User ID''), users)
      else if \<not> isValidAmount amount then (Inl (TypeError ''Please provide a valid amount''), users)
      else let parsedAmount = parseAmount amount;
               (user, users1) = findOrCreate_ts users uid p now;
               user1 = user\<lparr>wallet := js_add (wallet user) parsedAmount, updatedAt := now\<rparr>
           in (Inr parsedAmount, updateOne users1 uid p (\<lambda>_. user1)))"

definition removeMoney_ts :: "EconomyUser collection \<Rightarrow> string \<Rightarrow> jsval \<Rightarrow> string \<Rightarrow> int \<Rightarrow> (error + number) \<times> EconomyUser collection" where
  "removeMoney_ts users uid amount p now =
     (if uid = [] then (Inl (TypeError ''Please provide a User ID''), users)
      else if \<not> isValidAmount amount then (Inl (TypeError ''Please provide a valid amount''), users)
      else let parsedAmount = parseAmount amount
           in case findOne users uid p of
                None \<Rightarrow> (Inr (Num 0), snd (createUser users uid p now))
              | Some user \<Rightarrow>
                  let actualAmount = Math_min parsedAmount (wallet user);
                      user1 = user\<lparr>wallet := js_sub (wallet user) actualAmount, updatedAt := now\<rparr>
                  in (Inr actualAmount, updateOne users uid p (\<lambda>_. user1)))"

definition transfer_ts :: "EconomyUser collection \<Rightarrow> string \<Rightarrow> string \<Rightarrow> jsval \<Rightarrow> string \<Rightarrow> int \<Rightarrow> (error + TransferResult) \<times> EconomyUser collection" where
  "transfer_ts users fromUserID toUserID amount p now =
     (if fromUserID = [] \<or> toUserID = []
        then (Inl (TypeError ''Please provide both sender and receiver User IDs''), users)
      else if \<not> isValidAmount amount then (Inl (TypeError ''Please provide a valid amount''), users)
      else let parsedAmount = parseAmount amount
           in if fromUserID = toUserID
                then (Inr \<lparr>t_success = False, t_amount = Num 0, t_fromUser = fromUserID,
                          t_toUser = toUserID, t_platform = p\<rparr>, users)
              else let (fromUser, users1) = findOrCreate_ts users fromUserID p now;
                       (toUser, users2) = findOrCreate_ts users1 toUserID p now
                   in if js_lt (wallet fromUser) parsedAmount
                        then (Inr \<lparr>t_success = False, t_amount = Num 0, t_fromUser = fromUserID,
                                  t_toUser = toUserID, t_platform = p\<rparr>, users2)
                      else let fromUser1 = fromUser\<lparr>wallet := js_sub (wallet fromUser) parsedAmount, updatedAt := now\<rparr>;
                               toUser1 = toUser\<lparr>wallet := js_add (wallet toUser) parsedAmount, updatedAt := now\<rparr>;
                               users3 = updateOne users2 fromUserID p (\<lambda>_. fromUser1);
                               users4 = updateOne users3 toUserID p (\<lambda>_. toUser1)
                           in (Inr \<lparr>t_success = True, t_amount = parsedAmount, t_fromUser = fromUserID,
                                    t_toUser = toUserID, t_platform = p\<rparr>, users4))"

definition daily_ts :: "EconomyUser collection \<Rightarrow> string \<Rightarrow> jsval \<Rightarrow> string \<Rightarrow> int \<Rightarrow> (error + DailyResult) \<times> EconomyUser collection" where
  "daily_ts users uid amount p now =
     (if uid = [] then (Inl (TypeError ''Please provide a User ID''), users)
      else if \<not> isValidAmount amount then (Inl (TypeError ''Please provide a valid amount''), users)
      else let parsedAmount = parseAmount amount;
               (user, users1) = findOrCreate_ts users uid p now;
               cooldown = DAILY_COOLDOWN - (now - daily user)
           in if cooldown > 0
                then (Inr \<lparr>d_success = False, d_amount = None,
                          d_cooldown = Some (formatCooldown (nat cooldown))\<rparr>, users1)
              else let user1 = user\<lparr>wallet := js_add (wallet user) parsedAmount, daily := now, updatedAt := now\<rparr>
                   in (Inr \<lparr>d_success = True, d_amount = Some parsedAmount, d_cooldown = None\<rparr>,
                       updateOne users1 uid p (\<lambda>_. user1)))"

definition deposit_ts :: "EconomyUser collection \<Rightarrow> string \<Rightarrow> jsval \<Rightarrow> string \<Rightarrow> int \<Rightarrow> (error + BankResult) \<times> EconomyUser collection" where
  "deposit_ts users uid amount p now =
     (if uid = [] then (Inl (TypeError ''Please provide a User ID''), users)
      else let (user, users1) = findOrCreate_ts users uid p now
           in if amount \<noteq> Str_all \<and> \<not> isValidAmount amount
                then (Inl (TypeError ''Please provide a valid amount''), users1)
              else let depositAmount0 = (if amount = Str_all then wallet user else parseAmount amount);
                       depositAmount = (if js_lt (wallet user) depositAmount0 then wallet user else depositAmount0);
                       availableSpace = js_sub (bankCapacity user) (bank user);
                       actualDeposit = Math_min depositAmount availableSpace;
                       user1 = user\<lparr>wallet := js_sub (wallet user) actualDeposit,
                                    bank := js_add (bank user) actualDeposit, updatedAt := now\<rparr>
                   in (Inr \<lparr>b_success = js_lt (Num 0) actualDeposit, b_amount = actualDeposit,
                            b_newBalance = bank user1, b_type = ''deposit''\<rparr>,
                       updateOne users1 uid p (\<lambda>_. user1)))"

definition withdraw_ts :: "EconomyUser collection \<Rightarrow> string \<Rightarrow> jsval \<Rightarrow> string \<Rightarrow> int \<Rightarrow> (error + BankResult) \<times> EconomyUser collection" where
  "withdraw_ts users uid amount p now =
     (if uid = [] then (Inl (TypeError ''Please provide a User ID''), users)
      else let (user, users1) = findOrCreate_ts users uid p now
           in if amount \<noteq> Str_all \<and> \<not> isValidAmount amount
                then (Inl (TypeError ''Please provide a valid amount''), users1)
              else let withdrawAmount0 = (if amount = Str_all then bank user else parseAmount amount);
                       withdrawAmount = (if js_lt (bank user) withdrawAmount0 then bank user else withdrawAmount0);
                       user1 = user\<lparr>bank := js_sub (bank user) withdrawAmount,
                                    wallet := js_add (wallet user) withdrawAmount, updatedAt := now\<rparr>
                   in (Inr \<lparr>b_success = js_lt (Num 0) withdrawAmount, b_amount = withdrawAmount,
                            b_newBalance = bank user1, b_type = ''withdraw''\<rparr>,
                       updateOne users1 uid p (\<lambda>_. user1)))"

definition upgradeBank :: "EconomyUser collection \<Rightarrow> string \<Rightarrow> jsval \<Rightarrow> string \<Rightarrow> int \<Rightarrow> (error + number) \<times> EconomyUser collection" where
  "upgradeBank users uid capacity p now =
     (if uid = [] then (Inl (TypeError ''Please provide a User ID''), users)
      else if \<not> isValidAmount capacity then (Inl (TypeError ''Please provide a valid capacity amount''), users)
      else let parsedCapacity = parseAmount capacity;
               (user, users1) = findOrCreate_ts users uid p now;
               user1 = user\<lparr>bankCapacity := js_add (bankCapacity user) parsedCapacity, updatedAt := now\<rparr>
           in (Inr parsedCapacity, updateOne users1 uid p (\<lambda>_. user1)))"

definition deleteUser :: "EconomyUser collection \<Rightarrow> string \<Rightarrow> string \<Rightarrow> (error + bool) \<times> EconomyUser collection" where
  "deleteUser users uid p =
     (if uid = [] then (Inl (TypeError ''Please provide a User ID''), users)
      else case findOne users uid p of
             Some user \<Rightarrow> (Inr True, deleteOne users uid p)
           | None \<Rightarrow> (Inr False, users))"

text \<open>
  \<open>Array.prototype.sort\<close> with a comparator is a stable sort; \<open>x\<close> goes after \<open>y\<close> when
  the comparator's value on them is positive. \<open>slice(0, n)\<close> takes the integer part of
  \<open>n\<close>, counts a negative \<open>n\<close> from the end and reads \<open>NaN\<close> as \<open>0\<close>.
\<close>

fun insert_by :: "('a \<Rightarrow> 'a \<Rightarrow> number) \<Rightarrow> 'a \<Rightarrow> 'a list \<Rightarrow> 'a list" where
  "insert_by cmp x [] = [x]"
| "insert_by cmp x (y # ys) =
     (if js_lt (Num 0) (cmp x y) then y # insert_by cmp x ys else x # y # ys)"

definition sort_by :: "('a \<Rightarrow> 'a \<Rightarrow> number) \<Rightarrow> 'a list \<Rightarrow> 'a list" where
  "sort_by cmp xs = foldr (insert_by cmp) xs []"

fun slice0 :: "'a list \<Rightarrow> number \<Rightarrow> 'a list" where
  "slice0 xs (Num n) =
     (if n < 0 then take (nat (int (length xs) + n)) xs else take (nat n) xs)"
| "slice0 xs (Frac r) =
     (if r < 0 then take (nat (int (length xs) + \<lceil>r\<rceil>)) xs else take (nat \<lfloor>r\<rfloor>) xs)"
| "slice0 xs PosInf = xs"
| "slice0 xs x = []"

fun with_rank :: "nat \<Rightarrow> EconomyUser list \<Rightarrow> LeaderboardEntry list" where
  "with_rank index [] = []"
| "with_rank index (user # rest) =
     \<lparr>l_userID = userID user, l_platform = platform user, l_wallet = wallet user,
      l_bank = bank user, l_netWorth = js_add (wallet user) (bank user),
      l_rank = index + 1\<rparr> # with_rank (index + 1) rest"

text \<open>
  The optional \<open>platform\<close> of \<open>leaderboard\<close> is absent when it is the empty string; an
  undefined \<open>count\<close> takes the parameter's default.
\<close>

definition leaderboard_ts :: "EconomyUser collection \<Rightarrow> jsval \<Rightarrow> string \<Rightarrow> error + LeaderboardEntry list" where
  "leaderboard_ts users count_arg p =
     (let count = (if count_arg = Undefined then Val (Num 10) else count_arg)
      in if \<not> truthy count \<or> js_le (Number count) (Num 0)
        then Inl (TypeError ''Please provide a valid count'')
      else let allUsers = (if p \<noteq> [] then filter (\<lambda>user. platform user = p) (find_all users)
                           else find_all users);
               sortedUsers = sort_by (\<lambda>a b. js_sub (js_add (wallet b) (bank b))
                                                    (js_add (wallet a) (bank a))) allUsers;
               topUsers = slice0 sortedUsers (Number count)
           in Inr (with_rank 0 topUsers))"

section \<open>The CommonJS variant\<close>

text \<open>The results of the CommonJS variant, one constructor for each shape returned.\<close>

record Balance =
  bal_wallet :: number
  bal_bank :: number
  bal_bankCapacity :: number
  total :: number

datatype money_result = Money jsval number

datatype daily_result =
    Cooling string nat nat nat
  | Rewarded jsval number

datatype bank_result =
    BankFailure string
  | BankSuccess number number number

datatype transfer_result =
    TransferFailure string
  | TransferSuccess jsval number number

definition dailyCooldown :: int where
  "dailyCooldown = 86400000"

definition create_cjs :: "account collection \<Rightarrow> string \<Rightarrow> string \<Rightarrow> (error + account) \<times> account collection" where
  "create_cjs users uid p =
     (if uid = [] then (Inl (TypeError ''Please Provide a User ID''), users)
      else case findOne users uid p of
             Some existingUser \<Rightarrow> (Inr existingUser, users)
           | None \<Rightarrow>
               let newUser = \<lparr>userID = uid, platform = p, wallet = Num 0, bank = Num 0,
                                bankCapacity = Num 2500, daily = 0\<rparr>
               in (Inr newUser, put users newUser))"

text \<open>The source's \<open>findOne(...)\<close> followed by \<open>create(...)\<close> when nothing is found.\<close>

definition findOrCreate_cjs :: "account collection \<Rightarrow> string \<Rightarrow> string \<Rightarrow> (error + account) \<times> account collection" where
  "findOrCreate_cjs users uid p =
     (case findOne users uid p of
        Some user \<Rightarrow> (Inr user, users)
      | None \<Rightarrow> create_cjs users uid p)"

definition balance_cjs :: "account collection \<Rightarrow> string \<Rightarrow> string \<Rightarrow> (error + Balance) \<times> account collection" where
  "balance_cjs users uid p =
     (if uid = [] then (Inl (TypeError ''Please Provide a User ID''), users)
      else case findOrCreate_cjs users uid p of
             (Inl e, users1) \<Rightarrow> (Inl e, users1)
           | (Inr user, users1) \<Rightarrow>
               (Inr \<lparr>bal_wallet = wallet user, bal_bank = bank user,
                     bal_bankCapacity = bankCapacity user,
                     total = js_add (wallet user) (bank user)\<rparr>, users1))"

definition addMoney_cjs :: "account collection \<Rightarrow> string \<Rightarrow> string \<Rightarrow> jsval \<Rightarrow> (error + money_result) \<times> account collection" where
  "addMoney_cjs users uid p amount =
     (if uid = [] then (Inl (TypeError ''Please Provide a User ID''), users)
      else if p = [] then (Inl (TypeError ''Please Provide a Platform''), users)
      else if \<not> truthy amount \<and> amount \<noteq> Val (Num 0) then (Inl (TypeError ''Please Provide an Amount''), users)
      else if isNaN amount then (Inl (TypeError ''The amount should be a number''), users)
      else if js_lt (Number amount) (Num 0) then (Inl (TypeError ''Amount can't be less than zero''), users)
      else case findOrCreate_cjs users uid p of
             (Inl e, users1) \<Rightarrow> (Inl e, users1)
           | (Inr user, users1) \<Rightarrow>
               let w = js_add (wallet user) (parseInt amount)
               in (Inr (Money amount w), updateOne users1 uid p (\<lambda>u. u\<lparr>wallet := w\<rparr>)))"

definition removeMoney_cjs :: "account collection \<Rightarrow> string \<Rightarrow> string \<Rightarrow> jsval \<Rightarrow> (error + money_result) \<times> account collection" where
  "removeMoney_cjs users uid p amount =
     (if uid = [] then (Inl (TypeError ''Please Provide a User ID''), users)
      else if p = [] then (Inl (TypeError ''Please Provide a Platform''), users)
      else if \<not> truthy amount \<and> amount \<noteq> Val (Num 0) then (Inl (TypeError ''Please Provide an Amount''), users)
      else if isNaN amount then (Inl (TypeError ''The amount should be a number''), users)
      else if js_lt (Number amount) (Num 0) then (Inl (TypeError ''Amount can't be less than zero''), users)
      else case findOrCreate_cjs users uid p of
             (Inl e, users1) \<Rightarrow> (Inl e, users1)
           | (Inr user, users1) \<Rightarrow>
               let actualAmount = Math_min (Number amount) (wallet user);
                   w = js_sub (wallet user) actualAmount
               in (Inr (Money (Val actualAmount) w), updateOne users1 uid p (\<lambda>u. u\<lparr>wallet := w\<rparr>)))"

definition setMoney_cjs :: "account collection \<Rightarrow> string \<Rightarrow> string \<Rightarrow> jsval \<Rightarrow> jsval \<Rightarrow> (error + number \<times> number) \<times> account collection" where
  "setMoney_cjs users uid p wallet_arg bank_arg =
     (if uid = [] then (Inl (TypeError ''Please Provide a User ID''), users)
      else if p = [] then (Inl (TypeError ''Please Provide a Platform''), users)
      else if wallet_arg = Undefined \<or> bank_arg = Undefined
        then (Inl (TypeError ''Please Provide both wallet and bank amounts''), users)
      else if isNaN wallet_arg \<or> isNaN bank_arg then (Inl (TypeError ''Amounts should be numbers''), users)
      else if js_lt (Number wallet_arg) (Num 0) \<or> js_lt (Number bank_arg) (Num 0)
        then (Inl (TypeError ''Amounts can't be less than zero''), users)
      else case findOrCreate_cjs users uid p of
             (Inl e, users1) \<Rightarrow> (Inl e, users1)
           | (Inr user, users1) \<Rightarrow>
               let w = parseInt wallet_arg; b = parseInt bank_arg
               in (Inr (w, b), updateOne users1 uid p (\<lambda>u. u\<lparr>wallet := w, bank := b\<rparr>)))"

definition addBankCapacity_cjs :: "account collection \<Rightarrow> string \<Rightarrow> string \<Rightarrow> jsval \<Rightarrow> (error + number) \<times> account collection" where
  "addBankCapacity_cjs users uid p capacity =
     (if uid = [] then (Inl (TypeError ''Please Provide a User ID''), users)
      else if p = [] then (Inl (TypeError ''Please Provide a Platform''), users)
      else if \<not> truthy capacity \<and> capacity \<noteq> Val (Num 0) then (Inl (TypeError ''Please Provide a Capacity''), users)
      else if isNaN capacity then (Inl (TypeError ''The capacity should be a number''), users)
      else if js_lt (Number capacity) (Num 0) then (Inl (TypeError ''Capacity can't be less than zero''), users)
      else case findOrCreate_cjs users uid p of
             (Inl e, users1) \<Rightarrow> (Inl e, users1)
           | (Inr user, users1) \<Rightarrow>
               let c = js_add (bankCapacity user) (parseInt capacity)
               in (Inr c, updateOne users1 uid p (\<lambda>u. u\<lparr>bankCapacity := c\<rparr>)))"

definition delete_cjs :: "account collection \<Rightarrow> string \<Rightarrow> string \<Rightarrow> (error + bool) \<times> account collection" where
  "delete_cjs users uid p =
     (if uid = [] then (Inl (TypeError ''Please Provide a User ID''), users)
      else case findOne users uid p of
             None \<Rightarrow> (Inr False, users)
           | Some user \<Rightarrow> (Inr True, deleteOne users uid p))"

definition leaderboard_cjs :: "account collection \<Rightarrow> string \<Rightarrow> jsval \<Rightarrow> string \<Rightarrow> error + account list" where
  "leaderboard_cjs users p limit_arg type =
     (let limit = (if limit_arg = Undefined then Val (Num 10) else limit_arg)
      in if p = [] then Inl (TypeError ''Please Provide a Platform'')
      else if isNaN limit then Inl (TypeError ''Limit must be a number'')
      else if type \<notin> set [''wallet'', ''bank'', ''total'']
        then Inl (TypeError (''Type must be 'wallet', 'bank', or 'total'' @ [CHR 0x27]))
      else let allUsers = find_platform users p;
               value_of = (\<lambda>u. if type = ''total'' then js_add (wallet u) (bank u)
                                else if type = ''wallet'' then wallet u else bank u);
               sortedUsers = sort_by (\<lambda>a b. js_sub (value_of b) (value_of a)) allUsers
           in Inr (slice0 sortedUsers (Number limit)))"

definition daily_cjs :: "account collection \<Rightarrow> string \<Rightarrow> string \<Rightarrow> jsval \<Rightarrow> int \<Rightarrow> (error + daily_result) \<times> account collection" where
  "daily_cjs users uid p amount now =
     (if uid = [] then (Inl (TypeError ''Please Provide a User ID''), users)
      else if p = [] then (Inl (TypeError ''Please Provide a Platform''), users)
      else if \<not> truthy amount \<and> amount \<noteq> Val (Num 0) then (Inl (TypeError ''Please Provide an amount''), users)
      else if isNaN amount then (Inl (TypeError ''Amount should be a number''), users)
      else case findOrCreate_cjs users uid p of
             (Inl e, users1) \<Rightarrow> (Inl e, users1)
           | (Inr user, users1) \<Rightarrow>
               let lastDaily = daily user;
                   cooldown = dailyCooldown - (now - lastDaily)
               in if cooldown > 0 \<and> lastDaily \<noteq> 0
                    then let seconds = nat cooldown div 1000;
                             minutes = seconds div 60;
                             hours = minutes div 60;
                             timeLeft = (if hours > 0 then decimal hours @ '' Hour(s), '' else [])
                                      @ (if minutes mod 60 > 0 then decimal (minutes mod 60) @ '' Minute(s), '' else [])
                                      @ decimal (seconds mod 60) @ '' Second(s)''
                         in (Inr (Cooling timeLeft hours (minutes mod 60) (seconds mod 60)), users1)
                  else let w = js_add (wallet user) (parseInt amount)
                       in (Inr (Rewarded amount w),
                           updateOne users1 uid p (\<lambda>u. u\<lparr>wallet := w, daily := now\<rparr>)))"

definition deposit_cjs :: "account collection \<Rightarrow> string \<Rightarrow> string \<Rightarrow> jsval \<Rightarrow> (error + bank_result) \<times> account collection" where
  "deposit_cjs users uid p amount =
     (if uid = [] then (Inl (TypeError ''Please Provide a User ID''), users)
      else if p = [] then (Inl (TypeError ''Please Provide a Platform''), users)
      else if \<not> truthy amount \<and> amount \<noteq> Val (Num 0) then (Inl (TypeError ''Please Provide an amount''), users)
      else if js_lt (Number amount) (Num 0) then (Inl (TypeError ''Deposit can't be less than zero''), users)
      else case findOrCreate_cjs users uid p of
             (Inl e, users1) \<Rightarrow> (Inl e, users1)
           | (Inr user, users1) \<Rightarrow>
               if amount \<noteq> Str_all \<and> isNaN amount
                 then (Inl (TypeError (''Amount should be a number or 'all'' @ [CHR 0x27])), users1)
               else let depositAmount = (if amount = Str_all then wallet user
                                         else Math_min (parseInt amount) (wallet user));
                        availableSpace = js_sub (bankCapacity user) (bank user);
                        actualDeposit = Math_min depositAmount availableSpace
                    in if js_le actualDeposit (Num 0) then (Inr (BankFailure ''bank_full''), users1)
                       else let w = js_sub (wallet user) actualDeposit;
                                b = js_add (bank user) actualDeposit
                            in (Inr (BankSuccess actualDeposit w b),
                                updateOne users1 uid p (\<lambda>u. u\<lparr>wallet := w, bank := b\<rparr>)))"

definition withdraw_cjs :: "account collection \<Rightarrow> string \<Rightarrow> string \<Rightarrow> jsval \<Rightarrow> (error + bank_result) \<times> account collection" where
  "withdraw_cjs users uid p amount =
     (if uid = [] then (Inl (TypeError ''Please Provide a User ID''), users)
      else if p = [] then (Inl (TypeError ''Please Provide a Platform''), users)
      else if \<not> truthy amount \<and> amount \<noteq> Val (Num 0) then (Inl (TypeError ''Please Provide an amount''), users)
      else if js_lt (Number amount) (Num 0) then (Inl (TypeError ''Withdraw can't be less than zero''), users)
      else case findOrCreate_cjs users uid p of
             (Inl e, users1) \<Rightarrow> (Inl e, users1)
           | (Inr user, users1) \<Rightarrow>
               if amount \<noteq> Str_all \<and> isNaN amount
                 then (Inl (TypeError (''Amount should be a number or 'all'' @ [CHR 0x27])), users1)
               else let withdrawAmount = (if amount = Str_all then bank user
                                          else Math_min (parseInt amount) (bank user))
                    in if js_le withdrawAmount (Num 0) then (Inr (BankFailure ''insufficient_bank''), users1)
                       else let w = js_add (wallet user) withdrawAmount;
                                b = js_sub (bank user) withdrawAmount
                            in (Inr (BankSuccess withdrawAmount w b),
                                updateOne users1 uid p (\<lambda>u. u\<lparr>wallet := w, bank := b\<rparr>)))"

definition transfer_cjs :: "account collection \<Rightarrow> string \<Rightarrow> string \<Rightarrow> string \<Rightarrow> jsval \<Rightarrow> (error + transfer_result) \<times> account collection" where
  "transfer_cjs users fromUserID toUserID p amount =
     (if fromUserID = [] \<or> toUserID = []
        then (Inl (TypeError ''Please Provide both sender and receiver User IDs''), users)
      else if p = [] then (Inl (TypeError ''Please Provide a Platform''), users)
      else if \<not> truthy amount \<and> amount \<noteq> Val (Num 0) then (Inl (TypeError ''Please Provide an amount''), users)
      else if isNaN amount then (Inl (TypeError ''Amount should be a number''), users)
      else if js_lt (Number amount) (Num 0) then (Inl (TypeError ''Amount can't be less than zero''), users)
      else if fromUserID = toUserID then (Inl (TypeError ''Cannot transfer to yourself''), users)
      else case findOrCreate_cjs users fromUserID p of
             (Inl e, users1) \<Rightarrow> (Inl e, users1)
           | (Inr fromUser, users1) \<Rightarrow>
              (case findOrCreate_cjs users1 toUserID p of
                 (Inl e, users2) \<Rightarrow> (Inl e, users2)
               | (Inr toUser, users2) \<Rightarrow>
                   if js_lt (wallet fromUser) (Number amount)
                     then (Inr (TransferFailure ''insufficient_funds''), users2)
                   else let fw = js_sub (wallet fromUser) (parseInt amount);
                            tw = js_add (wallet toUser) (parseInt amount);
                            users3 = updateOne users2 fromUserID p (\<lambda>u. u\<lparr>wallet := fw\<rparr>);
                            users4 = updateOne users3 toUserID p (\<lambda>u. u\<lparr>wallet := tw\<rparr>)
                        in (Inr (TransferSuccess amount fw tw), users4)))"

section \<open>The JSON-file variant\<close>

text \<open>
  \<open>FlareDatabase\<close> keeps one object keyed by the string \<open>platform:userId\<close>; its entries
  are scanned in insertion order. The record's fields \<open>userId\<close> and \<open>lastDaily\<close> are the
  fields \<open>userID\<close> and \<open>daily\<close> of \<open>account\<close>.
\<close>

type_synonym database = "(string \<times> account) list"

definition getUser :: "database \<Rightarrow> string \<Rightarrow> string \<Rightarrow> account \<times> database" where
  "getUser data userId p =
     (let key = p @ '':'' @ userId
      in case map_of data key of
           None \<Rightarrow>
             let newUser = \<lparr>userID = userId, platform = p, wallet = Num 0, bank = Num 0,
                              bankCapacity = Num 2500, daily = 0\<rparr>
             in (newUser, AList.update key newUser data)
         | Some user \<Rightarrow> (user, data))"

text \<open>
  \<open>updateUser\<close> materialises the record when it is absent and then merges \<open>updates\<close>
  into the stored record.
\<close>

definition updateUser :: "database \<Rightarrow> string \<Rightarrow> string \<Rightarrow> (account \<Rightarrow> account) \<Rightarrow> account \<times> database" where
  "updateUser data userId p updates =
     (let key = p @ '':'' @ userId;
          (user, data1) = getUser data userId p
      in (updates user, AList.update key (updates user) data1))"

definition getAllUsers :: "database \<Rightarrow> string \<Rightarrow> account list" where
  "getAllUsers data p =
     map snd (filter (\<lambda>(key, user). if p \<noteq> [] then take (length (p @ '':'')) key = p @ '':'' else True) data)"

datatype daily_json_result = OnCooldown int string | Claimed number number

definition formatTime :: "nat \<Rightarrow> string" where
  "formatTime ms =
     (let seconds = ms div 1000;
          hours = seconds div 3600;
          minutes = (seconds mod 3600) div 60;
          secs = seconds mod 60;
          parts1 = (if hours > 0 then [decimal hours @ '' hour(s)''] else []);
          parts2 = parts1 @ (if minutes > 0 then [decimal minutes @ '' minute(s)''] else []);
          parts3 = parts2 @ (if secs > 0 \<or> length parts2 = 0 then [decimal secs @ '' second(s)''] else [])
      in join '', '' parts3)"

definition balance_json :: "database \<Rightarrow> string \<Rightarrow> string \<Rightarrow> (error + Balance) \<times> database" where
  "balance_json data userId p =
     (if userId = [] then (Inl (TypeError ''Please Provide a User ID''), data)
      else let (user, data1) = getUser data userId p
           in (Inr \<lparr>bal_wallet = wallet user, bal_bank = bank user,
                    bal_bankCapacity = bankCapacity user,
                    total = js_add (wallet user) (bank user)\<rparr>, data1))"

definition give :: "database \<Rightarrow> string \<Rightarrow> string \<Rightarrow> jsval \<Rightarrow> (error + money_result) \<times> database" where
  "give data userId p amount =
     (if userId = [] then (Inl (TypeError ''Please Provide a User ID''), data)
      else if \<not> truthy amount \<and> amount \<noteq> Val (Num 0) then (Inl (TypeError ''Please Provide an Amount''), data)
      else if isNaN amount then (Inl (TypeError ''The amount should be a number''), data)
      else if js_lt (Number amount) (Num 0) then (Inl (TypeError ''Amount can't be less than zero''), data)
      else let (user, data1) = getUser data userId p;
               newWallet = js_add (wallet user) (Number amount);
               (user1, data2) = updateUser data1 userId p (\<lambda>u. u\<lparr>wallet := newWallet\<rparr>)
           in (Inr (Money (Val (Number amount)) newWallet), data2))"

definition deduct :: "database \<Rightarrow> string \<Rightarrow> string \<Rightarrow> jsval \<Rightarrow> (error + money_result) \<times> database" where
  "deduct data userId p amount =
     (if userId = [] then (Inl (TypeError ''Please Provide a User ID''), data)
      else if \<not> truthy amount \<and> amount \<noteq> Val (Num 0) then (Inl (TypeError ''Please Provide an Amount''), data)
      else if isNaN amount then (Inl (TypeError ''The amount should be a number''), data)
      else if js_lt (Number amount) (Num 0) then (Inl (TypeError ''Amount can't be less than zero''), data)
      else let (user, data1) = getUser data userId p;
               deductAmount = Math_min (Number amount) (wallet user);
               newWallet = js_sub (wallet user) deductAmount;
               (user1, data2) = updateUser data1 userId p (\<lambda>u. u\<lparr>wallet := newWallet\<rparr>)
           in (Inr (Money (Val deductAmount) newWallet), data2))"

definition setBankCapacity :: "database \<Rightarrow> string \<Rightarrow> string \<Rightarrow> jsval \<Rightarrow> (error + number) \<times> database" where
  "setBankCapacity data userId p capacity =
     (if userId = [] then (Inl (TypeError ''Please Provide a User ID''), data)
      else if \<not> truthy capacity \<and> capacity \<noteq> Val (Num 0) then (Inl (TypeError ''Please Provide a Capacity''), data)
      else if isNaN capacity then (Inl (TypeError ''The capacity should be a number''), data)
      else if js_lt (Number capacity) (Num 0) then (Inl (TypeError ''Capacity can't be less than zero''), data)
      else let (user1, data1) = updateUser data userId p (\<lambda>u. u\<lparr>bankCapacity := Number capacity\<rparr>)
           in (Inr (Number capacity), data1))"

definition increaseBankCapacity :: "database \<Rightarrow> string \<Rightarrow> string \<Rightarrow> jsval \<Rightarrow> (error + number \<times> number) \<times> database" where
  "increaseBankCapacity data userId p amount =
     (if userId = [] then (Inl (TypeError ''Please Provide a User ID''), data)
      else if \<not> truthy amount \<and> amount \<noteq> Val (Num 0) then (Inl (TypeError ''Please Provide an Amount''), data)
      else if isNaN amount then (Inl (TypeError ''The amount should be a number''), data)
      else if js_lt (Number amount) (Num 0) then (Inl (TypeError ''Amount can't be less than zero''), data)
      else let (user, data1) = getUser data userId p;
               newCapacity = js_add (bankCapacity user) (Number amount);
               (user1, data2) = updateUser data1 userId p (\<lambda>u. u\<lparr>bankCapacity := newCapacity\<rparr>)
           in (Inr (Number amount, newCapacity), data2))"

definition create_json :: "database \<Rightarrow> string \<Rightarrow> string \<Rightarrow> (error + bool \<times> account) \<times> database" where
  "create_json data userId p =
     (if userId = [] then (Inl (TypeError ''Please Provide a User ID''), data)
      else let (user, data1) = getUser data userId p
           in (Inr (\<not> truthy (Val (wallet user)) \<and> \<not> truthy (Val (bank user)), user), data1))"

definition delete_json :: "database \<Rightarrow> string \<Rightarrow> string \<Rightarrow> (error + bool) \<times> database" where
  "delete_json data userId p =
     (if userId = [] then (Inl (TypeError ''Please Provide a User ID''), data)
      else let key = p @ '':'' @ userId;
               exists = (map_of data key \<noteq> None)
           in (Inr exists, if exists then AList.delete key data else data))"

text \<open>An undefined \<open>count\<close> takes the default 10; an absent platform is the empty string.\<close>

definition leaderboard_json :: "database \<Rightarrow> jsval \<Rightarrow> string \<Rightarrow> string \<Rightarrow> error + (account \<times> number) list" where
  "leaderboard_json data count_arg p sortBy =
     (let count = (if count_arg = Undefined then Val (Num 10) else count_arg)
      in if isNaN count then Inl (TypeError ''The count must be a number'')
      else if js_lt (Number count) (Num 1) then Inl (TypeError ''Count must be at least 1'')
      else let allUsers = getAllUsers data p;
               withTotal = map (\<lambda>user. (user, js_add (wallet user) (bank user))) allUsers;
               sortedUsers = sort_by (\<lambda>a b. if sortBy = ''wallet'' then js_sub (wallet (fst b)) (wallet (fst a))
                                              else if sortBy = ''bank'' then js_sub (bank (fst b)) (bank (fst a))
                                              else js_sub (snd b) (snd a)) withTotal
           in Inr (slice0 sortedUsers (Number count)))"

text \<open>
  \<open>cooldown\<close> is the instance's \<open>dailyCooldown\<close> option; an undefined \<open>amount\<close> takes the
  default 100.
\<close>

definition daily_json :: "int \<Rightarrow> database \<Rightarrow> string \<Rightarrow> string \<Rightarrow> jsval \<Rightarrow> int \<Rightarrow> (error + daily_json_result) \<times> database" where
  "daily_json cooldown data userId p amount_arg now =
     (let amount = (if amount_arg = Undefined then Val (Num 100) else amount_arg)
      in if userId = [] then (Inl (TypeError ''Please Provide a User ID''), data)
      else if \<not> truthy amount \<and> amount \<noteq> Val (Num 0) then (Inl (TypeError ''Please Provide an Amount''), data)
      else if isNaN amount then (Inl (TypeError ''The amount should be a number''), data)
      else if js_lt (Number amount) (Num 0) then (Inl (TypeError ''Amount can't be less than zero''), data)
      else let (user, data1) = getUser data userId p;
               timeSinceLastDaily = now - daily user
           in if timeSinceLastDaily < cooldown
                then let remainingTime = cooldown - timeSinceLastDaily
                     in (Inr (OnCooldown remainingTime (formatTime (nat remainingTime))), data1)
              else let newWallet = js_add (wallet user) (Number amount);
                       (user1, data2) = updateUser data1 userId p (\<lambda>u. u\<lparr>wallet := newWallet, daily := now\<rparr>)
                   in (Inr (Claimed (Number amount) newWallet), data2))"

definition deposit_json :: "database \<Rightarrow> string \<Rightarrow> string \<Rightarrow> jsval \<Rightarrow> (error + bank_result) \<times> database" where
  "deposit_json data userId p amount =
     (if userId = [] then (Inl (TypeError ''Please Provide a User ID''), data)
      else if \<not> truthy amount \<and> amount \<noteq> Val (Num 0) then (Inl (TypeError ''Please Provide an Amount''), data)
      else if isNaN amount \<and> amount \<noteq> Str_all
        then (Inl (TypeError (''The amount should be a number or 'all'' @ [CHR 0x27])), data)
      else if typeof_number amount \<and> js_lt (Number amount) (Num 0)
        then (Inl (TypeError ''Amount can't be less than zero''), data)
      else let (user, data1) = getUser data userId p;
               availableSpace = js_sub (bankCapacity user) (bank user);
               depositAmount = (if amount = Str_all then Math_min (wallet user) availableSpace
                                else Math_min (Math_min (Number amount) (wallet user)) availableSpace)
           in if js_le depositAmount (Num 0) then (Inr (BankFailure ''no_funds_or_space''), data1)
              else let newWallet = js_sub (wallet user) depositAmount;
                       newBank = js_add (bank user) depositAmount;
                       (user1, data2) = updateUser data1 userId p (\<lambda>u. u\<lparr>wallet := newWallet, bank := newBank\<rparr>)
                   in (Inr (BankSuccess depositAmount newWallet newBank), data2))"

definition withdraw_json :: "database \<Rightarrow> string \<Rightarrow> string \<Rightarrow> jsval \<Rightarrow> (error + bank_result) \<times> database" where
  "withdraw_json data userId p amount =
     (if userId = [] then (Inl (TypeError ''Please Provide a User ID''), data)
      else if \<not> truthy amount \<and> amount \<noteq> Val (Num 0) then (Inl (TypeError ''Please Provide an Amount''), data)
      else if isNaN amount \<and> amount \<noteq> Str_all
        then (Inl (TypeError (''The amount should be a number or 'all'' @ [CHR 0x27])), data)
      else if typeof_number amount \<and> js_lt (Number amount) (Num 0)
        then (Inl (TypeError ''Amount can't be less than zero''), data)
      else let (user, data1) = getUser data userId p;
               withdrawAmount = (if amount = Str_all then bank user
                                 else Math_min (Number amount) (bank user))
           in if js_le withdrawAmount (Num 0) then (Inr (BankFailure ''no_funds''), data1)
              else let newWallet = js_add (wallet user) withdrawAmount;
                       newBank = js_sub (bank user) withdrawAmount;
                       (user1, data2) = updateUser data1 userId p (\<lambda>u. u\<lparr>wallet := newWallet, bank := newBank\<rparr>)
                   in (Inr (BankSuccess withdrawAmount newWallet newBank), data2))"

section \<open>The ES-module variants\<close>

text \<open>
  Both ES-module variants read every stored field through \<open>Number(field) || default\<close> and
  write the whole record back with \<open>put\<close>. The queued variant hands the record to its
  write queue, which the call then waits for; the model writes it at once. (\<open>transfer\<close>
  does not use the queue.)
\<close>

definition create_esm :: "account collection \<Rightarrow> string \<Rightarrow> string \<Rightarrow> (error + account) \<times> account collection" where
  "create_esm users uid p =
     (if uid = [] then (Inl (TypeError ''Please Provide a User ID''), users)
      else case findOne users uid p of
             Some existingUser \<Rightarrow> (Inr existingUser, users)
           | None \<Rightarrow>
               let newUser = \<lparr>userID = uid, platform = p, wallet = Num 0, bank = Num 0,
                                bankCapacity = Num 2500, daily = 0\<rparr>
               in (Inr newUser, put users newUser))"

definition findOrCreate_esm :: "account collection \<Rightarrow> string \<Rightarrow> string \<Rightarrow> (error + account) \<times> account collection" where
  "findOrCreate_esm users uid p =
     (case findOne users uid p of
        Some user \<Rightarrow> (Inr user, users)
      | None \<Rightarrow> create_esm users uid p)"

text \<open>\<open>deposit\<close> of the queued variant.\<close>

definition deposit_queued :: "account collection \<Rightarrow> string \<Rightarrow> string \<Rightarrow> jsval \<Rightarrow> (error + bank_result) \<times> account collection" where
  "deposit_queued users uid p amount =
     (if uid = [] then (Inl (TypeError ''Please Provide a User ID''), users)
      else if p = [] then (Inl (TypeError ''Please Provide a Platform''), users)
      else if amount = Undefined \<or> amount = Null then (Inl (TypeError ''Please Provide an amount''), users)
      else if typeof_number amount \<and> js_lt (Number amount) (Num 0)
        then (Inl (TypeError ''Deposit can't be less than zero''), users)
      else case findOrCreate_esm users uid p of
             (Inl e, users1) \<Rightarrow> (Inl e, users1)
           | (Inr user, users1) \<Rightarrow>
               let currentWallet = or_default (wallet user) 0;
                   currentBank = or_default (bank user) 0;
                   capacity = or_default (bankCapacity user) 2500
               in if amount \<noteq> Str_all \<and> isNaN amount
                    then (Inl (TypeError (''Amount should be a number or 'all'' @ [CHR 0x27])), users1)
                  else let depositAmount = (if amount = Str_all then currentWallet
                                            else Math_min (Number amount) currentWallet);
                           availableSpace = js_sub capacity currentBank;
                           actualDeposit = Math_min depositAmount availableSpace
                       in if js_le actualDeposit (Num 0) then (Inr (BankFailure ''bank_full''), users1)
                          else let newWallet = js_sub currentWallet actualDeposit;
                                   newBank = js_add currentBank actualDeposit
                               in (Inr (BankSuccess actualDeposit newWallet newBank),
                                   put users1 \<lparr>userID = uid, platform = p, wallet = newWallet,
                                               bank = newBank, bankCapacity = capacity,
                                               daily = daily user\<rparr>))"

text \<open>
  The other operations of the queued variant. Each reads the stored fields through
  \<open>Number(field) || default\<close> and puts the whole record back.
\<close>

definition balance_queued :: "account collection \<Rightarrow> string \<Rightarrow> string \<Rightarrow> (error + Balance) \<times> account collection" where
  "balance_queued users uid p =
     (if uid = [] then (Inl (TypeError ''Please Provide a User ID''), users)
      else case findOrCreate_esm users uid p of
             (Inl e, users1) \<Rightarrow> (Inl e, users1)
           | (Inr user, users1) \<Rightarrow>
               (Inr \<lparr>bal_wallet = or_default (wallet user) 0, bal_bank = or_default (bank user) 0,
                     bal_bankCapacity = or_default (bankCapacity user) 2500,
                     total = js_add (or_default (wallet user) 0) (or_default (bank user) 0)\<rparr>, users1))"

definition addMoney_queued :: "account collection \<Rightarrow> string \<Rightarrow> string \<Rightarrow> jsval \<Rightarrow> (error + money_result) \<times> account collection" where
  "addMoney_queued users uid p amount =
     (if uid = [] then (Inl (TypeError ''Please Provide a User ID''), users)
      else if p = [] then (Inl (TypeError ''Please Provide a Platform''), users)
      else if amount = Undefined \<or> amount = Null then (Inl (TypeError ''Please Provide an Amount''), users)
      else if isNaN amount then (Inl (TypeError ''The amount should be a number''), users)
      else if js_lt (Number amount) (Num 0) then (Inl (TypeError ''Amount can't be less than zero''), users)
      else case findOrCreate_esm users uid p of
             (Inl e, users1) \<Rightarrow> (Inl e, users1)
           | (Inr user, users1) \<Rightarrow>
               let currentWallet = or_default (wallet user) 0;
                   newWallet = js_add currentWallet (Number amount)
               in (Inr (Money (Val (Number amount)) newWallet),
                   put users1 \<lparr>userID = uid, platform = p, wallet = newWallet,
                               bank = or_default (bank user) 0,
                               bankCapacity = or_default (bankCapacity user) 2500,
                               daily = daily user\<rparr>))"

definition removeMoney_queued :: "account collection \<Rightarrow> string \<Rightarrow> string \<Rightarrow> jsval \<Rightarrow> (error + money_result) \<times> account collection" where
  "removeMoney_queued users uid p amount =
     (if uid = [] then (Inl (TypeError ''Please Provide a User ID''), users)
      else if p = [] then (Inl (TypeError ''Please Provide a Platform''), users)
      else if amount = Undefined \<or> amount = Null then (Inl (TypeError ''Please Provide an Amount''), users)
      else if isNaN amount then (Inl (TypeError ''The amount should be a number''), users)
      else if js_lt (Number amount) (Num 0) then (Inl (TypeError ''Amount can't be less than zero''), users)
      else case findOrCreate_esm users uid p of
             (Inl e, users1) \<Rightarrow> (Inl e, users1)
           | (Inr user, users1) \<Rightarrow>
               let currentWallet = or_default (wallet user) 0;
                   actualAmount = Math_min (Number amount) currentWallet;
                   newWallet = js_sub currentWallet actualAmount
               in (Inr (Money (Val actualAmount) newWallet),
                   put users1 \<lparr>userID = uid, platform = p, wallet = newWallet,
                               bank = or_default (bank user) 0,
                               bankCapacity = or_default (bankCapacity user) 2500,
                               daily = daily user\<rparr>))"

definition setMoney_queued :: "account collection \<Rightarrow> string \<Rightarrow> string \<Rightarrow> jsval \<Rightarrow> jsval \<Rightarrow> (error + number \<times> number) \<times> account collection" where
  "setMoney_queued users uid p wallet_arg bank_arg =
     (if uid = [] then (Inl (TypeError ''Please Provide a User ID''), users)
      else if p = [] then (Inl (TypeError ''Please Provide a Platform''), users)
      else if wallet_arg = Undefined \<or> bank_arg = Undefined
        then (Inl (TypeError ''Please Provide both wallet and bank amounts''), users)
      else if isNaN wallet_arg \<or> isNaN bank_arg then (Inl (TypeError ''Amounts should be numbers''), users)
      else if js_lt (Number wallet_arg) (Num 0) \<or> js_lt (Number bank_arg) (Num 0)
        then (Inl (TypeError ''Amounts can't be less than zero''), users)
      else case findOrCreate_esm users uid p of
             (Inl e, users1) \<Rightarrow> (Inl e, users1)
           | (Inr user, users1) \<Rightarrow>
               (Inr (Number wallet_arg, Number bank_arg),
                put users1 \<lparr>userID = uid, platform = p, wallet = Number wallet_arg,
                            bank = Number bank_arg,
                            bankCapacity = or_default (bankCapacity user) 2500,
                            daily = daily user\<rparr>))"

definition addBankCapacity_queued :: "account collection \<Rightarrow> string \<Rightarrow> string \<Rightarrow> jsval \<Rightarrow> (error + number) \<times> account collection" where
  "addBankCapacity_queued users uid p capacity =
     (if uid = [] then (Inl (TypeError ''Please Provide a User ID''), users)
      else if p = [] then (Inl (TypeError ''Please Provide a Platform''), users)
      else if capacity = Undefined \<or> capacity = Null then (Inl (TypeError ''Please Provide a Capacity''), users)
      else if isNaN capacity then (Inl (TypeError ''The capacity should be a number''), users)
      else if js_lt (Number capacity) (Num 0) then (Inl (TypeError ''Capacity can't be less than zero''), users)
      else case findOrCreate_esm users uid p of
             (Inl e, users1) \<Rightarrow> (Inl e, users1)
           | (Inr user, users1) \<Rightarrow>
               let currentCapacity = or_default (bankCapacity user) 2500;
                   newCapacity = js_add currentCapacity (Number capacity)
               in (Inr newCapacity,
                   put users1 \<lparr>userID = uid, platform = p, wallet = or_default (wallet user) 0,
                               bank = or_default (bank user) 0, bankCapacity = newCapacity,
                               daily = daily user\<rparr>))"

definition delete_queued :: "account collection \<Rightarrow> string \<Rightarrow> string \<Rightarrow> (error + bool) \<times> account collection" where
  "delete_queued users uid p =
     (if uid = [] then (Inl (TypeError ''Please Provide a User ID''), users)
      else case findOne users uid p of
             None \<Rightarrow> (Inr False, users)
           | Some user \<Rightarrow> (Inr True, deleteOne users uid p))"

definition daily_queued :: "account collection \<Rightarrow> string \<Rightarrow> string \<Rightarrow> jsval \<Rightarrow> int \<Rightarrow> (error + daily_result) \<times> account collection" where
  "daily_queued users uid p amount now =
     (if uid = [] then (Inl (TypeError ''Please Provide a User ID''), users)
      else if p = [] then (Inl (TypeError ''Please Provide a Platform''), users)
      else if amount = Undefined \<or> amount = Null then (Inl (TypeError ''Please Provide an amount''), users)
      else if isNaN amount then (Inl (TypeError ''Amount should be a number''), users)
      else case findOrCreate_esm users uid p of
             (Inl e, users1) \<Rightarrow> (Inl e, users1)
           | (Inr user, users1) \<Rightarrow>
               let lastDaily = daily user;
                   cooldown = dailyCooldown - (now - lastDaily)
               in if cooldown > 0 \<and> lastDaily \<noteq> 0
                    then let seconds = nat cooldown div 1000;
                             minutes = seconds div 60;
                             hours = minutes div 60;
                             timeLeft = (if hours > 0 then decimal hours @ '' Hour(s), '' else [])
                                      @ (if minutes mod 60 > 0 then decimal (minutes mod 60) @ '' Minute(s), '' else [])
                                      @ decimal (seconds mod 60) @ '' Second(s)''
                         in (Inr (Cooling timeLeft hours (minutes mod 60) (seconds mod 60)), users1)
                  else let currentWallet = or_default (wallet user) 0;
                           newWallet = js_add currentWallet (Number amount)
                       in (Inr (Rewarded (Val (Number amount)) newWallet),
                           put users1 \<lparr>userID = uid, platform = p, wallet = newWallet,
                                       bank = or_default (bank user) 0,
                                       bankCapacity = or_default (bankCapacity user) 2500,
                                       daily = now\<rparr>))"

definition withdraw_queued :: "account collection \<Rightarrow> string \<Rightarrow> string \<Rightarrow> jsval \<Rightarrow> (error + bank_result) \<times> account collection" where
  "withdraw_queued users uid p amount =
     (if uid = [] then (Inl (TypeError ''Please Provide a User ID''), users)
      else if p = [] then (Inl (TypeError ''Please Provide a Platform''), users)
      else if amount = Undefined \<or> amount = Null then (Inl (TypeError ''Please Provide an amount''), users)
      else if typeof_number amount \<and> js_lt (Number amount) (Num 0)
        then (Inl (TypeError ''Withdraw can't be less than zero''), users)
      else case findOrCreate_esm users uid p of
             (Inl e, users1) \<Rightarrow> (Inl e, users1)
           | (Inr user, users1) \<Rightarrow>
               let currentWallet = or_default (wallet user) 0;
                   currentBank = or_default (bank user) 0
               in if amount \<noteq> Str_all \<and> isNaN amount
                    then (Inl (TypeError (''Amount should be a number or 'all'' @ [CHR 0x27])), users1)
                  else let withdrawAmount = (if amount = Str_all then currentBank
                                             else Math_min (Number amount) currentBank)
                       in if js_le withdrawAmount (Num 0) then (Inr (BankFailure ''insufficient_bank''), users1)
                          else let newWallet = js_add currentWallet withdrawAmount;
                                   newBank = js_sub currentBank withdrawAmount
                               in (Inr (BankSuccess withdrawAmount newWallet newBank),
                                   put users1 \<lparr>userID = uid, platform = p, wallet = newWallet,
                                               bank = newBank,
                                               bankCapacity = or_default (bankCapacity user) 2500,
                                               daily = daily user\<rparr>))"

definition transfer_queued :: "account collection \<Rightarrow> string \<Rightarrow> string \<Rightarrow> string \<Rightarrow> jsval \<Rightarrow> (error + transfer_result) \<times> account collection" where
  "transfer_queued users fromUserID toUserID p amount =
     (if fromUserID = [] \<or> toUserID = []
        then (Inl (TypeError ''Please Provide both sender and receiver User IDs''), users)
      else if p = [] then (Inl (TypeError ''Please Provide a Platform''), users)
      else if amount = Undefined \<or> amount = Null then (Inl (TypeError ''Please Provide an amount''), users)
      else if isNaN amount then (Inl (TypeError ''Amount should be a number''), users)
      else if js_lt (Number amount) (Num 0) then (Inl (TypeError ''Amount can't be less than zero''), users)
      else if fromUserID = toUserID then (Inl (TypeError ''Cannot transfer to yourself''), users)
      else case findOrCreate_esm users fromUserID p of
             (Inl e, users1) \<Rightarrow> (Inl e, users1)
           | (Inr fromUser, users1) \<Rightarrow>
              (case findOrCreate_esm users1 toUserID p of
                 (Inl e, users2) \<Rightarrow> (Inl e, users2)
               | (Inr toUser, users2) \<Rightarrow>
                   let fromWallet = or_default (wallet fromUser) 0;
                       toWallet = or_default (wallet toUser) 0
                   in if js_lt fromWallet (Number amount)
                        then (Inr (TransferFailure ''insufficient_funds''), users2)
                      else let newFromWallet = js_sub fromWallet (Number amount);
                               newToWallet = js_add toWallet (Number amount);
                               users3 = put users2 \<lparr>userID = fromUserID, platform = p, wallet = newFromWallet,
                                                    bank = or_default (bank fromUser) 0,
                                                    bankCapacity = or_default (bankCapacity fromUser) 2500,
                                                    daily = daily fromUser\<rparr>;
                               users4 = put users3 \<lparr>userID = toUserID, platform = p, wallet = newToWallet,
                                                    bank = or_default (bank toUser) 0,
                                                    bankCapacity = or_default (bankCapacity toUser) 2500,
                                                    daily = daily toUser\<rparr>
                           in (Inr (TransferSuccess (Val (Number amount)) newFromWallet newToWallet), users4)))"

text \<open>
  \<open>deposit\<close> and \<open>withdraw\<close> of the compact variant; its locals \<open>wallet\<close> and \<open>bank\<close>
  are \<open>w\<close> and \<open>b\<close> here.
\<close>

definition deposit_esm :: "account collection \<Rightarrow> string \<Rightarrow> string \<Rightarrow> jsval \<Rightarrow> (error + bank_result) \<times> account collection" where
  "deposit_esm users uid p amount =
     (if uid = [] then (Inl (TypeError ''Please Provide a User ID''), users)
      else if p = [] then (Inl (TypeError ''Please Provide a Platform''), users)
      else if amount = Undefined \<or> amount = Null then (Inl (TypeError ''Please Provide an amount''), users)
      else case findOrCreate_esm users uid p of
             (Inl e, users1) \<Rightarrow> (Inl e, users1)
           | (Inr user, users1) \<Rightarrow>
               let w = or_default (wallet user) 0;
                   b = or_default (bank user) 0;
                   cap = or_default (bankCapacity user) 2500;
                   dep = (if amount = Str_all then w else Math_min (Number amount) w);
                   space = js_sub cap b;
                   actual = Math_min dep space
               in if js_le actual (Num 0) then (Inr (BankFailure ''bank_full''), users1)
                  else (Inr (BankSuccess actual (js_sub w actual) (js_add b actual)),
                        put users1 \<lparr>userID = uid, platform = p, wallet = js_sub w actual,
                                    bank = js_add b actual, bankCapacity = cap,
                                    daily = daily user\<rparr>))"

definition withdraw_esm :: "account collection \<Rightarrow> string \<Rightarrow> string \<Rightarrow> jsval \<Rightarrow> (error + bank_result) \<times> account collection" where
  "withdraw_esm users uid p amount =
     (if uid = [] then (Inl (TypeError ''Please Provide a User ID''), users)
      else if p = [] then (Inl (TypeError ''Please Provide a Platform''), users)
      else if amount = Undefined \<or> amount = Null then (Inl (TypeError ''Please Provide an amount''), users)
      else case findOrCreate_esm users uid p of
             (Inl e, users1) \<Rightarrow> (Inl e, users1)
           | (Inr user, users1) \<Rightarrow>
               let w = or_default (wallet user) 0;
                   b = or_default (bank user) 0;
                   withdrawAmount = (if amount = Str_all then b else Math_min (Number amount) b)
               in if js_le withdrawAmount (Num 0) then (Inr (BankFailure ''insufficient_bank''), users1)
                  else (Inr (BankSuccess withdrawAmount (js_add w withdrawAmount) (js_sub b withdrawAmount)),
                        put users1 \<lparr>userID = uid, platform = p, wallet = js_add w withdrawAmount,
                                    bank = js_sub b withdrawAmount,
                                    bankCapacity = or_default (bankCapacity user) 2500,
                                    daily = daily user\<rparr>))"

section \<open>Sequences of operations\<close>

text \<open>
  A call of the ledger with its arguments; a sequence gives each call the clock reading
  it sees. Running a sequence keeps the collection each call leaves, whether the call
  returned or threw.
\<close>

datatype ts_call =
    Balance_ts string string
  | AddMoney_ts string jsval string
  | RemoveMoney_ts string jsval string
  | Transfer_ts string string jsval string
  | Daily_ts string jsval string
  | Deposit_ts string jsval string
  | Withdraw_ts string jsval string
  | UpgradeBank_ts string jsval string
  | DeleteUser_ts string string

fun exec_ts :: "EconomyUser collection \<Rightarrow> int \<times> ts_call \<Rightarrow> EconomyUser collection" where
  "exec_ts users (now, Balance_ts uid p) = snd (balance_ts users uid p now)"
| "exec_ts users (now, AddMoney_ts uid amount p) = snd (addMoney_ts users uid amount p now)"
| "exec_ts users (now, RemoveMoney_ts uid amount p) = snd (removeMoney_ts users uid amount p now)"
| "exec_ts users (now, Transfer_ts fromUserID toUserID amount p) = snd (transfer_ts users fromUserID toUserID amount p now)"
| "exec_ts users (now, Daily_ts uid amount p) = snd (daily_ts users uid amount p now)"
| "exec_ts users (now, Deposit_ts uid amount p) = snd (deposit_ts users uid amount p now)"
| "exec_ts users (now, Withdraw_ts uid amount p) = snd (withdraw_ts users uid amount p now)"
| "exec_ts users (now, UpgradeBank_ts uid capacity p) = snd (upgradeBank users uid capacity p now)"
| "exec_ts users (now, DeleteUser_ts uid p) = snd (deleteUser users uid p)"

definition run_ts :: "EconomyUser collection \<Rightarrow> (int \<times> ts_call) list \<Rightarrow> EconomyUser collection" where
  "run_ts users calls = foldl exec_ts users calls"

datatype cjs_call =
    Balance_cjs string string
  | AddMoney_cjs string string jsval
  | RemoveMoney_cjs string string jsval
  | SetMoney_cjs string string jsval jsval
  | AddBankCapacity_cjs string string jsval
  | Create_cjs string string
  | Delete_cjs string string
  | Daily_cjs string string jsval
  | Deposit_cjs string string jsval
  | Withdraw_cjs string string jsval
  | Transfer_cjs string string string jsval

fun exec_cjs :: "account collection \<Rightarrow> int \<times> cjs_call \<Rightarrow> account collection" where
  "exec_cjs users (now, Balance_cjs uid p) = snd (balance_cjs users uid p)"
| "exec_cjs users (now, AddMoney_cjs uid p amount) = snd (addMoney_cjs users uid p amount)"
| "exec_cjs users (now, RemoveMoney_cjs uid p amount) = snd (removeMoney_cjs users uid p amount)"
| "exec_cjs users (now, SetMoney_cjs uid p wallet_arg bank_arg) = snd (setMoney_cjs users uid p wallet_arg bank_arg)"
| "exec_cjs users (now, AddBankCapacity_cjs uid p capacity) = snd (addBankCapacity_cjs users uid p capacity)"
| "exec_cjs users (now, Create_cjs uid p) = snd (create_cjs users uid p)"
| "exec_cjs users (now, Delete_cjs uid p) = snd (delete_cjs users uid p)"
| "exec_cjs users (now, Daily_cjs uid p amount) = snd (daily_cjs users uid p amount now)"
| "exec_cjs users (now, Deposit_cjs uid p amount) = snd (deposit_cjs users uid p amount)"
| "exec_cjs users (now, Withdraw_cjs uid p amount) = snd (withdraw_cjs users uid p amount)"
| "exec_cjs users (now, Transfer_cjs fromUserID toUserID p amount) = snd (transfer_cjs users fromUserID toUserID p amount)"

definition run_cjs :: "account collection \<Rightarrow> (int \<times> cjs_call) list \<Rightarrow> account collection" where
  "run_cjs users calls = foldl exec_cjs users calls"

datatype json_call =
    Balance_json string string
  | Give_json string string jsval
  | Deduct_json string string jsval
  | SetBankCapacity_json string string jsval
  | IncreaseBankCapacity_json string string jsval
  | Create_json string string
  | Delete_json string string
  | Daily_json string string jsval
  | Deposit_json string string jsval
  | Withdraw_json string string jsval

fun exec_json :: "int \<Rightarrow> database \<Rightarrow> int \<times> json_call \<Rightarrow> database" where
  "exec_json cooldown data (now, Balance_json userId p) = snd (balance_json data userId p)"
| "exec_json cooldown data (now, Give_json userId p amount) = snd (give data userId p amount)"
| "exec_json cooldown data (now, Deduct_json userId p amount) = snd (deduct data userId p amount)"
| "exec_json cooldown data (now, SetBankCapacity_json userId p capacity) = snd (setBankCapacity data userId p capacity)"
| "exec_json cooldown data (now, IncreaseBankCapacity_json userId p amount) = snd (increaseBankCapacity data userId p amount)"
| "exec_json cooldown data (now, Create_json userId p) = snd (create_json data userId p)"
| "exec_json cooldown data (now, Delete_json userId p) = snd (delete_json data userId p)"
| "exec_json cooldown data (now, Daily_json userId p amount) = snd (daily_json cooldown data userId p amount now)"
| "exec_json cooldown data (now, Deposit_json userId p amount) = snd (deposit_json data userId p amount)"
| "exec_json cooldown data (now, Withdraw_json userId p amount) = snd (withdraw_json data userId p amount)"

definition run_json :: "int \<Rightarrow> database \<Rightarrow> (int \<times> json_call) list \<Rightarrow> database" where
  "run_json cooldown data calls = foldl (exec_json cooldown) data calls"

datatype queued_call =
    Balance_queued string string
  | AddMoney_queued string string jsval
  | RemoveMoney_queued string string jsval
  | SetMoney_queued string string jsval jsval
  | AddBankCapacity_queued string string jsval
  | Create_queued string string
  | Delete_queued string string
  | Daily_queued string string jsval
  | Deposit_queued string string jsval
  | Withdraw_queued string string jsval
  | Transfer_queued string string string jsval

fun exec_queued :: "account collection \<Rightarrow> int \<times> queued_call \<Rightarrow> account collection" where
  "exec_queued users (now, Balance_queued uid p) = snd (balance_queued users uid p)"
| "exec_queued users (now, AddMoney_queued uid p amount) = snd (addMoney_queued users uid p amount)"
| "exec_queued users (now, RemoveMoney_queued uid p amount) = snd (removeMoney_queued users uid p amount)"
| "exec_queued users (now, SetMoney_queued uid p wallet_arg bank_arg) = snd (setMoney_queued users uid p wallet_arg bank_arg)"
| "exec_queued users (now, AddBankCapacity_queued uid p capacity) = snd (addBankCapacity_queued users uid p capacity)"
| "exec_queued users (now, Create_queued uid p) = snd (create_esm users uid p)"
| "exec_queued users (now, Delete_queued uid p) = snd (delete_queued users uid p)"
| "exec_queued users (now, Daily_queued uid p amount) = snd (daily_queued users uid p amount now)"
| "exec_queued users (now, Deposit_queued uid p amount) = snd (deposit_queued users uid p amount)"
| "exec_queued users (now, Withdraw_queued uid p amount) = snd (withdraw_queued users uid p amount)"
| "exec_queued users (now, Transfer_queued fromUserID toUserID p amount) = snd (transfer_queued users fromUserID toUserID p amount)"

definition run_queued :: "account collection \<Rightarrow> (int \<times> queued_call) list \<Rightarrow> account collection" where
  "run_queued users calls = foldl exec_queued users calls"

text \<open>The collections that a sequence of calls goes through, the first one included.\<close>

fun states :: "('s \<Rightarrow> 'c \<Rightarrow> 's) \<Rightarrow> 's \<Rightarrow> 'c list \<Rightarrow> 's list" where
  "states exec s [] = [s]"
| "states exec s (c # calls) = s # states exec (exec s c) calls"

text \<open>
  The range in which the code's arithmetic is exact: the integers of magnitude at most
  \<open>MAX_SAFE_INTEGER\<close>. A number is \<open>safe\<close> when it is one of them, the integers \<open>ns\<close> are
  \<open>exact\<close> when all of them are, and an account or a collection is safe when its balances
  are.
\<close>

fun safe :: "number \<Rightarrow> bool" where
  "safe (Num n) = (\<bar>n\<bar> \<le> MAX_SAFE_INTEGER)"
| "safe x = False"

definition exact :: "int list \<Rightarrow> bool" where
  "exact ns = list_all (\<lambda>n. \<bar>n\<bar> \<le> MAX_SAFE_INTEGER) ns"

definition account_safe :: "'a account_scheme \<Rightarrow> bool" where
  "account_safe u = (safe (wallet u) \<and> safe (bank u) \<and> safe (bankCapacity u))"

definition store_safe :: "('k \<times> 'a account_scheme) list \<Rightarrow> bool" where
  "store_safe users = (\<forall>k u. map_of users k = Some u \<longrightarrow> account_safe u)"

text \<open>
  An amount is whole when it is an integer of magnitude at most \<open>MAX_SAFE_INTEGER\<close>, given
  as a number or as a string that \<open>Number\<close> and \<open>parseInt\<close> both read as that integer, or
  the string \<open>'all'\<close>, or absent.
\<close>

fun whole :: "jsval \<Rightarrow> bool" where
  "whole (Val (Num n)) = (\<bar>n\<bar> \<le> MAX_SAFE_INTEGER)"
| "whole (Str (Num n) (Num i)) = (n = i \<and> \<bar>n\<bar> \<le> MAX_SAFE_INTEGER)"
| "whole Str_all = True"
| "whole Undefined = True"
| "whole Null = True"
| "whole v = False"

text \<open>
  The calls that the amended invariant covers: the amounts are whole, and the call is not
  \<open>setMoney\<close>, \<open>setBankCapacity\<close> or a \<open>daily\<close> of the JavaScript variants with a negative
  amount.
\<close>

fun covered_ts :: "ts_call \<Rightarrow> bool" where
  "covered_ts (AddMoney_ts uid amount p) = whole amount"
| "covered_ts (RemoveMoney_ts uid amount p) = whole amount"
| "covered_ts (Transfer_ts fromUserID toUserID amount p) = whole amount"
| "covered_ts (Daily_ts uid amount p) = whole amount"
| "covered_ts (Deposit_ts uid amount p) = whole amount"
| "covered_ts (Withdraw_ts uid amount p) = whole amount"
| "covered_ts (UpgradeBank_ts uid capacity p) = whole capacity"
| "covered_ts call = True"

fun covered_cjs :: "cjs_call \<Rightarrow> bool" where
  "covered_cjs (SetMoney_cjs uid p wallet_arg bank_arg) = False"
| "covered_cjs (Daily_cjs uid p amount) = (whole amount \<and> \<not> js_lt (Number amount) (Num 0))"
| "covered_cjs (AddMoney_cjs uid p amount) = whole amount"
| "covered_cjs (RemoveMoney_cjs uid p amount) = whole amount"
| "covered_cjs (AddBankCapacity_cjs uid p capacity) = whole capacity"
| "covered_cjs (Deposit_cjs uid p amount) = whole amount"
| "covered_cjs (Withdraw_cjs uid p amount) = whole amount"
| "covered_cjs (Transfer_cjs fromUserID toUserID p amount) = whole amount"
| "covered_cjs call = True"

fun covered_json :: "json_call \<Rightarrow> bool" where
  "covered_json (SetBankCapacity_json userId p capacity) = False"
| "covered_json (Give_json userId p amount) = whole amount"
| "covered_json (Deduct_json userId p amount) = whole amount"
| "covered_json (IncreaseBankCapacity_json userId p amount) = whole amount"
| "covered_json (Daily_json userId p amount) = whole amount"
| "covered_json (Deposit_json userId p amount) = whole amount"
| "covered_json (Withdraw_json userId p amount) = whole amount"
| "covered_json call = True"

fun covered_queued :: "queued_call \<Rightarrow> bool" where
  "covered_queued (SetMoney_queued uid p wallet_arg bank_arg) = False"
| "covered_queued (Daily_queued uid p amount) = (whole amount \<and> \<not> js_lt (Number amount) (Num 0))"
| "covered_queued (AddMoney_queued uid p amount) = whole amount"
| "covered_queued (RemoveMoney_queued uid p amount) = whole amount"
| "covered_queued (AddBankCapacity_queued uid p capacity) = whole capacity"
| "covered_queued (Deposit_queued uid p amount) = whole amount"
| "covered_queued (Withdraw_queued uid p amount) = whole amount"
| "covered_queued (Transfer_queued fromUserID toUserID p amount) = whole amount"
| "covered_queued call = True"

section \<open>The specification's wording of the readable cooldown\<close>




section \<open>Readings of numbers\<close>

text \<open>
  What \<open>parseInt\<close> reads of a number, and the arithmetic of the infinities, on examples:
  \<open>parseInt(1e21)\<close> is 1, \<open>parseInt(5e-7)\<close> is 5, \<open>parseInt(1.5)\<close> is 1 and
  \<open>Infinity - Infinity\<close> is \<open>NaN\<close>.
\<close>

lemma parseInt_readings:
  "parseInt (Val (Num 50)) = Num 50"
  "parseInt (Val (Num (10 ^ 21))) = Num 1"
  "parseInt (Val (Num (- 25 * 10 ^ 20))) = Num (- 2)"
  "parseInt (Val (Frac (5 / 10 ^ 7))) = Num 5"
  "parseInt (Val (Frac (3 / 2))) = Num 1"
  "parseInt (Val (Frac (- 1 / 2))) = Num 0"
  "parseInt (Val PosInf) = NaN"
  by (simp_all add: leading_digit.simps first_digit.simps floor_eq_iff)

lemma infinity_arithmetic:
  "js_sub PosInf PosInf = NaN"
  "js_add PosInf (Num 1) = PosInf"
  "Math_min PosInf (Num 1) = Num 1"
  "js_lt (Num 1) PosInf"
  by simp_all

section \<open>The invariant along sequences of operations\<close>

subsection \<open>The storage adapter and the invariant\<close>

lemma findOne_put [simp]: "findOne (put users u) uid p = (if (uid, p) = (userID u, platform u) then Some u else findOne users uid p)"
  by (auto simp: findOne_def put_def update_conv')

lemma findOne_updateOne [simp]: "findOne (updateOne users uid p f) uid' p' =
   (if (uid', p') = (uid, p) then map_option f (findOne users uid p) else findOne users uid' p')"
  by (auto simp: findOne_def updateOne_def update_conv' split: option.splits)

lemma store_ok_update: "store_ok users \<Longrightarrow> account_ok u \<Longrightarrow> store_ok (AList.update k u users)"
  by (simp add: store_ok_def update_conv')

lemma store_ok_delete: "store_ok users \<Longrightarrow> store_ok (AList.delete k users)"
  by (simp add: store_ok_def delete_conv')

lemma store_ok_put: "store_ok users \<Longrightarrow> account_ok u \<Longrightarrow> store_ok (put users u)"
  by (simp add: put_def store_ok_update)

lemma store_ok_updateOne: "store_ok users \<Longrightarrow> (\<And>u. findOne users uid p = Some u \<Longrightarrow> account_ok (f u)) \<Longrightarrow> store_ok (updateOne users uid p f)"
  by (auto simp: updateOne_def findOne_def store_ok_update split: option.splits)

lemma store_ok_findOne: "store_ok users \<Longrightarrow> findOne users uid p = Some u \<Longrightarrow> account_ok u"
  by (auto simp: store_ok_def findOne_def)

lemma store_safe_put: "store_safe users \<Longrightarrow> account_safe u \<Longrightarrow> store_safe (put users u)"
  by (simp add: put_def store_safe_def update_conv')

lemma store_safe_findOne: "store_safe users \<Longrightarrow> findOne users uid p = Some u \<Longrightarrow> account_safe u"
  by (auto simp: store_safe_def findOne_def)

text \<open>An account that satisfies the invariant within the exact range holds three integers.\<close>

lemma account_ints:
  assumes "account_ok u" "account_safe u"
  obtains w b c where "wallet u = Num w" "bank u = Num b" "bankCapacity u = Num c"
    "0 \<le> w" "0 \<le> b" "b \<le> c"
proof -
  from assms(2) obtain w b c where "wallet u = Num w" "bank u = Num b" "bankCapacity u = Num c"
    unfolding account_safe_def
    by (cases "wallet u"; cases "bank u"; cases "bankCapacity u") simp_all
  with assms(1) that show ?thesis by (simp add: account_ok_def)
qed

lemma or_default_wallet [simp]: "or_default (Num w) 0 = Num w"
  by simp

lemma whole_amount:
  assumes "whole amount"
  obtains "amount = Undefined" | "amount = Null" | "amount = Str_all"
    | n where "amount = Val (Num n)" | n where "amount = Str_numeric n"
  using assms by (cases amount rule: whole.cases) auto

lemma isValidAmount_pos: "isValidAmount amount \<Longrightarrow> whole amount \<Longrightarrow> \<exists>n. parseAmount amount = Num n \<and> 0 < n"
  by (erule whole_amount) (auto simp: isValidAmount_def parseAmount_def)

lemma valid_number:
  assumes "\<not> (\<not> truthy amount \<and> amount \<noteq> Val (Num 0))" "\<not> isNaN amount" "\<not> js_lt (Number amount) (Num 0)"
    "whole amount"
  shows "\<exists>n. Number amount = Num n \<and> parseInt amount = Num n \<and> 0 \<le> n"
  using assms by (cases amount rule: whole.cases) (auto simp: isNaN_def MAX_SAFE_INTEGER_def)

lemma bank_amount:
  assumes "\<not> (\<not> truthy amount \<and> amount \<noteq> Val (Num 0))" "\<not> js_lt (Number amount) (Num 0)"
     "\<not> (amount \<noteq> Str_all \<and> isNaN amount)" "whole amount"
  shows "amount = Str_all \<or> (\<exists>n. amount \<noteq> Str_all \<and> Number amount = Num n \<and> parseInt amount = Num n \<and> 0 \<le> n)"
  using assms by (cases amount rule: whole.cases) (auto simp: isNaN_def MAX_SAFE_INTEGER_def)

lemma number_amount:
  assumes "amount \<noteq> Undefined" "amount \<noteq> Null" "\<not> isNaN amount" "whole amount"
  shows "\<exists>n. Number amount = Num n"
  using assms by (cases amount rule: whole.cases) (auto simp: isNaN_def)

subsection \<open>The TypeScript variant\<close>

lemma fetch_ts:
  assumes "store_ok users" "store_safe users"
  obtains user users1 w b c where "findOrCreate_ts users uid p now = (user, users1)"
    "store_ok users1" "store_safe users1" "findOne users1 uid p = Some user"
    "wallet user = Num w" "bank user = Num b" "bankCapacity user = Num c" "0 \<le> w" "0 \<le> b" "b \<le> c"
proof (cases "findOne users uid p")
  case None
  then have "findOrCreate_ts users uid p now =
      (\<lparr>userID = uid, platform = p, wallet = Num 0, bank = Num 0, bankCapacity = Num 2500,
        daily = 0, createdAt = now, updatedAt = now\<rparr>,
       put users \<lparr>userID = uid, platform = p, wallet = Num 0, bank = Num 0, bankCapacity = Num 2500,
        daily = 0, createdAt = now, updatedAt = now\<rparr>)"
    by (simp add: findOrCreate_ts_def createUser_def Let_def)
  moreover have "store_ok (put users \<lparr>userID = uid, platform = p, wallet = Num 0, bank = Num 0,
        bankCapacity = Num 2500, daily = 0, createdAt = now, updatedAt = now\<rparr>)"
    using assms(1) by (simp add: store_ok_put account_ok_def)
  moreover have "store_safe (put users \<lparr>userID = uid, platform = p, wallet = Num 0, bank = Num 0,
        bankCapacity = Num 2500, daily = 0, createdAt = now, updatedAt = now\<rparr>)"
    using assms(2) by (simp add: store_safe_put account_safe_def MAX_SAFE_INTEGER_def)
  ultimately show ?thesis using that[of _ _ 0 0 2500] by simp
next
  case (Some u)
  then have f: "findOrCreate_ts users uid p now = (u, users)" by (simp add: findOrCreate_ts_def)
  from Some assms have "account_ok u" "account_safe u"
    by (auto intro: store_ok_findOne store_safe_findOne)
  then obtain w b c where "wallet u = Num w" "bank u = Num b" "bankCapacity u = Num c"
    "0 \<le> w" "0 \<le> b" "b \<le> c" by (rule account_ints)
  with f Some assms that show ?thesis by blast
qed

lemma balance_ts_ok:
  assumes "store_ok users" "store_safe users"
  shows "store_ok (snd (balance_ts users uid p now))"
proof -
  from fetch_ts[OF assms, of uid p now] obtain user users1 where
    "findOrCreate_ts users uid p now = (user, users1)" "store_ok users1" by metis
  with assms(1) show ?thesis by (simp add: balance_ts_def)
qed

lemma addMoney_ts_ok:
  assumes "store_ok users" "store_safe users" "whole amount"
  shows "store_ok (snd (addMoney_ts users uid amount p now))"
proof (cases "uid = [] \<or> \<not> isValidAmount amount")
  case True
  with assms(1) show ?thesis by (auto simp: addMoney_ts_def)
next
  case False
  with assms(3) obtain n where n: "parseAmount amount = Num n" "0 < n"
    using isValidAmount_pos by blast
  from fetch_ts[OF assms(1,2), of uid p now] obtain user users1 w b c where
    f: "findOrCreate_ts users uid p now = (user, users1)" "store_ok users1"
       "store_safe users1" "findOne users1 uid p = Some user"
       "wallet user = Num w" "bank user = Num b" "bankCapacity user = Num c" "0 \<le> w" "0 \<le> b" "b \<le> c"
    by metis
  with False n show ?thesis
    by (auto simp: addMoney_ts_def Let_def account_ok_def intro!: store_ok_updateOne)
qed

lemma removeMoney_ts_ok:
  assumes "store_ok users" "store_safe users" "whole amount"
  shows "store_ok (snd (removeMoney_ts users uid amount p now))"
proof (cases "uid = [] \<or> \<not> isValidAmount amount")
  case True
  with assms(1) show ?thesis by (auto simp: removeMoney_ts_def)
next
  case False
  with assms(3) obtain n where n: "parseAmount amount = Num n" "0 < n"
    using isValidAmount_pos by blast
  show ?thesis
  proof (cases "findOne users uid p")
    case None
    then have "snd (removeMoney_ts users uid amount p now) = snd (createUser users uid p now)"
      using False by (simp add: removeMoney_ts_def)
    then show ?thesis using assms(1) by (simp add: createUser_def Let_def store_ok_put account_ok_def)
  next
    case (Some u)
    from Some assms have "account_ok u" "account_safe u"
      by (auto intro: store_ok_findOne store_safe_findOne)
    then obtain w b c where "wallet u = Num w" "bank u = Num b" "bankCapacity u = Num c"
      "0 \<le> w" "0 \<le> b" "b \<le> c" by (rule account_ints)
    with False n Some assms(1) show ?thesis
      by (auto simp: removeMoney_ts_def Let_def account_ok_def intro!: store_ok_updateOne)
  qed
qed

lemma transfer_ts_ok:
  assumes "store_ok users" "store_safe users" "whole amount"
  shows "store_ok (snd (transfer_ts users fromUserID toUserID amount p now))"
proof (cases "fromUserID = [] \<or> toUserID = [] \<or> \<not> isValidAmount amount \<or> fromUserID = toUserID")
  case True
  with assms(1) show ?thesis by (auto simp: transfer_ts_def Let_def)
next
  case False
  with assms(3) obtain n where n: "parseAmount amount = Num n" "0 < n"
    using isValidAmount_pos by blast
  from fetch_ts[OF assms(1,2), of fromUserID p now] obtain fromUser users1 w b c where
    f: "findOrCreate_ts users fromUserID p now = (fromUser, users1)" "store_ok users1"
       "store_safe users1" "findOne users1 fromUserID p = Some fromUser"
       "wallet fromUser = Num w" "bank fromUser = Num b" "bankCapacity fromUser = Num c"
       "0 \<le> w" "0 \<le> b" "b \<le> c"
    by metis
  from fetch_ts[OF f(2,3), of toUserID p now] obtain toUser users2 w' b' c' where
    t: "findOrCreate_ts users1 toUserID p now = (toUser, users2)" "store_ok users2"
       "store_safe users2" "findOne users2 toUserID p = Some toUser"
       "wallet toUser = Num w'" "bank toUser = Num b'" "bankCapacity toUser = Num c'"
       "0 \<le> w'" "0 \<le> b'" "b' \<le> c'"
    by metis
  have ok3: "store_ok (updateOne users2 fromUserID p (\<lambda>_. fromUser\<lparr>wallet := Num (w - n), updatedAt := now\<rparr>))"
    if "n \<le> w"
    using t(2) f that by (auto simp: account_ok_def intro!: store_ok_updateOne)
  show ?thesis
  proof (cases "w < n")
    case True
    with False n f t show ?thesis by (simp add: transfer_ts_def Let_def)
  next
    case nlt: False
    then have "n \<le> w" by simp
    from ok3[OF this] have "store_ok (updateOne (updateOne users2 fromUserID p
           (\<lambda>_. fromUser\<lparr>wallet := Num (w - n), updatedAt := now\<rparr>)) toUserID p
           (\<lambda>_. toUser\<lparr>wallet := Num (w' + n), updatedAt := now\<rparr>))"
      using t n by (auto simp: account_ok_def intro!: store_ok_updateOne)
    with False n f t nlt show ?thesis by (simp add: transfer_ts_def Let_def)
  qed
qed

lemma daily_ts_ok:
  assumes "store_ok users" "store_safe users" "whole amount"
  shows "store_ok (snd (daily_ts users uid amount p now))"
proof (cases "uid = [] \<or> \<not> isValidAmount amount")
  case True
  with assms(1) show ?thesis by (auto simp: daily_ts_def)
next
  case False
  with assms(3) obtain n where n: "parseAmount amount = Num n" "0 < n"
    using isValidAmount_pos by blast
  from fetch_ts[OF assms(1,2), of uid p now] obtain user users1 w b c where
    f: "findOrCreate_ts users uid p now = (user, users1)" "store_ok users1"
       "store_safe users1" "findOne users1 uid p = Some user"
       "wallet user = Num w" "bank user = Num b" "bankCapacity user = Num c" "0 \<le> w" "0 \<le> b" "b \<le> c"
    by metis
  with False n show ?thesis
    by (auto simp: daily_ts_def Let_def account_ok_def intro!: store_ok_updateOne)
qed

lemma deposit_ts_ok:
  assumes "store_ok users" "store_safe users" "whole amount"
  shows "store_ok (snd (deposit_ts users uid amount p now))"
proof -
  from fetch_ts[OF assms(1,2), of uid p now] obtain user users1 w b c where
    f: "findOrCreate_ts users uid p now = (user, users1)" "store_ok users1"
       "store_safe users1" "findOne users1 uid p = Some user"
       "wallet user = Num w" "bank user = Num b" "bankCapacity user = Num c" "0 \<le> w" "0 \<le> b" "b \<le> c"
    by metis
  consider "uid = []" | "uid \<noteq> []" "amount = Str_all"
    | "uid \<noteq> []" "amount \<noteq> Str_all" "\<not> isValidAmount amount"
    | "uid \<noteq> []" "amount \<noteq> Str_all" "isValidAmount amount" by blast
  then show ?thesis
  proof cases
    case 1
    with assms(1) show ?thesis by (simp add: deposit_ts_def)
  next
    case 2
    with f show ?thesis
      by (auto simp: deposit_ts_def Let_def account_ok_def intro!: store_ok_updateOne)
  next
    case 3
    with f show ?thesis by (simp add: deposit_ts_def)
  next
    case 4
    with assms(3) obtain n where n: "parseAmount amount = Num n" "0 < n"
      using isValidAmount_pos by blast
    with 4 f show ?thesis
      by (auto simp: deposit_ts_def Let_def account_ok_def intro!: store_ok_updateOne)
  qed
qed

lemma withdraw_ts_ok:
  assumes "store_ok users" "store_safe users" "whole amount"
  shows "store_ok (snd (withdraw_ts users uid amount p now))"
proof -
  from fetch_ts[OF assms(1,2), of uid p now] obtain user users1 w b c where
    f: "findOrCreate_ts users uid p now = (user, users1)" "store_ok users1"
       "store_safe users1" "findOne users1 uid p = Some user"
       "wallet user = Num w" "bank user = Num b" "bankCapacity user = Num c" "0 \<le> w" "0 \<le> b" "b \<le> c"
    by metis
  consider "uid = []" | "uid \<noteq> []" "amount = Str_all"
    | "uid \<noteq> []" "amount \<noteq> Str_all" "\<not> isValidAmount amount"
    | "uid \<noteq> []" "amount \<noteq> Str_all" "isValidAmount amount" by blast
  then show ?thesis
  proof cases
    case 1
    with assms(1) show ?thesis by (simp add: withdraw_ts_def)
  next
    case 2
    with f show ?thesis
      by (auto simp: withdraw_ts_def Let_def account_ok_def intro!: store_ok_updateOne)
  next
    case 3
    with f show ?thesis by (simp add: withdraw_ts_def)
  next
    case 4
    with assms(3) obtain n where n: "parseAmount amount = Num n" "0 < n"
      using isValidAmount_pos by blast
    with 4 f show ?thesis
      by (auto simp: withdraw_ts_def Let_def account_ok_def intro!: store_ok_updateOne)
  qed
qed

lemma upgradeBank_ok:
  assumes "store_ok users" "store_safe users" "whole capacity"
  shows "store_ok (snd (upgradeBank users uid capacity p now))"
proof (cases "uid = [] \<or> \<not> isValidAmount capacity")
  case True
  with assms(1) show ?thesis by (auto simp: upgradeBank_def)
next
  case False
  with assms(3) obtain n where n: "parseAmount capacity = Num n" "0 < n"
    using isValidAmount_pos by blast
  from fetch_ts[OF assms(1,2), of uid p now] obtain user users1 w b c where
    f: "findOrCreate_ts users uid p now = (user, users1)" "store_ok users1"
       "store_safe users1" "findOne users1 uid p = Some user"
       "wallet user = Num w" "bank user = Num b" "bankCapacity user = Num c" "0 \<le> w" "0 \<le> b" "b \<le> c"
    by metis
  with False n show ?thesis
    by (auto simp: upgradeBank_def Let_def account_ok_def intro!: store_ok_updateOne)
qed

lemma deleteUser_ok: "store_ok users \<Longrightarrow> store_ok (snd (deleteUser users uid p))"
  by (auto simp: deleteUser_def deleteOne_def store_ok_delete split: option.splits)

lemma exec_ts_ok: "store_ok users \<Longrightarrow> store_safe users \<Longrightarrow> covered_ts (snd c) \<Longrightarrow> store_ok (exec_ts users c)"
  by (cases c; cases "snd c") (simp_all add: balance_ts_ok addMoney_ts_ok removeMoney_ts_ok transfer_ts_ok
      daily_ts_ok deposit_ts_ok withdraw_ts_ok upgradeBank_ok deleteUser_ok)

lemma run_ts_ok:
  "store_ok users \<Longrightarrow> list_all store_safe (states exec_ts users calls) \<Longrightarrow>
   list_all covered_ts (map snd calls) \<Longrightarrow> store_ok (run_ts users calls)"
  unfolding run_ts_def by (induction calls arbitrary: users) (simp_all add: exec_ts_ok)

subsection \<open>The CommonJS variant\<close>

lemma fetch_cjs:
  assumes "store_ok users" "store_safe users" "uid \<noteq> []"
  obtains user users1 w b c where "findOrCreate_cjs users uid p = (Inr user, users1)"
    "store_ok users1" "store_safe users1" "findOne users1 uid p = Some user"
    "wallet user = Num w" "bank user = Num b" "bankCapacity user = Num c" "0 \<le> w" "0 \<le> b" "b \<le> c"
proof (cases "findOne users uid p")
  case None
  with assms(3) have "findOrCreate_cjs users uid p =
      (Inr \<lparr>userID = uid, platform = p, wallet = Num 0, bank = Num 0, bankCapacity = Num 2500, daily = 0\<rparr>,
       put users \<lparr>userID = uid, platform = p, wallet = Num 0, bank = Num 0, bankCapacity = Num 2500,
        daily = 0\<rparr>)"
    by (simp add: findOrCreate_cjs_def create_cjs_def Let_def)
  moreover have "store_ok (put users \<lparr>userID = uid, platform = p, wallet = Num 0, bank = Num 0,
        bankCapacity = Num 2500, daily = 0\<rparr>)"
    using assms(1) by (simp add: store_ok_put account_ok_def)
  moreover have "store_safe (put users \<lparr>userID = uid, platform = p, wallet = Num 0, bank = Num 0,
        bankCapacity = Num 2500, daily = 0\<rparr>)"
    using assms(2) by (simp add: store_safe_put account_safe_def MAX_SAFE_INTEGER_def)
  ultimately show ?thesis using that[of _ _ 0 0 2500] by simp
next
  case (Some u)
  then have f: "findOrCreate_cjs users uid p = (Inr u, users)" by (simp add: findOrCreate_cjs_def)
  from Some assms have "account_ok u" "account_safe u"
    by (auto intro: store_ok_findOne store_safe_findOne)
  then obtain w b c where "wallet u = Num w" "bank u = Num b" "bankCapacity u = Num c"
    "0 \<le> w" "0 \<le> b" "b \<le> c" by (rule account_ints)
  with f Some assms that show ?thesis by blast
qed

lemma balance_cjs_ok:
  assumes "store_ok users" "store_safe users"
  shows "store_ok (snd (balance_cjs users uid p))"
proof (cases "uid = []")
  case True
  with assms(1) show ?thesis by (simp add: balance_cjs_def)
next
  case False
  from fetch_cjs[OF assms False, of p] obtain user users1 where
    "findOrCreate_cjs users uid p = (Inr user, users1)" "store_ok users1" by metis
  with False show ?thesis by (simp add: balance_cjs_def)
qed

lemma addMoney_cjs_ok:
  assumes "store_ok users" "store_safe users" "whole amount"
  shows "store_ok (snd (addMoney_cjs users uid p amount))"
proof (cases "uid = [] \<or> p = [] \<or> (\<not> truthy amount \<and> amount \<noteq> Val (Num 0)) \<or> isNaN amount \<or> js_lt (Number amount) (Num 0)")
  case True
  with assms(1) show ?thesis by (auto simp: addMoney_cjs_def)
next
  case False
  with assms(3) obtain n where n: "Number amount = Num n" "parseInt amount = Num n" "0 \<le> n"
    using valid_number by blast
  from False have "uid \<noteq> []" by simp
  from fetch_cjs[OF assms(1,2) this, of p] obtain user users1 w b c where
    f: "findOrCreate_cjs users uid p = (Inr user, users1)" "store_ok users1"
       "store_safe users1" "findOne users1 uid p = Some user"
       "wallet user = Num w" "bank user = Num b" "bankCapacity user = Num c" "0 \<le> w" "0 \<le> b" "b \<le> c"
    by metis
  with False n show ?thesis
    by (auto simp: addMoney_cjs_def Let_def account_ok_def intro!: store_ok_updateOne)
qed

lemma removeMoney_cjs_ok:
  assumes "store_ok users" "store_safe users" "whole amount"
  shows "store_ok (snd (removeMoney_cjs users uid p amount))"
proof (cases "uid = [] \<or> p = [] \<or> (\<not> truthy amount \<and> amount \<noteq> Val (Num 0)) \<or> isNaN amount \<or> js_lt (Number amount) (Num 0)")
  case True
  with assms(1) show ?thesis by (auto simp: removeMoney_cjs_def)
next
  case False
  with assms(3) obtain n where n: "Number amount = Num n" "parseInt amount = Num n" "0 \<le> n"
    using valid_number by blast
  from False have "uid \<noteq> []" by simp
  from fetch_cjs[OF assms(1,2) this, of p] obtain user users1 w b c where
    f: "findOrCreate_cjs users uid p = (Inr user, users1)" "store_ok users1"
       "store_safe users1" "findOne users1 uid p = Some user"
       "wallet user = Num w" "bank user = Num b" "bankCapacity user = Num c" "0 \<le> w" "0 \<le> b" "b \<le> c"
    by metis
  with False n show ?thesis
    by (auto simp: removeMoney_cjs_def Let_def account_ok_def intro!: store_ok_updateOne)
qed

lemma addBankCapacity_cjs_ok:
  assumes "store_ok users" "store_safe users" "whole amount"
  shows "store_ok (snd (addBankCapacity_cjs users uid p amount))"
proof (cases "uid = [] \<or> p = [] \<or> (\<not> truthy amount \<and> amount \<noteq> Val (Num 0)) \<or> isNaN amount \<or> js_lt (Number amount) (Num 0)")
  case True
  with assms(1) show ?thesis by (auto simp: addBankCapacity_cjs_def)
next
  case False
  with assms(3) obtain n where n: "Number amount = Num n" "parseInt amount = Num n" "0 \<le> n"
    using valid_number by blast
  from False have "uid \<noteq> []" by simp
  from fetch_cjs[OF assms(1,2) this, of p] obtain user users1 w b c where
    f: "findOrCreate_cjs users uid p = (Inr user, users1)" "store_ok users1"
       "store_safe users1" "findOne users1 uid p = Some user"
       "wallet user = Num w" "bank user = Num b" "bankCapacity user = Num c" "0 \<le> w" "0 \<le> b" "b \<le> c"
    by metis
  with False n show ?thesis
    by (auto simp: addBankCapacity_cjs_def Let_def account_ok_def intro!: store_ok_updateOne)
qed

lemma create_cjs_ok: "store_ok users \<Longrightarrow> store_ok (snd (create_cjs users uid p))"
  by (auto simp: create_cjs_def Let_def account_ok_def store_ok_put split: option.splits)

lemma delete_cjs_ok: "store_ok users \<Longrightarrow> store_ok (snd (delete_cjs users uid p))"
  by (auto simp: delete_cjs_def deleteOne_def store_ok_delete split: option.splits)

lemma daily_cjs_ok:
  assumes "store_ok users" "store_safe users" "whole amount" "\<not> js_lt (Number amount) (Num 0)"
  shows "store_ok (snd (daily_cjs users uid p amount now))"
proof (cases "uid = [] \<or> p = [] \<or> (\<not> truthy amount \<and> amount \<noteq> Val (Num 0)) \<or> isNaN amount")
  case True
  with assms(1) show ?thesis by (auto simp: daily_cjs_def)
next
  case False
  with assms(3,4) obtain n where n: "Number amount = Num n" "parseInt amount = Num n" "0 \<le> n"
    using valid_number by blast
  from False have "uid \<noteq> []" by simp
  from fetch_cjs[OF assms(1,2) this, of p] obtain user users1 w b c where
    f: "findOrCreate_cjs users uid p = (Inr user, users1)" "store_ok users1"
       "store_safe users1" "findOne users1 uid p = Some user"
       "wallet user = Num w" "bank user = Num b" "bankCapacity user = Num c" "0 \<le> w" "0 \<le> b" "b \<le> c"
    by metis
  with False n show ?thesis
    by (auto simp: daily_cjs_def Let_def account_ok_def intro!: store_ok_updateOne)
qed

lemma deposit_cjs_ok:
  assumes "store_ok users" "store_safe users" "whole amount"
  shows "store_ok (snd (deposit_cjs users uid p amount))"
proof (cases "uid = [] \<or> p = [] \<or> (\<not> truthy amount \<and> amount \<noteq> Val (Num 0)) \<or> js_lt (Number amount) (Num 0)")
  case True
  with assms(1) show ?thesis by (auto simp: deposit_cjs_def)
next
  case False
  from False have "uid \<noteq> []" by simp
  from fetch_cjs[OF assms(1,2) this, of p] obtain user users1 w b c where
    f: "findOrCreate_cjs users uid p = (Inr user, users1)" "store_ok users1"
       "store_safe users1" "findOne users1 uid p = Some user"
       "wallet user = Num w" "bank user = Num b" "bankCapacity user = Num c" "0 \<le> w" "0 \<le> b" "b \<le> c"
    by metis
  show ?thesis
  proof (cases "amount \<noteq> Str_all \<and> isNaN amount")
    case True
    with False f show ?thesis by (auto simp: deposit_cjs_def)
  next
    case nb: False
    with False assms(3) bank_amount[of amount] consider "amount = Str_all"
      | n where "amount \<noteq> Str_all" "Number amount = Num n" "parseInt amount = Num n" "0 \<le> n" by blast
    then show ?thesis
    proof cases
      case 1
      with False f show ?thesis
        by (auto simp: deposit_cjs_def Let_def account_ok_def intro!: store_ok_updateOne)
    next
      case 2
      with False f nb show ?thesis
        by (auto simp: deposit_cjs_def Let_def account_ok_def intro!: store_ok_updateOne)
    qed
  qed
qed

lemma withdraw_cjs_ok:
  assumes "store_ok users" "store_safe users" "whole amount"
  shows "store_ok (snd (withdraw_cjs users uid p amount))"
proof (cases "uid = [] \<or> p = [] \<or> (\<not> truthy amount \<and> amount \<noteq> Val (Num 0)) \<or> js_lt (Number amount) (Num 0)")
  case True
  with assms(1) show ?thesis by (auto simp: withdraw_cjs_def)
next
  case False
  from False have "uid \<noteq> []" by simp
  from fetch_cjs[OF assms(1,2) this, of p] obtain user users1 w b c where
    f: "findOrCreate_cjs users uid p = (Inr user, users1)" "store_ok users1"
       "store_safe users1" "findOne users1 uid p = Some user"
       "wallet user = Num w" "bank user = Num b" "bankCapacity user = Num c" "0 \<le> w" "0 \<le> b" "b \<le> c"
    by metis
  show ?thesis
  proof (cases "amount \<noteq> Str_all \<and> isNaN amount")
    case True
    with False f show ?thesis by (auto simp: withdraw_cjs_def)
  next
    case nb: False
    with False assms(3) bank_amount[of amount] consider "amount = Str_all"
      | n where "amount \<noteq> Str_all" "Number amount = Num n" "parseInt amount = Num n" "0 \<le> n" by blast
    then show ?thesis
    proof cases
      case 1
      with False f show ?thesis
        by (auto simp: withdraw_cjs_def Let_def account_ok_def intro!: store_ok_updateOne)
    next
      case 2
      with False f nb show ?thesis
        by (auto simp: withdraw_cjs_def Let_def account_ok_def intro!: store_ok_updateOne)
    qed
  qed
qed

lemma store_ok_update_wallet:
  "store_ok users \<Longrightarrow> js_le (Num 0) w \<Longrightarrow> store_ok (updateOne users uid p (\<lambda>u. u\<lparr>wallet := w\<rparr>))"
  by (rule store_ok_updateOne, assumption, drule (1) store_ok_findOne) (simp add: account_ok_def)

lemma transfer_cjs_ok:
  assumes "store_ok users" "store_safe users" "whole amount"
  shows "store_ok (snd (transfer_cjs users fromUserID toUserID p amount))"
proof (cases "fromUserID = [] \<or> toUserID = [] \<or> p = [] \<or> (\<not> truthy amount \<and> amount \<noteq> Val (Num 0)) \<or> isNaN amount \<or> js_lt (Number amount) (Num 0) \<or> fromUserID = toUserID")
  case True
  with assms(1) show ?thesis by (auto simp: transfer_cjs_def)
next
  case False
  with assms(3) obtain n where n: "Number amount = Num n" "parseInt amount = Num n" "0 \<le> n"
    using valid_number by blast
  from False have ne: "fromUserID \<noteq> []" "toUserID \<noteq> []" by simp_all
  from fetch_cjs[OF assms(1,2) ne(1), of p] obtain fromUser users1 w b c where
    f: "findOrCreate_cjs users fromUserID p = (Inr fromUser, users1)" "store_ok users1"
       "store_safe users1" "findOne users1 fromUserID p = Some fromUser"
       "wallet fromUser = Num w" "0 \<le> w"
    by metis
  from fetch_cjs[OF f(2,3) ne(2), of p] obtain toUser users2 w' b' c' where
    t: "findOrCreate_cjs users1 toUserID p = (Inr toUser, users2)" "store_ok users2"
       "store_safe users2" "findOne users2 toUserID p = Some toUser"
       "wallet toUser = Num w'" "0 \<le> w'"
    by metis
  from False n f t show ?thesis
    by (auto simp: transfer_cjs_def Let_def intro!: store_ok_update_wallet)
qed

lemma exec_cjs_ok: "store_ok users \<Longrightarrow> store_safe users \<Longrightarrow> covered_cjs (snd c) \<Longrightarrow> store_ok (exec_cjs users c)"
  by (cases c; cases "snd c") (simp_all add: balance_cjs_ok addMoney_cjs_ok removeMoney_cjs_ok addBankCapacity_cjs_ok
      create_cjs_ok delete_cjs_ok daily_cjs_ok deposit_cjs_ok withdraw_cjs_ok transfer_cjs_ok)

lemma run_cjs_ok:
  "store_ok users \<Longrightarrow> list_all store_safe (states exec_cjs users calls) \<Longrightarrow>
   list_all covered_cjs (map snd calls) \<Longrightarrow> store_ok (run_cjs users calls)"
  unfolding run_cjs_def by (induction calls arbitrary: users) (simp_all add: exec_cjs_ok)

subsection \<open>The JSON-file variant\<close>

lemma getUser_again: "getUser data userId p = (user, stored) \<Longrightarrow> getUser stored userId p = (user, stored)"
  by (auto simp: getUser_def Let_def update_conv' split: option.splits)

lemma fetch_json:
  assumes "store_ok data" "store_safe data"
  obtains user data1 w b c where "getUser data userId p = (user, data1)"
    "store_ok data1" "store_safe data1" "getUser data1 userId p = (user, data1)"
    "wallet user = Num w" "bank user = Num b" "bankCapacity user = Num c" "0 \<le> w" "0 \<le> b" "b \<le> c"
proof (cases "map_of data (p @ '':'' @ userId)")
  case None
  then have g: "getUser data userId p =
      (\<lparr>userID = userId, platform = p, wallet = Num 0, bank = Num 0, bankCapacity = Num 2500, daily = 0\<rparr>,
       AList.update (p @ '':'' @ userId) \<lparr>userID = userId, platform = p, wallet = Num 0, bank = Num 0,
         bankCapacity = Num 2500, daily = 0\<rparr> data)"
    by (simp add: getUser_def Let_def)
  moreover have "store_ok (AList.update (p @ '':'' @ userId) \<lparr>userID = userId, platform = p,
        wallet = Num 0, bank = Num 0, bankCapacity = Num 2500, daily = 0\<rparr> data)"
    using assms(1) by (simp add: store_ok_update account_ok_def)
  moreover have "store_safe (AList.update (p @ '':'' @ userId) \<lparr>userID = userId, platform = p,
        wallet = Num 0, bank = Num 0, bankCapacity = Num 2500, daily = 0\<rparr> data)"
    using assms(2) by (simp add: store_safe_def update_conv' account_safe_def MAX_SAFE_INTEGER_def)
  ultimately show ?thesis using that[of _ _ 0 0 2500] getUser_again[OF g] by simp
next
  case (Some u)
  then have g: "getUser data userId p = (u, data)" by (simp add: getUser_def)
  from Some assms have "account_ok u" "account_safe u"
    by (auto simp: store_ok_def store_safe_def)
  then obtain w b c where "wallet u = Num w" "bank u = Num b" "bankCapacity u = Num c"
    "0 \<le> w" "0 \<le> b" "b \<le> c" by (rule account_ints)
  with g assms that show ?thesis by blast
qed

lemma give_ok:
  assumes "store_ok data" "store_safe data" "whole amount"
  shows "store_ok (snd (give data userId p amount))"
proof (cases "userId = [] \<or> (\<not> truthy amount \<and> amount \<noteq> Val (Num 0)) \<or> isNaN amount \<or> js_lt (Number amount) (Num 0)")
  case True
  with assms(1) show ?thesis by (auto simp: give_def)
next
  case False
  with assms(3) obtain n where n: "Number amount = Num n" "parseInt amount = Num n" "0 \<le> n"
    using valid_number by blast
  from fetch_json[OF assms(1,2), of userId p] obtain user data1 w b c where
    g: "getUser data userId p = (user, data1)" "store_ok data1" "store_safe data1"
       "getUser data1 userId p = (user, data1)"
       "wallet user = Num w" "bank user = Num b" "bankCapacity user = Num c" "0 \<le> w" "0 \<le> b" "b \<le> c"
    by metis
  with False n show ?thesis
    by (auto simp: give_def Let_def updateUser_def account_ok_def intro!: store_ok_update)
qed

lemma deduct_ok:
  assumes "store_ok data" "store_safe data" "whole amount"
  shows "store_ok (snd (deduct data userId p amount))"
proof (cases "userId = [] \<or> (\<not> truthy amount \<and> amount \<noteq> Val (Num 0)) \<or> isNaN amount \<or> js_lt (Number amount) (Num 0)")
  case True
  with assms(1) show ?thesis by (auto simp: deduct_def)
next
  case False
  with assms(3) obtain n where n: "Number amount = Num n" "parseInt amount = Num n" "0 \<le> n"
    using valid_number by blast
  from fetch_json[OF assms(1,2), of userId p] obtain user data1 w b c where
    g: "getUser data userId p = (user, data1)" "store_ok data1" "store_safe data1"
       "getUser data1 userId p = (user, data1)"
       "wallet user = Num w" "bank user = Num b" "bankCapacity user = Num c" "0 \<le> w" "0 \<le> b" "b \<le> c"
    by metis
  with False n show ?thesis
    by (auto simp: deduct_def Let_def updateUser_def account_ok_def intro!: store_ok_update)
qed

lemma increaseBankCapacity_ok:
  assumes "store_ok data" "store_safe data" "whole amount"
  shows "store_ok (snd (increaseBankCapacity data userId p amount))"
proof (cases "userId = [] \<or> (\<not> truthy amount \<and> amount \<noteq> Val (Num 0)) \<or> isNaN amount \<or> js_lt (Number amount) (Num 0)")
  case True
  with assms(1) show ?thesis by (auto simp: increaseBankCapacity_def)
next
  case False
  with assms(3) obtain n where n: "Number amount = Num n" "parseInt amount = Num n" "0 \<le> n"
    using valid_number by blast
  from fetch_json[OF assms(1,2), of userId p] obtain user data1 w b c where
    g: "getUser data userId p = (user, data1)" "store_ok data1" "store_safe data1"
       "getUser data1 userId p = (user, data1)"
       "wallet user = Num w" "bank user = Num b" "bankCapacity user = Num c" "0 \<le> w" "0 \<le> b" "b \<le> c"
    by metis
  with False n show ?thesis
    by (auto simp: increaseBankCapacity_def Let_def updateUser_def account_ok_def intro!: store_ok_update)
qed

lemma balance_json_ok:
  assumes "store_ok data" "store_safe data"
  shows "store_ok (snd (balance_json data userId p))"
proof -
  from fetch_json[OF assms, of userId p] obtain user data1 where
    "getUser data userId p = (user, data1)" "store_ok data1" by metis
  with assms(1) show ?thesis by (simp add: balance_json_def)
qed

lemma create_json_ok:
  assumes "store_ok data" "store_safe data"
  shows "store_ok (snd (create_json data userId p))"
proof -
  from fetch_json[OF assms, of userId p] obtain user data1 where
    "getUser data userId p = (user, data1)" "store_ok data1" by metis
  with assms(1) show ?thesis by (simp add: create_json_def)
qed

lemma delete_json_ok: "store_ok data \<Longrightarrow> store_ok (snd (delete_json data userId p))"
  by (auto simp: delete_json_def Let_def store_ok_delete)

lemma daily_json_ok:
  assumes "store_ok data" "store_safe data" "whole amount_arg"
  shows "store_ok (snd (daily_json cooldown data userId p amount_arg now))"
proof -
  define amount where "amount = (if amount_arg = Undefined then Val (Num 100) else amount_arg)"
  have wh: "whole amount" using assms(3) by (simp add: amount_def MAX_SAFE_INTEGER_def)
  show ?thesis
  proof (cases "userId = [] \<or> (\<not> truthy amount \<and> amount \<noteq> Val (Num 0)) \<or> isNaN amount \<or> js_lt (Number amount) (Num 0)")
    case True
    with assms(1) show ?thesis by (auto simp: daily_json_def Let_def amount_def)
  next
    case False
    with wh obtain n where n: "Number amount = Num n" "parseInt amount = Num n" "0 \<le> n"
      using valid_number by blast
    from fetch_json[OF assms(1,2), of userId p] obtain user data1 w b c where
      g: "getUser data userId p = (user, data1)" "store_ok data1" "store_safe data1"
         "getUser data1 userId p = (user, data1)"
         "wallet user = Num w" "bank user = Num b" "bankCapacity user = Num c" "0 \<le> w" "0 \<le> b" "b \<le> c"
      by metis
    with False n show ?thesis
      unfolding daily_json_def Let_def amount_def[symmetric]
      by (auto simp: updateUser_def account_ok_def intro!: store_ok_update)
  qed
qed

lemma json_bank_amount:
  assumes "\<not> (\<not> truthy amount \<and> amount \<noteq> Val (Num 0))" "\<not> (isNaN amount \<and> amount \<noteq> Str_all)" "whole amount"
  shows "amount = Str_all \<or> (\<exists>n. amount \<noteq> Str_all \<and> Number amount = Num n)"
  using assms by (cases amount rule: whole.cases) (auto simp: isNaN_def)

lemma deposit_json_ok:
  assumes "store_ok data" "store_safe data" "whole amount"
  shows "store_ok (snd (deposit_json data userId p amount))"
proof (cases "userId = [] \<or> (\<not> truthy amount \<and> amount \<noteq> Val (Num 0)) \<or> (isNaN amount \<and> amount \<noteq> Str_all) \<or> (typeof_number amount \<and> js_lt (Number amount) (Num 0))")
  case True
  with assms(1) show ?thesis by (auto simp: deposit_json_def)
next
  case False
  from fetch_json[OF assms(1,2), of userId p] obtain user data1 w b c where
    g: "getUser data userId p = (user, data1)" "store_ok data1" "store_safe data1"
       "getUser data1 userId p = (user, data1)"
       "wallet user = Num w" "bank user = Num b" "bankCapacity user = Num c" "0 \<le> w" "0 \<le> b" "b \<le> c"
    by metis
  from False assms(3) json_bank_amount[of amount] consider "amount = Str_all"
    | n where "amount \<noteq> Str_all" "Number amount = Num n" by blast
  then show ?thesis
  proof cases
    case 1
    with False g show ?thesis
      by (auto simp: deposit_json_def Let_def updateUser_def account_ok_def intro!: store_ok_update)
  next
    case 2
    with False g show ?thesis
      by (auto simp: deposit_json_def Let_def updateUser_def account_ok_def intro!: store_ok_update)
  qed
qed

lemma withdraw_json_ok:
  assumes "store_ok data" "store_safe data" "whole amount"
  shows "store_ok (snd (withdraw_json data userId p amount))"
proof (cases "userId = [] \<or> (\<not> truthy amount \<and> amount \<noteq> Val (Num 0)) \<or> (isNaN amount \<and> amount \<noteq> Str_all) \<or> (typeof_number amount \<and> js_lt (Number amount) (Num 0))")
  case True
  with assms(1) show ?thesis by (auto simp: withdraw_json_def)
next
  case False
  from fetch_json[OF assms(1,2), of userId p] obtain user data1 w b c where
    g: "getUser data userId p = (user, data1)" "store_ok data1" "store_safe data1"
       "getUser data1 userId p = (user, data1)"
       "wallet user = Num w" "bank user = Num b" "bankCapacity user = Num c" "0 \<le> w" "0 \<le> b" "b \<le> c"
    by metis
  from False assms(3) json_bank_amount[of amount] consider "amount = Str_all"
    | n where "amount \<noteq> Str_all" "Number amount = Num n" by blast
  then show ?thesis
  proof cases
    case 1
    with False g show ?thesis
      by (auto simp: withdraw_json_def Let_def updateUser_def account_ok_def intro!: store_ok_update)
  next
    case 2
    with False g show ?thesis
      by (auto simp: withdraw_json_def Let_def updateUser_def account_ok_def intro!: store_ok_update)
  qed
qed

lemma exec_json_ok: "store_ok data \<Longrightarrow> store_safe data \<Longrightarrow> covered_json (snd c) \<Longrightarrow> store_ok (exec_json cooldown data c)"
  by (cases c; cases "snd c") (simp_all add: balance_json_ok give_ok deduct_ok increaseBankCapacity_ok
      create_json_ok delete_json_ok daily_json_ok deposit_json_ok withdraw_json_ok)

lemma run_json_ok:
  "store_ok data \<Longrightarrow> list_all store_safe (states (exec_json cooldown) data calls) \<Longrightarrow>
   list_all covered_json (map snd calls) \<Longrightarrow> store_ok (run_json cooldown data calls)"
  unfolding run_json_def by (induction calls arbitrary: data) (simp_all add: exec_json_ok)

subsection \<open>The queued ES-module variant\<close>

lemma fetch_esm:
  assumes "store_ok users" "store_safe users" "uid \<noteq> []"
  obtains user users1 w b c where "findOrCreate_esm users uid p = (Inr user, users1)"
    "store_ok users1" "store_safe users1" "findOne users1 uid p = Some user"
    "wallet user = Num w" "bank user = Num b" "bankCapacity user = Num c" "0 \<le> w" "0 \<le> b" "b \<le> c"
proof (cases "findOne users uid p")
  case None
  with assms(3) have "findOrCreate_esm users uid p =
      (Inr \<lparr>userID = uid, platform = p, wallet = Num 0, bank = Num 0, bankCapacity = Num 2500, daily = 0\<rparr>,
       put users \<lparr>userID = uid, platform = p, wallet = Num 0, bank = Num 0, bankCapacity = Num 2500,
        daily = 0\<rparr>)"
    by (simp add: findOrCreate_esm_def create_esm_def Let_def)
  moreover have "store_ok (put users \<lparr>userID = uid, platform = p, wallet = Num 0, bank = Num 0,
        bankCapacity = Num 2500, daily = 0\<rparr>)"
    using assms(1) by (simp add: store_ok_put account_ok_def)
  moreover have "store_safe (put users \<lparr>userID = uid, platform = p, wallet = Num 0, bank = Num 0,
        bankCapacity = Num 2500, daily = 0\<rparr>)"
    using assms(2) by (simp add: store_safe_put account_safe_def MAX_SAFE_INTEGER_def)
  ultimately show ?thesis using that[of _ _ 0 0 2500] by simp
next
  case (Some u)
  then have f: "findOrCreate_esm users uid p = (Inr u, users)" by (simp add: findOrCreate_esm_def)
  from Some assms have "account_ok u" "account_safe u"
    by (auto intro: store_ok_findOne store_safe_findOne)
  then obtain w b c where "wallet u = Num w" "bank u = Num b" "bankCapacity u = Num c"
    "0 \<le> w" "0 \<le> b" "b \<le> c" by (rule account_ints)
  with f Some assms that show ?thesis by blast
qed

lemma balance_queued_ok:
  assumes "store_ok users" "store_safe users"
  shows "store_ok (snd (balance_queued users uid p))"
proof (cases "uid = []")
  case True
  with assms(1) show ?thesis by (simp add: balance_queued_def)
next
  case False
  from fetch_esm[OF assms False, of p] obtain user users1 where
    "findOrCreate_esm users uid p = (Inr user, users1)" "store_ok users1" by metis
  with False show ?thesis by (simp add: balance_queued_def)
qed

lemma addMoney_queued_ok:
  assumes "store_ok users" "store_safe users" "whole amount"
  shows "store_ok (snd (addMoney_queued users uid p amount))"
proof (cases "uid = [] \<or> p = [] \<or> amount = Undefined \<or> amount = Null \<or> isNaN amount \<or> js_lt (Number amount) (Num 0)")
  case True
  with assms(1) show ?thesis by (auto simp: addMoney_queued_def)
next
  case False
  with assms(3) obtain n where n: "Number amount = Num n" using number_amount by blast
  from False have "uid \<noteq> []" by simp
  from fetch_esm[OF assms(1,2) this, of p] obtain user users1 w b c where
    f: "findOrCreate_esm users uid p = (Inr user, users1)" "store_ok users1"
       "store_safe users1" "findOne users1 uid p = Some user"
       "wallet user = Num w" "bank user = Num b" "bankCapacity user = Num c" "0 \<le> w" "0 \<le> b" "b \<le> c"
    by metis
  with False n show ?thesis
    by (auto simp: addMoney_queued_def Let_def account_ok_def intro!: store_ok_put)
qed

lemma removeMoney_queued_ok:
  assumes "store_ok users" "store_safe users" "whole amount"
  shows "store_ok (snd (removeMoney_queued users uid p amount))"
proof (cases "uid = [] \<or> p = [] \<or> amount = Undefined \<or> amount = Null \<or> isNaN amount \<or> js_lt (Number amount) (Num 0)")
  case True
  with assms(1) show ?thesis by (auto simp: removeMoney_queued_def)
next
  case False
  with assms(3) obtain n where n: "Number amount = Num n" using number_amount by blast
  from False have "uid \<noteq> []" by simp
  from fetch_esm[OF assms(1,2) this, of p] obtain user users1 w b c where
    f: "findOrCreate_esm users uid p = (Inr user, users1)" "store_ok users1"
       "store_safe users1" "findOne users1 uid p = Some user"
       "wallet user = Num w" "bank user = Num b" "bankCapacity user = Num c" "0 \<le> w" "0 \<le> b" "b \<le> c"
    by metis
  with False n show ?thesis
    by (auto simp: removeMoney_queued_def Let_def account_ok_def intro!: store_ok_put)
qed

lemma addBankCapacity_queued_ok:
  assumes "store_ok users" "store_safe users" "whole amount"
  shows "store_ok (snd (addBankCapacity_queued users uid p amount))"
proof (cases "uid = [] \<or> p = [] \<or> amount = Undefined \<or> amount = Null \<or> isNaN amount \<or> js_lt (Number amount) (Num 0)")
  case True
  with assms(1) show ?thesis by (auto simp: addBankCapacity_queued_def)
next
  case False
  with assms(3) obtain n where n: "Number amount = Num n" using number_amount by blast
  from False have "uid \<noteq> []" by simp
  from fetch_esm[OF assms(1,2) this, of p] obtain user users1 w b c where
    f: "findOrCreate_esm users uid p = (Inr user, users1)" "store_ok users1"
       "store_safe users1" "findOne users1 uid p = Some user"
       "wallet user = Num w" "bank user = Num b" "bankCapacity user = Num c" "0 \<le> w" "0 \<le> b" "b \<le> c"
    by metis
  with False n show ?thesis
    by (auto simp: addBankCapacity_queued_def Let_def account_ok_def intro!: store_ok_put)
qed

lemma create_esm_ok: "store_ok users \<Longrightarrow> store_ok (snd (create_esm users uid p))"
  by (auto simp: create_esm_def Let_def account_ok_def store_ok_put split: option.splits)

lemma delete_queued_ok: "store_ok users \<Longrightarrow> store_ok (snd (delete_queued users uid p))"
  by (auto simp: delete_queued_def deleteOne_def store_ok_delete split: option.splits)

lemma daily_queued_ok:
  assumes "store_ok users" "store_safe users" "whole amount" "\<not> js_lt (Number amount) (Num 0)"
  shows "store_ok (snd (daily_queued users uid p amount now))"
proof (cases "uid = [] \<or> p = [] \<or> amount = Undefined \<or> amount = Null \<or> isNaN amount")
  case True
  with assms(1) show ?thesis by (auto simp: daily_queued_def)
next
  case False
  with assms(3) obtain n where n: "Number amount = Num n" using number_amount by blast
  from False have "uid \<noteq> []" by simp
  from fetch_esm[OF assms(1,2) this, of p] obtain user users1 w b c where
    f: "findOrCreate_esm users uid p = (Inr user, users1)" "store_ok users1"
       "store_safe users1" "findOne users1 uid p = Some user"
       "wallet user = Num w" "bank user = Num b" "bankCapacity user = Num c" "0 \<le> w" "0 \<le> b" "b \<le> c"
    by metis
  with False n assms(4) show ?thesis
    by (auto simp: daily_queued_def Let_def account_ok_def intro!: store_ok_put)
qed

lemma queued_bank_amount:
  assumes "amount \<noteq> Undefined" "amount \<noteq> Null" "\<not> (amount \<noteq> Str_all \<and> isNaN amount)" "whole amount"
  shows "amount = Str_all \<or> (\<exists>n. amount \<noteq> Str_all \<and> Number amount = Num n)"
  using assms by (cases amount rule: whole.cases) (auto simp: isNaN_def)

lemma deposit_queued_ok:
  assumes "store_ok users" "store_safe users" "whole amount"
  shows "store_ok (snd (deposit_queued users uid p amount))"
proof (cases "uid = [] \<or> p = [] \<or> amount = Undefined \<or> amount = Null \<or> (typeof_number amount \<and> js_lt (Number amount) (Num 0))")
  case True
  with assms(1) show ?thesis by (auto simp: deposit_queued_def)
next
  case False
  from False have "uid \<noteq> []" by simp
  from fetch_esm[OF assms(1,2) this, of p] obtain user users1 w b c where
    f: "findOrCreate_esm users uid p = (Inr user, users1)" "store_ok users1"
       "store_safe users1" "findOne users1 uid p = Some user"
       "wallet user = Num w" "bank user = Num b" "bankCapacity user = Num c" "0 \<le> w" "0 \<le> b" "b \<le> c"
    by metis
  show ?thesis
  proof (cases "amount \<noteq> Str_all \<and> isNaN amount")
    case True
    with False f show ?thesis by (auto simp: deposit_queued_def Let_def)
  next
    case nb: False
    with False assms(3) queued_bank_amount[of amount] consider "amount = Str_all"
      | n where "amount \<noteq> Str_all" "Number amount = Num n" by blast
    then show ?thesis
    proof cases
      case 1
      with False f show ?thesis
        by (auto simp: deposit_queued_def Let_def account_ok_def intro!: store_ok_put)
    next
      case 2
      with False f nb show ?thesis
        by (auto simp: deposit_queued_def Let_def account_ok_def intro!: store_ok_put)
    qed
  qed
qed

lemma withdraw_queued_ok:
  assumes "store_ok users" "store_safe users" "whole amount"
  shows "store_ok (snd (withdraw_queued users uid p amount))"
proof (cases "uid = [] \<or> p = [] \<or> amount = Undefined \<or> amount = Null \<or> (typeof_number amount \<and> js_lt (Number amount) (Num 0))")
  case True
  with assms(1) show ?thesis by (auto simp: withdraw_queued_def)
next
  case False
  from False have "uid \<noteq> []" by simp
  from fetch_esm[OF assms(1,2) this, of p] obtain user users1 w b c where
    f: "findOrCreate_esm users uid p = (Inr user, users1)" "store_ok users1"
       "store_safe users1" "findOne users1 uid p = Some user"
       "wallet user = Num w" "bank user = Num b" "bankCapacity user = Num c" "0 \<le> w" "0 \<le> b" "b \<le> c"
    by metis
  show ?thesis
  proof (cases "amount \<noteq> Str_all \<and> isNaN amount")
    case True
    with False f show ?thesis by (auto simp: withdraw_queued_def Let_def)
  next
    case nb: False
    with False assms(3) queued_bank_amount[of amount] consider "amount = Str_all"
      | n where "amount \<noteq> Str_all" "Number amount = Num n" by blast
    then show ?thesis
    proof cases
      case 1
      with False f show ?thesis
        by (auto simp: withdraw_queued_def Let_def account_ok_def intro!: store_ok_put)
    next
      case 2
      with False f nb show ?thesis
        by (auto simp: withdraw_queued_def Let_def account_ok_def intro!: store_ok_put)
    qed
  qed
qed

lemma transfer_queued_ok:
  assumes "store_ok users" "store_safe users" "whole amount"
  shows "store_ok (snd (transfer_queued users fromUserID toUserID p amount))"
proof (cases "fromUserID = [] \<or> toUserID = [] \<or> p = [] \<or> amount = Undefined \<or> amount = Null \<or> isNaN amount \<or> js_lt (Number amount) (Num 0) \<or> fromUserID = toUserID")
  case True
  with assms(1) show ?thesis by (auto simp: transfer_queued_def)
next
  case False
  with assms(3) obtain n where n: "Number amount = Num n" using number_amount by blast
  from False have ne: "fromUserID \<noteq> []" "toUserID \<noteq> []" by simp_all
  from fetch_esm[OF assms(1,2) ne(1), of p] obtain fromUser users1 w b c where
    f: "findOrCreate_esm users fromUserID p = (Inr fromUser, users1)" "store_ok users1"
       "store_safe users1" "findOne users1 fromUserID p = Some fromUser"
       "wallet fromUser = Num w" "bank fromUser = Num b" "bankCapacity fromUser = Num c"
       "0 \<le> w" "0 \<le> b" "b \<le> c"
    by metis
  from fetch_esm[OF f(2,3) ne(2), of p] obtain toUser users2 w' b' c' where
    t: "findOrCreate_esm users1 toUserID p = (Inr toUser, users2)" "store_ok users2"
       "store_safe users2" "findOne users2 toUserID p = Some toUser"
       "wallet toUser = Num w'" "bank toUser = Num b'" "bankCapacity toUser = Num c'"
       "0 \<le> w'" "0 \<le> b'" "b' \<le> c'"
    by metis
  from False n f t show ?thesis
    by (auto simp: transfer_queued_def Let_def account_ok_def intro!: store_ok_put)
qed

lemma exec_queued_ok: "store_ok users \<Longrightarrow> store_safe users \<Longrightarrow> covered_queued (snd c) \<Longrightarrow> store_ok (exec_queued users c)"
  by (cases c; cases "snd c") (simp_all add: balance_queued_ok addMoney_queued_ok removeMoney_queued_ok
      addBankCapacity_queued_ok create_esm_ok delete_queued_ok daily_queued_ok deposit_queued_ok
      withdraw_queued_ok transfer_queued_ok)

lemma run_queued_ok:
  "store_ok users \<Longrightarrow> list_all store_safe (states exec_queued users calls) \<Longrightarrow>
   list_all covered_queued (map snd calls) \<Longrightarrow> store_ok (run_queued users calls)"
  unfolding run_queued_def by (induction calls arbitrary: users) (simp_all add: exec_queued_ok)

subsection \<open>The invariant\<close>

text \<open>
  Claim C1, as amended. From a collection whose accounts satisfy \<open>wallet \<ge> 0\<close> and
  \<open>0 \<le> bank \<le> bankCapacity\<close> (the empty collection is one), a finite sequence of calls
  leaves a collection whose accounts satisfy them, provided that every amount is whole
  (an integer of magnitude at most \<open>2\<^sup>5\<^sup>3 - 1\<close> given as a number or as its decimal string,
  or \<open>'all'\<close>, or absent) and that the balances of every collection the sequence goes
  through stay integers of magnitude at most \<open>2\<^sup>5\<^sup>3 - 1\<close>. This holds for all operations
  of the TypeScript variant; for the operations of the CommonJS variant and of the queued
  ES-module variant other than \<open>setMoney\<close>, the amounts of \<open>daily\<close> being non-negative;
  and for the operations of the JSON-file variant other than \<open>setBankCapacity\<close>.
\<close>

theorem ledger_invariant:
  "(store_ok users_ts \<and> list_all store_safe (states exec_ts users_ts calls_ts) \<and>
    list_all covered_ts (map snd calls_ts) \<longrightarrow> store_ok (run_ts users_ts calls_ts)) \<and>
   (store_ok users_cjs \<and> list_all store_safe (states exec_cjs users_cjs calls_cjs) \<and>
    list_all covered_cjs (map snd calls_cjs) \<longrightarrow> store_ok (run_cjs users_cjs calls_cjs)) \<and>
   (store_ok data \<and> list_all store_safe (states (exec_json cooldown) data calls_json) \<and>
    list_all covered_json (map snd calls_json) \<longrightarrow> store_ok (run_json cooldown data calls_json)) \<and>
   (store_ok users_queued \<and> list_all store_safe (states exec_queued users_queued calls_queued) \<and>
    list_all covered_queued (map snd calls_queued) \<longrightarrow> store_ok (run_queued users_queued calls_queued))"
  by (simp add: run_ts_ok run_cjs_ok run_json_ok run_queued_ok)

theorem ledger_invariant_witness:
  "store_ok (run_ts [] [(1000, AddMoney_ts ''a'' (Val (Num 3000)) ''discord''),
                        (2000, Deposit_ts ''a'' Str_all ''discord''),
                        (3000, Transfer_ts ''a'' ''b'' (Str_numeric 40) ''discord'')]) \<and>
   store_ok (run_cjs [] [(1000, Daily_cjs ''a'' ''discord'' (Val (Num 100))),
                         (2000, Deposit_cjs ''a'' ''discord'' (Val (Num 60))),
                         (3000, Transfer_cjs ''a'' ''b'' ''discord'' (Val (Num 40)))]) \<and>
   store_ok (run_json 86400000 [] [(1000, Give_json ''a'' ''discord'' (Val (Num 100))),
                                   (2000, Deposit_json ''a'' ''discord'' Str_all),
                                   (3000, IncreaseBankCapacity_json ''a'' ''discord'' (Val (Num 10)))]) \<and>
   store_ok (run_queued [] [(1000, AddMoney_queued ''a'' ''whatsapp'' (Val (Num 3000))),
                            (2000, Deposit_queued ''a'' ''whatsapp'' Str_all),
                            (3000, Transfer_queued ''a'' ''b'' ''whatsapp'' (Str_numeric 40))])"
  using ledger_invariant [of "[]" "[(1000, AddMoney_ts ''a'' (Val (Num 3000)) ''discord''),
                        (2000, Deposit_ts ''a'' Str_all ''discord''),
                        (3000, Transfer_ts ''a'' ''b'' (Str_numeric 40) ''discord'')]"
         "[]" "[(1000, Daily_cjs ''a'' ''discord'' (Val (Num 100))),
                         (2000, Deposit_cjs ''a'' ''discord'' (Val (Num 60))),
                         (3000, Transfer_cjs ''a'' ''b'' ''discord'' (Val (Num 40)))]"
         "[]" 86400000 "[(1000, Give_json ''a'' ''discord'' (Val (Num 100))),
                                   (2000, Deposit_json ''a'' ''discord'' Str_all),
                                   (3000, IncreaseBankCapacity_json ''a'' ''discord'' (Val (Num 10)))]"
         "[]" "[(1000, AddMoney_queued ''a'' ''whatsapp'' (Val (Num 3000))),
                            (2000, Deposit_queued ''a'' ''whatsapp'' Str_all),
                            (3000, Transfer_queued ''a'' ''b'' ''whatsapp'' (Str_numeric 40))]"]
  by (simp add: store_ok_def store_safe_def account_safe_def MAX_SAFE_INTEGER_def
      addMoney_ts_def deposit_ts_def transfer_ts_def isValidAmount_def parseAmount_def
      findOrCreate_ts_def createUser_def findOne_def put_def updateOne_def Let_def
      daily_cjs_def deposit_cjs_def transfer_cjs_def isNaN_def dailyCooldown_def
      findOrCreate_cjs_def create_cjs_def
      give_def deposit_json_def increaseBankCapacity_def getUser_def updateUser_def
      addMoney_queued_def deposit_queued_def transfer_queued_def findOrCreate_esm_def create_esm_def)

text \<open>
  The claim as stated fails: on a fresh account of the CommonJS variant, \<open>setMoney\<close> with
  wallet 0 and bank 3000 stores a bank balance above the capacity 2500.
\<close>

lemma run_setMoney:
  "run_cjs [] [(1000, SetMoney_cjs ''u'' ''discord'' (Val (Num 0)) (Val (Num 3000)))]
   = [((''u'', ''discord''), \<lparr>userID = ''u'', platform = ''discord'', wallet = Num 0,
        bank = Num 3000, bankCapacity = Num 2500, daily = 0\<rparr>)]"
  by (simp add: run_cjs_def setMoney_cjs_def isNaN_def findOrCreate_cjs_def create_cjs_def
      findOne_def put_def updateOne_def Let_def)

theorem setMoney_counterexample:
  "\<not> store_ok (run_cjs [] [(1000, SetMoney_cjs ''u'' ''discord'' (Val (Num 0)) (Val (Num 3000)))])"
proof
  assume a: "store_ok (run_cjs [] [(1000, SetMoney_cjs ''u'' ''discord'' (Val (Num 0)) (Val (Num 3000)))])"
  have "account_ok \<lparr>userID = ''u'', platform = ''discord'', wallet = Num 0, bank = Num 3000,
          bankCapacity = Num 2500, daily = 0\<rparr>"
    using a unfolding run_setMoney store_ok_def by simp
  then show False by (simp add: account_ok_def)
qed

text \<open>
  The same holds of the other two operations that the amended claim leaves out: \<open>setMoney\<close>
  of the queued ES-module variant, and \<open>setBankCapacity\<close> of the JSON-file variant, which
  can set the capacity below the bank balance.
\<close>

lemma setMoney_queued_above_capacity:
  "run_queued [] [(1000, SetMoney_queued ''u'' ''whatsapp'' (Val (Num 0)) (Val (Num 3000)))] =
     [((''u'', ''whatsapp''), \<lparr>userID = ''u'', platform = ''whatsapp'', wallet = Num 0,
         bank = Num 3000, bankCapacity = Num 2500, daily = 0\<rparr>)]"
  by (simp add: run_queued_def setMoney_queued_def isNaN_def findOrCreate_esm_def create_esm_def
      findOne_def put_def Let_def)

lemma setBankCapacity_below_bank:
  "run_json 86400000 [] [(1000, Give_json ''u'' ''discord'' (Val (Num 100))),
                         (2000, Deposit_json ''u'' ''discord'' Str_all),
                         (3000, SetBankCapacity_json ''u'' ''discord'' (Val (Num 50)))] =
     [(''discord:u'', \<lparr>userID = ''u'', platform = ''discord'', wallet = Num 0, bank = Num 100,
         bankCapacity = Num 50, daily = 0\<rparr>)]"
  by (simp add: run_json_def give_def deposit_json_def setBankCapacity_def isNaN_def getUser_def
      updateUser_def Let_def)

text \<open>
  Amounts that are not whole are left out of the amended claim, for the code does not
  keep the invariant on them. The CommonJS variant compares the amount as \<open>Number\<close> reads
  it and moves what \<open>parseInt\<close> reads: a transfer of \<open>5e-7\<close> from a wallet of 1 passes the
  comparison and takes 5. The TypeScript variant accepts \<open>Infinity\<close>: crediting it and
  then debiting it stores \<open>NaN\<close>. The \<open>daily\<close> of the CommonJS variant does not reject
  a negative amount and stores a negative wallet.
\<close>

lemma transfer_cjs_small_fraction:
  "transfer_cjs [((''a'', ''discord''), \<lparr>userID = ''a'', platform = ''discord'', wallet = Num 1,
                    bank = Num 0, bankCapacity = Num 2500, daily = 0\<rparr>),
                 ((''b'', ''discord''), \<lparr>userID = ''b'', platform = ''discord'', wallet = Num 0,
                    bank = Num 0, bankCapacity = Num 2500, daily = 0\<rparr>)]
      ''a'' ''b'' ''discord'' (Val (Frac (5 / 10000000))) =
     (Inr (TransferSuccess (Val (Frac (5 / 10000000))) (Num (- 4)) (Num 5)),
      [((''a'', ''discord''), \<lparr>userID = ''a'', platform = ''discord'', wallet = Num (- 4),
                    bank = Num 0, bankCapacity = Num 2500, daily = 0\<rparr>),
       ((''b'', ''discord''), \<lparr>userID = ''b'', platform = ''discord'', wallet = Num 5,
                    bank = Num 0, bankCapacity = Num 2500, daily = 0\<rparr>)])"
  by (simp add: transfer_cjs_def isNaN_def findOrCreate_cjs_def findOne_def updateOne_def Let_def
      first_digit.simps)

lemma removeMoney_ts_infinity:
  "run_ts [] [(1000, AddMoney_ts ''u'' (Val PosInf) ''discord''),
              (2000, RemoveMoney_ts ''u'' (Val PosInf) ''discord'')] =
     [((''u'', ''discord''), \<lparr>userID = ''u'', platform = ''discord'', wallet = NaN, bank = Num 0,
         bankCapacity = Num 2500, daily = 0, createdAt = 1000, updatedAt = 2000\<rparr>)]"
  by (simp add: run_ts_def addMoney_ts_def removeMoney_ts_def isValidAmount_def parseAmount_def
      findOrCreate_ts_def createUser_def findOne_def put_def updateOne_def Let_def)

lemma daily_cjs_negative_amount:
  "run_cjs [] [(1000, Daily_cjs ''u'' ''discord'' (Val (Num (- 100))))] =
     [((''u'', ''discord''), \<lparr>userID = ''u'', platform = ''discord'', wallet = Num (- 100),
         bank = Num 0, bankCapacity = Num 2500, daily = 1000\<rparr>)]"
  by (simp add: run_cjs_def daily_cjs_def isNaN_def dailyCooldown_def findOrCreate_cjs_def
      create_cjs_def findOne_def put_def updateOne_def Let_def)

subsection \<open>Transfer with insufficient funds\<close>

lemma transfer_ts_insufficient:
  assumes "fromUserID \<noteq> []" "toUserID \<noteq> []" "fromUserID \<noteq> toUserID" "isValidAmount amount"
    "findOne users fromUserID p = Some A" "findOne users toUserID p = Some B"
    "js_lt (wallet A) (parseAmount amount)"
  shows "transfer_ts users fromUserID toUserID amount p now =
           (Inr \<lparr>t_success = False, t_amount = Num 0, t_fromUser = fromUserID,
                  t_toUser = toUserID, t_platform = p\<rparr>, users)"
proof -
  have f1: "findOrCreate_ts users fromUserID p now = (A, users)"
    using assms(5) by (simp add: findOrCreate_ts_def)
  have f2: "findOrCreate_ts users toUserID p now = (B, users)"
    using assms(6) by (simp add: findOrCreate_ts_def)
  show ?thesis
    unfolding transfer_ts_def Let_def
    using assms(1-4,7) by (simp add: f1 f2)
qed


lemma transfer_cjs_insufficient:
  assumes "fromUserID \<noteq> []" "toUserID \<noteq> []" "p \<noteq> []" "fromUserID \<noteq> toUserID"
    "truthy amount \<or> amount = Val (Num 0)" "\<not> isNaN amount" "\<not> js_lt (Number amount) (Num 0)"
    "findOne users fromUserID p = Some A" "findOne users toUserID p = Some B"
    "js_lt (wallet A) (Number amount)"
  shows "transfer_cjs users fromUserID toUserID p amount =
           (Inr (TransferFailure ''insufficient_funds''), users)"
proof -
  have f1: "findOrCreate_cjs users fromUserID p = (Inr A, users)"
    using assms(8) by (simp add: findOrCreate_cjs_def)
  have f2: "findOrCreate_cjs users toUserID p = (Inr B, users)"
    using assms(9) by (simp add: findOrCreate_cjs_def)
  have v: "\<not> (\<not> truthy amount \<and> amount \<noteq> Val (Num 0))"
    using assms(5) by blast
  show ?thesis
    unfolding transfer_cjs_def Let_def
    using assms(1-4,6,7,10) v by (simp add: f1 f2)
qed

text \<open>
  Claim C2. When the sender's wallet is strictly below a valid amount, \<open>transfer\<close>
  between two distinct existing accounts returns its failure value (the TypeScript
  variant's \<open>success: false, amount: 0\<close>; the CommonJS variant's reason
  \<open>insufficient_funds\<close>), it does not throw, and the collection is the one it was given:
  neither record is modified.
\<close>

theorem transfer_insufficient_funds:
  "(fromUserID \<noteq> [] \<and> toUserID \<noteq> [] \<and> fromUserID \<noteq> toUserID \<and> isValidAmount amount \<and>
    findOne users fromUserID p = Some A \<and> findOne users toUserID p = Some B \<and>
    js_lt (wallet A) (parseAmount amount)
    \<longrightarrow> transfer_ts users fromUserID toUserID amount p now =
           (Inr \<lparr>t_success = False, t_amount = Num 0, t_fromUser = fromUserID,
                  t_toUser = toUserID, t_platform = p\<rparr>, users)) \<and>
   (fromUserID \<noteq> [] \<and> toUserID \<noteq> [] \<and> p \<noteq> [] \<and> fromUserID \<noteq> toUserID \<and>
    (truthy amount \<or> amount = Val (Num 0)) \<and> \<not> isNaN amount \<and> \<not> js_lt (Number amount) (Num 0) \<and>
    findOne users' fromUserID p = Some A' \<and> findOne users' toUserID p = Some B' \<and>
    js_lt (wallet A') (Number amount)
    \<longrightarrow> transfer_cjs users' fromUserID toUserID p amount =
           (Inr (TransferFailure ''insufficient_funds''), users'))"
proof (intro conjI impI)
  assume "fromUserID \<noteq> [] \<and> toUserID \<noteq> [] \<and> fromUserID \<noteq> toUserID \<and> isValidAmount amount \<and>
    findOne users fromUserID p = Some A \<and> findOne users toUserID p = Some B \<and>
    js_lt (wallet A) (parseAmount amount)"
  then show "transfer_ts users fromUserID toUserID amount p now =
           (Inr \<lparr>t_success = False, t_amount = Num 0, t_fromUser = fromUserID,
                  t_toUser = toUserID, t_platform = p\<rparr>, users)"
    by (elim conjE) (rule transfer_ts_insufficient; assumption)
next
  assume "fromUserID \<noteq> [] \<and> toUserID \<noteq> [] \<and> p \<noteq> [] \<and> fromUserID \<noteq> toUserID \<and>
    (truthy amount \<or> amount = Val (Num 0)) \<and> \<not> isNaN amount \<and> \<not> js_lt (Number amount) (Num 0) \<and>
    findOne users' fromUserID p = Some A' \<and> findOne users' toUserID p = Some B' \<and>
    js_lt (wallet A') (Number amount)"
  then show "transfer_cjs users' fromUserID toUserID p amount =
           (Inr (TransferFailure ''insufficient_funds''), users')"
    by (elim conjE) (rule transfer_cjs_insufficient; assumption)
qed


theorem transfer_insufficient_funds_witness:
  "transfer_ts [((''A'', ''discord''), \<lparr>userID = ''A'', platform = ''discord'', wallet = Num 50, bank = Num 0,
                bankCapacity = Num 2500, daily = 0, createdAt = 1, updatedAt = 1\<rparr>),
            ((''B'', ''discord''), \<lparr>userID = ''B'', platform = ''discord'', wallet = Num 0, bank = Num 0,
                bankCapacity = Num 2500, daily = 0, createdAt = 2, updatedAt = 2\<rparr>)]
      ''A'' ''B'' (Val (Num 100)) ''discord'' 5000 =
    (Inr \<lparr>t_success = False, t_amount = Num 0, t_fromUser = ''A'', t_toUser = ''B'', t_platform = ''discord''\<rparr>,
     [((''A'', ''discord''), \<lparr>userID = ''A'', platform = ''discord'', wallet = Num 50, bank = Num 0,
                bankCapacity = Num 2500, daily = 0, createdAt = 1, updatedAt = 1\<rparr>),
            ((''B'', ''discord''), \<lparr>userID = ''B'', platform = ''discord'', wallet = Num 0, bank = Num 0,
                bankCapacity = Num 2500, daily = 0, createdAt = 2, updatedAt = 2\<rparr>)]) \<and>
   transfer_cjs [((''A'', ''discord''), \<lparr>userID = ''A'', platform = ''discord'', wallet = Num 50, bank = Num 0,
                bankCapacity = Num 2500, daily = 0\<rparr>),
            ((''B'', ''discord''), \<lparr>userID = ''B'', platform = ''discord'', wallet = Num 0, bank = Num 0,
                bankCapacity = Num 2500, daily = 0\<rparr>)]
      ''A'' ''B'' ''discord'' (Val (Num 100)) =
    (Inr (TransferFailure ''insufficient_funds''),
     [((''A'', ''discord''), \<lparr>userID = ''A'', platform = ''discord'', wallet = Num 50, bank = Num 0,
                bankCapacity = Num 2500, daily = 0\<rparr>),
            ((''B'', ''discord''), \<lparr>userID = ''B'', platform = ''discord'', wallet = Num 0, bank = Num 0,
                bankCapacity = Num 2500, daily = 0\<rparr>)])"
  using transfer_insufficient_funds [of "''A''" "''B''" "Val (Num 100)"
     "[((''A'', ''discord''), \<lparr>userID = ''A'', platform = ''discord'', wallet = Num 50, bank = Num 0,
                bankCapacity = Num 2500, daily = 0, createdAt = 1, updatedAt = 1\<rparr>),
            ((''B'', ''discord''), \<lparr>userID = ''B'', platform = ''discord'', wallet = Num 0, bank = Num 0,
                bankCapacity = Num 2500, daily = 0, createdAt = 2, updatedAt = 2\<rparr>)]"
     "''discord''"
     "\<lparr>userID = ''A'', platform = ''discord'', wallet = Num 50, bank = Num 0,
                bankCapacity = Num 2500, daily = 0, createdAt = 1, updatedAt = 1\<rparr>"
     "\<lparr>userID = ''B'', platform = ''discord'', wallet = Num 0, bank = Num 0,
                bankCapacity = Num 2500, daily = 0, createdAt = 2, updatedAt = 2\<rparr>"
     5000
     "[((''A'', ''discord''), \<lparr>userID = ''A'', platform = ''discord'', wallet = Num 50, bank = Num 0,
                bankCapacity = Num 2500, daily = 0\<rparr>),
            ((''B'', ''discord''), \<lparr>userID = ''B'', platform = ''discord'', wallet = Num 0, bank = Num 0,
                bankCapacity = Num 2500, daily = 0\<rparr>)]"
     "\<lparr>userID = ''A'', platform = ''discord'', wallet = Num 50, bank = Num 0,
                bankCapacity = Num 2500, daily = 0\<rparr>"
     "\<lparr>userID = ''B'', platform = ''discord'', wallet = Num 0, bank = Num 0,
                bankCapacity = Num 2500, daily = 0\<rparr>"]
  by (simp add: findOne_def isValidAmount_def parseAmount_def isNaN_def)

subsection \<open>Deposit\<close>

lemma deposit_ts_amount:
  assumes "uid \<noteq> []" "findOrCreate_ts users uid p now = (user, users1)"
    "wallet user = Num w" "bank user = Num b" "bankCapacity user = Num c"
    "amount = Str_all \<or> ((amount = Val (Num n) \<or> amount = Str x (Num n)) \<and> 0 < n)"
    "want = (if amount = Str_all then w else min n w)"
    "actual = min want (c - b)"
  shows "deposit_ts users uid amount p now =
          (Inr \<lparr>b_success = (0 < actual), b_amount = Num actual, b_newBalance = Num (b + actual),
                 b_type = ''deposit''\<rparr>,
           updateOne users1 uid p
             (\<lambda>_. user\<lparr>wallet := Num (w - actual), bank := Num (b + actual), updatedAt := now\<rparr>))"
proof -
  from assms(6) consider "amount = Str_all" | "amount = Val (Num n)" "0 < n"
    | "amount = Str x (Num n)" "0 < n" by blast
  then show ?thesis
  proof cases
    case 1
    with assms(1-5,7,8) show ?thesis
      unfolding deposit_ts_def Let_def by simp
  next
    case 2
    with assms(1-5,7,8) show ?thesis
      unfolding deposit_ts_def Let_def by (simp add: isValidAmount_def parseAmount_def min_def)
  next
    case 3
    with assms(1-5,7,8) show ?thesis
      unfolding deposit_ts_def Let_def by (simp add: isValidAmount_def parseAmount_def min_def)
  qed
qed

lemma deposit_queued_amount:
  assumes "uid \<noteq> []" "p \<noteq> []" "findOrCreate_esm users uid p = (Inr user, users1)"
    "wallet user = Num w" "bank user = Num b" "bankCapacity user = Num c" "c \<noteq> 0"
    "amount = Str_all \<or> (amount = Val (Num n) \<and> 0 \<le> n) \<or> amount = Str (Num n) i"
    "want = (if amount = Str_all then w else min n w)"
    "actual = min want (c - b)"
  shows "deposit_queued users uid p amount =
          (if 0 < actual
           then (Inr (BankSuccess (Num actual) (Num (w - actual)) (Num (b + actual))),
                 put users1 \<lparr>userID = uid, platform = p, wallet = Num (w - actual),
                             bank = Num (b + actual), bankCapacity = Num c, daily = daily user\<rparr>)
           else (Inr (BankFailure ''bank_full''), users1))"
proof -
  have d: "or_default (Num b) 0 = Num b" "or_default (Num c) 2500 = Num c"
    using assms(7) by simp_all
  from assms(8) consider "amount = Str_all" | "amount = Val (Num n)" "0 \<le> n" | "amount = Str (Num n) i" by blast
  then show ?thesis
  proof cases
    case 1
    with assms(1-7,9,10) d show ?thesis
      unfolding deposit_queued_def Let_def by (auto simp add: isNaN_def min_def)
  next
    case 2
    with assms(1-7,9,10) d show ?thesis
      unfolding deposit_queued_def Let_def by (auto simp add: isNaN_def min_def)
  next
    case 3
    with assms(1-7,9,10) d show ?thesis
      unfolding deposit_queued_def Let_def by (auto simp add: isNaN_def min_def)
  qed
qed

text \<open>
  Claim C3. The requested amount is given as the value passed: \<open>'all'\<close>, a number \<open>n\<close>, or
  a string that the variant reads as \<open>n\<close> (the TypeScript variant with \<open>parseInt\<close>, the
  queued ES-module variant with \<open>Number\<close>). With \<open>want\<close> the wallet for \<open>'all'\<close> and
  \<open>min n wallet\<close> otherwise, and \<open>actual = min want (bankCapacity - bank)\<close>: the TypeScript
  \<open>deposit\<close> moves \<open>actual\<close> from the wallet to the bank and returns
  \<open>success = (0 < actual)\<close>; the queued ES-module \<open>deposit\<close> moves \<open>actual\<close> when it is
  positive and otherwise returns the failure value \<open>bank_full\<close> and writes nothing.
  Neither throws. Here \<open>user\<close> is the account as fetched or created and \<open>stored\<close> the
  collection after that; the balances, the free space and the results are within the
  exact range.
\<close>

theorem deposit_moves_clamped_amount:
  "(uid \<noteq> [] \<and> findOrCreate_ts users uid p now = (user, stored) \<and>
    wallet user = Num w \<and> bank user = Num b \<and> bankCapacity user = Num c \<and>
    (amount = Str_all \<or> ((amount = Val (Num n) \<or> amount = Str x (Num n)) \<and> 0 < n)) \<and>
    want = (if amount = Str_all then w else min n w) \<and> actual = min want (c - b) \<and>
    exact [w, b, c, c - b, w - actual, b + actual]
    \<longrightarrow> deposit_ts users uid amount p now =
          (Inr \<lparr>b_success = (0 < actual), b_amount = Num actual, b_newBalance = Num (b + actual),
                 b_type = ''deposit''\<rparr>,
           updateOne stored uid p
             (\<lambda>_. user\<lparr>wallet := Num (w - actual), bank := Num (b + actual), updatedAt := now\<rparr>))) \<and>
   (uid \<noteq> [] \<and> p \<noteq> [] \<and> findOrCreate_esm users' uid p = (Inr user', stored') \<and>
    wallet user' = Num w \<and> bank user' = Num b \<and> bankCapacity user' = Num c \<and> c \<noteq> 0 \<and>
    (amount = Str_all \<or> (amount = Val (Num n) \<and> 0 \<le> n) \<or> amount = Str (Num n) i) \<and>
    want = (if amount = Str_all then w else min n w) \<and> actual = min want (c - b) \<and>
    exact [w, b, c, c - b, w - actual, b + actual]
    \<longrightarrow> deposit_queued users' uid p amount =
          (if 0 < actual
           then (Inr (BankSuccess (Num actual) (Num (w - actual)) (Num (b + actual))),
                 put stored' \<lparr>userID = uid, platform = p, wallet = Num (w - actual),
                             bank = Num (b + actual), bankCapacity = Num c, daily = daily user'\<rparr>)
           else (Inr (BankFailure ''bank_full''), stored')))"
proof (intro conjI impI)
  assume "uid \<noteq> [] \<and> findOrCreate_ts users uid p now = (user, stored) \<and>
    wallet user = Num w \<and> bank user = Num b \<and> bankCapacity user = Num c \<and>
    (amount = Str_all \<or> ((amount = Val (Num n) \<or> amount = Str x (Num n)) \<and> 0 < n)) \<and>
    want = (if amount = Str_all then w else min n w) \<and> actual = min want (c - b) \<and>
    exact [w, b, c, c - b, w - actual, b + actual]"
  then show "deposit_ts users uid amount p now =
          (Inr \<lparr>b_success = (0 < actual), b_amount = Num actual, b_newBalance = Num (b + actual),
                 b_type = ''deposit''\<rparr>,
           updateOne stored uid p
             (\<lambda>_. user\<lparr>wallet := Num (w - actual), bank := Num (b + actual), updatedAt := now\<rparr>))"
    by (elim conjE) (rule deposit_ts_amount; assumption)
next
  assume "uid \<noteq> [] \<and> p \<noteq> [] \<and> findOrCreate_esm users' uid p = (Inr user', stored') \<and>
    wallet user' = Num w \<and> bank user' = Num b \<and> bankCapacity user' = Num c \<and> c \<noteq> 0 \<and>
    (amount = Str_all \<or> (amount = Val (Num n) \<and> 0 \<le> n) \<or> amount = Str (Num n) i) \<and>
    want = (if amount = Str_all then w else min n w) \<and> actual = min want (c - b) \<and>
    exact [w, b, c, c - b, w - actual, b + actual]"
  then show "deposit_queued users' uid p amount =
          (if 0 < actual
           then (Inr (BankSuccess (Num actual) (Num (w - actual)) (Num (b + actual))),
                 put stored' \<lparr>userID = uid, platform = p, wallet = Num (w - actual),
                             bank = Num (b + actual), bankCapacity = Num c, daily = daily user'\<rparr>)
           else (Inr (BankFailure ''bank_full''), stored'))"
    by (elim conjE) (rule deposit_queued_amount; assumption)
qed

text \<open>
  On the specification's account (wallet 500, bank 2400, capacity 2500): \<open>'all'\<close> moves 100,
  as the specification has it; the number 300 moves 100 as well; the string \<open>'30'\<close> moves 30.
\<close>

theorem deposit_moves_clamped_amount_witness:
  "deposit_ts [((''u'', ''discord''), \<lparr>userID = ''u'', platform = ''discord'', wallet = Num 500,
                  bank = Num 2400, bankCapacity = Num 2500, daily = 0, createdAt = 1, updatedAt = 1\<rparr>)]
      ''u'' Str_all ''discord'' 9000 =
     (Inr \<lparr>b_success = True, b_amount = Num 100, b_newBalance = Num 2500, b_type = ''deposit''\<rparr>,
      [((''u'', ''discord''), \<lparr>userID = ''u'', platform = ''discord'', wallet = Num 400,
                  bank = Num 2500, bankCapacity = Num 2500, daily = 0, createdAt = 1, updatedAt = 9000\<rparr>)]) \<and>
   deposit_queued [((''u'', ''discord''), \<lparr>userID = ''u'', platform = ''discord'', wallet = Num 500,
                  bank = Num 2400, bankCapacity = Num 2500, daily = 0\<rparr>)]
      ''u'' ''discord'' Str_all =
     (Inr (BankSuccess (Num 100) (Num 400) (Num 2500)),
      [((''u'', ''discord''), \<lparr>userID = ''u'', platform = ''discord'', wallet = Num 400,
                  bank = Num 2500, bankCapacity = Num 2500, daily = 0\<rparr>)]) \<and>
   deposit_ts [((''u'', ''discord''), \<lparr>userID = ''u'', platform = ''discord'', wallet = Num 500,
                  bank = Num 2400, bankCapacity = Num 2500, daily = 0, createdAt = 1, updatedAt = 1\<rparr>)]
      ''u'' (Val (Num 300)) ''discord'' 9000 =
     (Inr \<lparr>b_success = True, b_amount = Num 100, b_newBalance = Num 2500, b_type = ''deposit''\<rparr>,
      [((''u'', ''discord''), \<lparr>userID = ''u'', platform = ''discord'', wallet = Num 400,
                  bank = Num 2500, bankCapacity = Num 2500, daily = 0, createdAt = 1, updatedAt = 9000\<rparr>)]) \<and>
   deposit_queued [((''u'', ''discord''), \<lparr>userID = ''u'', platform = ''discord'', wallet = Num 500,
                  bank = Num 2400, bankCapacity = Num 2500, daily = 0\<rparr>)]
      ''u'' ''discord'' (Val (Num 300)) =
     (Inr (BankSuccess (Num 100) (Num 400) (Num 2500)),
      [((''u'', ''discord''), \<lparr>userID = ''u'', platform = ''discord'', wallet = Num 400,
                  bank = Num 2500, bankCapacity = Num 2500, daily = 0\<rparr>)]) \<and>
   deposit_ts [((''u'', ''discord''), \<lparr>userID = ''u'', platform = ''discord'', wallet = Num 500,
                  bank = Num 2400, bankCapacity = Num 2500, daily = 0, createdAt = 1, updatedAt = 1\<rparr>)]
      ''u'' (Str_numeric 30) ''discord'' 9000 =
     (Inr \<lparr>b_success = True, b_amount = Num 30, b_newBalance = Num 2430, b_type = ''deposit''\<rparr>,
      [((''u'', ''discord''), \<lparr>userID = ''u'', platform = ''discord'', wallet = Num 470,
                  bank = Num 2430, bankCapacity = Num 2500, daily = 0, createdAt = 1, updatedAt = 9000\<rparr>)]) \<and>
   deposit_queued [((''u'', ''discord''), \<lparr>userID = ''u'', platform = ''discord'', wallet = Num 500,
                  bank = Num 2400, bankCapacity = Num 2500, daily = 0\<rparr>)]
      ''u'' ''discord'' (Str_numeric 30) =
     (Inr (BankSuccess (Num 30) (Num 470) (Num 2430)),
      [((''u'', ''discord''), \<lparr>userID = ''u'', platform = ''discord'', wallet = Num 470,
                  bank = Num 2430, bankCapacity = Num 2500, daily = 0\<rparr>)])"
  using deposit_moves_clamped_amount [where uid = "''u''" and p = "''discord''" and now = 9000
      and users = "[((''u'', ''discord''), \<lparr>userID = ''u'', platform = ''discord'', wallet = Num 500,
                  bank = Num 2400, bankCapacity = Num 2500, daily = 0, createdAt = 1, updatedAt = 1\<rparr>)]"
      and user = "\<lparr>userID = ''u'', platform = ''discord'', wallet = Num 500,
                  bank = Num 2400, bankCapacity = Num 2500, daily = 0, createdAt = 1, updatedAt = 1\<rparr>"
      and stored = "[((''u'', ''discord''), \<lparr>userID = ''u'', platform = ''discord'', wallet = Num 500,
                  bank = Num 2400, bankCapacity = Num 2500, daily = 0, createdAt = 1, updatedAt = 1\<rparr>)]"
      and users' = "[((''u'', ''discord''), \<lparr>userID = ''u'', platform = ''discord'', wallet = Num 500,
                  bank = Num 2400, bankCapacity = Num 2500, daily = 0\<rparr>)]"
      and user' = "\<lparr>userID = ''u'', platform = ''discord'', wallet = Num 500,
                  bank = Num 2400, bankCapacity = Num 2500, daily = 0\<rparr>"
      and stored' = "[((''u'', ''discord''), \<lparr>userID = ''u'', platform = ''discord'', wallet = Num 500,
                  bank = Num 2400, bankCapacity = Num 2500, daily = 0\<rparr>)]"
      and w = 500 and b = 2400 and c = 2500 and amount = Str_all and n = 0 and want = 500 and actual = 100]
    deposit_moves_clamped_amount [where uid = "''u''" and p = "''discord''" and now = 9000
      and users = "[((''u'', ''discord''), \<lparr>userID = ''u'', platform = ''discord'', wallet = Num 500,
                  bank = Num 2400, bankCapacity = Num 2500, daily = 0, createdAt = 1, updatedAt = 1\<rparr>)]"
      and user = "\<lparr>userID = ''u'', platform = ''discord'', wallet = Num 500,
                  bank = Num 2400, bankCapacity = Num 2500, daily = 0, createdAt = 1, updatedAt = 1\<rparr>"
      and stored = "[((''u'', ''discord''), \<lparr>userID = ''u'', platform = ''discord'', wallet = Num 500,
                  bank = Num 2400, bankCapacity = Num 2500, daily = 0, createdAt = 1, updatedAt = 1\<rparr>)]"
      and users' = "[((''u'', ''discord''), \<lparr>userID = ''u'', platform = ''discord'', wallet = Num 500,
                  bank = Num 2400, bankCapacity = Num 2500, daily = 0\<rparr>)]"
      and user' = "\<lparr>userID = ''u'', platform = ''discord'', wallet = Num 500,
                  bank = Num 2400, bankCapacity = Num 2500, daily = 0\<rparr>"
      and stored' = "[((''u'', ''discord''), \<lparr>userID = ''u'', platform = ''discord'', wallet = Num 500,
                  bank = Num 2400, bankCapacity = Num 2500, daily = 0\<rparr>)]"
      and w = 500 and b = 2400 and c = 2500 and amount = "Val (Num 300)" and n = 300 and want = 300 and actual = 100]
    deposit_moves_clamped_amount [where uid = "''u''" and p = "''discord''" and now = 9000
      and users = "[((''u'', ''discord''), \<lparr>userID = ''u'', platform = ''discord'', wallet = Num 500,
                  bank = Num 2400, bankCapacity = Num 2500, daily = 0, createdAt = 1, updatedAt = 1\<rparr>)]"
      and user = "\<lparr>userID = ''u'', platform = ''discord'', wallet = Num 500,
                  bank = Num 2400, bankCapacity = Num 2500, daily = 0, createdAt = 1, updatedAt = 1\<rparr>"
      and stored = "[((''u'', ''discord''), \<lparr>userID = ''u'', platform = ''discord'', wallet = Num 500,
                  bank = Num 2400, bankCapacity = Num 2500, daily = 0, createdAt = 1, updatedAt = 1\<rparr>)]"
      and users' = "[((''u'', ''discord''), \<lparr>userID = ''u'', platform = ''discord'', wallet = Num 500,
                  bank = Num 2400, bankCapacity = Num 2500, daily = 0\<rparr>)]"
      and user' = "\<lparr>userID = ''u'', platform = ''discord'', wallet = Num 500,
                  bank = Num 2400, bankCapacity = Num 2500, daily = 0\<rparr>"
      and stored' = "[((''u'', ''discord''), \<lparr>userID = ''u'', platform = ''discord'', wallet = Num 500,
                  bank = Num 2400, bankCapacity = Num 2500, daily = 0\<rparr>)]"
      and w = 500 and b = 2400 and c = 2500 and amount = "Str_numeric 30" and n = 30 and x = "Num 30"
      and i = "Num 30" and want = 30 and actual = 30]
  by (simp add: findOrCreate_ts_def findOrCreate_esm_def findOne_def updateOne_def put_def
      exact_def MAX_SAFE_INTEGER_def)

subsection \<open>Debit\<close>

lemma removeMoney_ts_amount:
  assumes "uid \<noteq> []" "amount = Val (Num n) \<or> amount = Str x (Num n)" "0 < n"
    "findOne users uid p = Some user" "wallet user = Num w" "actual = min n w"
  shows "removeMoney_ts users uid amount p now =
          (Inr (Num actual),
           updateOne users uid p (\<lambda>_. user\<lparr>wallet := Num (w - actual), updatedAt := now\<rparr>))"
proof -
  from assms(2,3) have "isValidAmount amount" "parseAmount amount = Num n"
    by (auto simp: isValidAmount_def parseAmount_def)
  with assms(1,4-6) show ?thesis unfolding removeMoney_ts_def Let_def by simp
qed

lemma deduct_amount:
  assumes "userId \<noteq> []" "amount = Val (Num n) \<or> amount = Str (Num n) i" "0 \<le> n"
    "getUser data userId p = (user, stored)" "wallet user = Num w"
    "actual = min n w"
  shows "deduct data userId p amount =
          (Inr (Money (Val (Num actual)) (Num (w - actual))),
           AList.update (p @ '':'' @ userId) (user\<lparr>wallet := Num (w - actual)\<rparr>) stored)"
proof -
  from assms(2,3) have v: "\<not> (\<not> truthy amount \<and> amount \<noteq> Val (Num 0))" "\<not> isNaN amount"
    "\<not> js_lt (Number amount) (Num 0)" "Number amount = Num n"
    by (auto simp: isNaN_def)
  show ?thesis
    unfolding deduct_def Let_def updateUser_def
    using assms(1,4-6) v getUser_again[OF assms(4)] by simp
qed

text \<open>
  Claim C4. The amount is given as the value passed: a number \<open>n\<close> or a string that the
  variant reads as \<open>n\<close> (\<open>removeMoney\<close> of the TypeScript variant with \<open>parseInt\<close>, where a
  valid amount is positive; \<open>deduct\<close> of the JSON-file variant with \<open>Number\<close>, where it is
  not negative). The debit removes \<open>actual = min n wallet\<close>: the stored wallet becomes the
  prior wallet minus \<open>actual\<close>, which is never negative, and the call returns \<open>actual\<close>.
  When the amount exceeds the prior wallet, the wallet becomes 0 and the returned amount
  is the prior wallet. For the TypeScript variant the account is a stored one; \<open>stored\<close>
  is the JSON-file database after the account has been fetched or created. The wallet is
  within the exact range.
\<close>

theorem debit_clamps_to_wallet:
  "(uid \<noteq> [] \<and> (amount = Val (Num n) \<or> amount = Str x (Num n)) \<and> 0 < n \<and>
    findOne users uid p = Some user \<and> wallet user = Num w \<and> actual = min n w \<and> exact [w]
    \<longrightarrow> removeMoney_ts users uid amount p now =
          (Inr (Num actual),
           updateOne users uid p (\<lambda>_. user\<lparr>wallet := Num (w - actual), updatedAt := now\<rparr>))
        \<and> 0 \<le> w - actual \<and> (w < n \<longrightarrow> w - actual = 0 \<and> actual = w)) \<and>
   (uid \<noteq> [] \<and> (amount = Val (Num n) \<or> amount = Str (Num n) i) \<and> 0 \<le> n \<and>
    getUser data uid p = (user', stored) \<and> wallet user' = Num w \<and> actual = min n w \<and> exact [w]
    \<longrightarrow> deduct data uid p amount =
          (Inr (Money (Val (Num actual)) (Num (w - actual))),
           AList.update (p @ '':'' @ uid) (user'\<lparr>wallet := Num (w - actual)\<rparr>) stored)
        \<and> 0 \<le> w - actual \<and> (w < n \<longrightarrow> w - actual = 0 \<and> actual = w))"
proof (intro conjI impI)
  assume a: "uid \<noteq> [] \<and> (amount = Val (Num n) \<or> amount = Str x (Num n)) \<and> 0 < n \<and>
    findOne users uid p = Some user \<and> wallet user = Num w \<and> actual = min n w \<and> exact [w]"
  then show "removeMoney_ts users uid amount p now =
          (Inr (Num actual),
           updateOne users uid p (\<lambda>_. user\<lparr>wallet := Num (w - actual), updatedAt := now\<rparr>))"
    by (elim conjE) (rule removeMoney_ts_amount; assumption)
  from a show "0 \<le> w - actual" by auto
  from a show "w - actual = 0" if "w < n" using that by auto
  from a show "actual = w" if "w < n" using that by auto
next
  assume a: "uid \<noteq> [] \<and> (amount = Val (Num n) \<or> amount = Str (Num n) i) \<and> 0 \<le> n \<and>
    getUser data uid p = (user', stored) \<and> wallet user' = Num w \<and> actual = min n w \<and> exact [w]"
  then show "deduct data uid p amount =
          (Inr (Money (Val (Num actual)) (Num (w - actual))),
           AList.update (p @ '':'' @ uid) (user'\<lparr>wallet := Num (w - actual)\<rparr>) stored)"
    by (elim conjE) (rule deduct_amount; assumption)
  from a show "0 \<le> w - actual" by auto
  from a show "w - actual = 0" if "w < n" using that by auto
  from a show "actual = w" if "w < n" using that by auto
qed

text \<open>
  From a wallet of 50: a debit of 100 returns 50 and leaves the wallet at 0; a debit of
  the string \<open>'20'\<close> returns 20 and leaves 30.
\<close>

theorem debit_clamps_to_wallet_witness:
  "removeMoney_ts [((''u'', ''discord''), \<lparr>userID = ''u'', platform = ''discord'', wallet = Num 50,
                      bank = Num 0, bankCapacity = Num 2500, daily = 0, createdAt = 1, updatedAt = 1\<rparr>)]
      ''u'' (Val (Num 100)) ''discord'' 9000 =
     (Inr (Num 50),
      [((''u'', ''discord''), \<lparr>userID = ''u'', platform = ''discord'', wallet = Num 0,
                      bank = Num 0, bankCapacity = Num 2500, daily = 0, createdAt = 1, updatedAt = 9000\<rparr>)]) \<and>
   deduct [(''discord:u'', \<lparr>userID = ''u'', platform = ''discord'', wallet = Num 50,
              bank = Num 0, bankCapacity = Num 2500, daily = 0\<rparr>)]
      ''u'' ''discord'' (Val (Num 100)) =
     (Inr (Money (Val (Num 50)) (Num 0)),
      [(''discord:u'', \<lparr>userID = ''u'', platform = ''discord'', wallet = Num 0,
              bank = Num 0, bankCapacity = Num 2500, daily = 0\<rparr>)]) \<and>
   removeMoney_ts [((''u'', ''discord''), \<lparr>userID = ''u'', platform = ''discord'', wallet = Num 50,
                      bank = Num 0, bankCapacity = Num 2500, daily = 0, createdAt = 1, updatedAt = 1\<rparr>)]
      ''u'' (Str_numeric 20) ''discord'' 9000 =
     (Inr (Num 20),
      [((''u'', ''discord''), \<lparr>userID = ''u'', platform = ''discord'', wallet = Num 30,
                      bank = Num 0, bankCapacity = Num 2500, daily = 0, createdAt = 1, updatedAt = 9000\<rparr>)]) \<and>
   deduct [(''discord:u'', \<lparr>userID = ''u'', platform = ''discord'', wallet = Num 50,
              bank = Num 0, bankCapacity = Num 2500, daily = 0\<rparr>)]
      ''u'' ''discord'' (Str_numeric 20) =
     (Inr (Money (Val (Num 20)) (Num 30)),
      [(''discord:u'', \<lparr>userID = ''u'', platform = ''discord'', wallet = Num 30,
              bank = Num 0, bankCapacity = Num 2500, daily = 0\<rparr>)])"
  using debit_clamps_to_wallet [where uid = "''u''" and p = "''discord''" and now = 9000
      and amount = "Val (Num 100)" and n = 100 and w = 50 and actual = 50
      and users = "[((''u'', ''discord''), \<lparr>userID = ''u'', platform = ''discord'', wallet = Num 50,
                      bank = Num 0, bankCapacity = Num 2500, daily = 0, createdAt = 1, updatedAt = 1\<rparr>)]"
      and user = "\<lparr>userID = ''u'', platform = ''discord'', wallet = Num 50,
                      bank = Num 0, bankCapacity = Num 2500, daily = 0, createdAt = 1, updatedAt = 1\<rparr>"
      and data = "[(''discord:u'', \<lparr>userID = ''u'', platform = ''discord'', wallet = Num 50,
              bank = Num 0, bankCapacity = Num 2500, daily = 0\<rparr>)]"
      and stored = "[(''discord:u'', \<lparr>userID = ''u'', platform = ''discord'', wallet = Num 50,
              bank = Num 0, bankCapacity = Num 2500, daily = 0\<rparr>)]"
      and user' = "\<lparr>userID = ''u'', platform = ''discord'', wallet = Num 50,
              bank = Num 0, bankCapacity = Num 2500, daily = 0\<rparr>"]
    debit_clamps_to_wallet [where uid = "''u''" and p = "''discord''" and now = 9000
      and amount = "Str_numeric 20" and n = 20 and x = "Num 20" and i = "Num 20" and w = 50 and actual = 20
      and users = "[((''u'', ''discord''), \<lparr>userID = ''u'', platform = ''discord'', wallet = Num 50,
                      bank = Num 0, bankCapacity = Num 2500, daily = 0, createdAt = 1, updatedAt = 1\<rparr>)]"
      and user = "\<lparr>userID = ''u'', platform = ''discord'', wallet = Num 50,
                      bank = Num 0, bankCapacity = Num 2500, daily = 0, createdAt = 1, updatedAt = 1\<rparr>"
      and data = "[(''discord:u'', \<lparr>userID = ''u'', platform = ''discord'', wallet = Num 50,
              bank = Num 0, bankCapacity = Num 2500, daily = 0\<rparr>)]"
      and stored = "[(''discord:u'', \<lparr>userID = ''u'', platform = ''discord'', wallet = Num 50,
              bank = Num 0, bankCapacity = Num 2500, daily = 0\<rparr>)]"
      and user' = "\<lparr>userID = ''u'', platform = ''discord'', wallet = Num 50,
              bank = Num 0, bankCapacity = Num 2500, daily = 0\<rparr>"]
  by (simp add: findOne_def updateOne_def getUser_def exact_def MAX_SAFE_INTEGER_def)

subsection \<open>Balance and the debit of a missing account\<close>

text \<open>
  Claim C5. For a non-empty user ID with no stored account, \<open>balance\<close> creates the account
  and returns wallet 0, bank 0, capacity 2500 and net worth 0; for a stored account the
  returned net worth is wallet + bank. Proved for the TypeScript and CommonJS variants.
\<close>

theorem balance_creates_and_sums:
  "(uid \<noteq> [] \<and> findOne users uid p = None
    \<longrightarrow> balance_ts users uid p now =
          (Inr \<lparr>res_wallet = Num 0, res_bank = Num 0, res_bankCapacity = Num 2500, netWorth = Num 0\<rparr>,
           put users \<lparr>userID = uid, platform = p, wallet = Num 0, bank = Num 0,
                       bankCapacity = Num 2500, daily = 0, createdAt = now, updatedAt = now\<rparr>)) \<and>
   (uid \<noteq> [] \<and> findOne users uid p = Some user
    \<longrightarrow> balance_ts users uid p now =
          (Inr \<lparr>res_wallet = wallet user, res_bank = bank user, res_bankCapacity = bankCapacity user,
                 netWorth = js_add (wallet user) (bank user)\<rparr>, users)) \<and>
   (uid \<noteq> [] \<and> findOne users' uid p = None
    \<longrightarrow> balance_cjs users' uid p =
          (Inr \<lparr>bal_wallet = Num 0, bal_bank = Num 0, bal_bankCapacity = Num 2500, total = Num 0\<rparr>,
           put users' \<lparr>userID = uid, platform = p, wallet = Num 0, bank = Num 0,
                        bankCapacity = Num 2500, daily = 0\<rparr>)) \<and>
   (uid \<noteq> [] \<and> findOne users' uid p = Some user'
    \<longrightarrow> balance_cjs users' uid p =
          (Inr \<lparr>bal_wallet = wallet user', bal_bank = bank user', bal_bankCapacity = bankCapacity user',
                 total = js_add (wallet user') (bank user')\<rparr>, users')) \<and>
   js_add (Num w) (Num b) = Num (w + b)"
  by (simp add: balance_ts_def balance_cjs_def findOrCreate_ts_def findOrCreate_cjs_def
      createUser_def create_cjs_def Let_def)

theorem balance_creates_and_sums_witness:
  "balance_ts [] ''u'' ''discord'' 1000 =
     (Inr \<lparr>res_wallet = Num 0, res_bank = Num 0, res_bankCapacity = Num 2500, netWorth = Num 0\<rparr>,
      [((''u'', ''discord''), \<lparr>userID = ''u'', platform = ''discord'', wallet = Num 0, bank = Num 0,
                       bankCapacity = Num 2500, daily = 0, createdAt = 1000, updatedAt = 1000\<rparr>)]) \<and>
   balance_cjs [((''v'', ''discord''), \<lparr>userID = ''v'', platform = ''discord'', wallet = Num 70,
                   bank = Num 30, bankCapacity = Num 2500, daily = 0\<rparr>)] ''v'' ''discord'' =
     (Inr \<lparr>bal_wallet = Num 70, bal_bank = Num 30, bal_bankCapacity = Num 2500, total = Num 100\<rparr>,
      [((''v'', ''discord''), \<lparr>userID = ''v'', platform = ''discord'', wallet = Num 70,
                   bank = Num 30, bankCapacity = Num 2500, daily = 0\<rparr>)])"
  using balance_creates_and_sums [where uid = "''u''" and p = "''discord''" and now = 1000 and users = "[]"]
    balance_creates_and_sums [where uid = "''v''" and p = "''discord''"
      and users' = "[((''v'', ''discord''), \<lparr>userID = ''v'', platform = ''discord'', wallet = Num 70,
                   bank = Num 30, bankCapacity = Num 2500, daily = 0\<rparr>)]"
      and user' = "\<lparr>userID = ''v'', platform = ''discord'', wallet = Num 70,
                   bank = Num 30, bankCapacity = Num 2500, daily = 0\<rparr>"]
  by (simp add: findOne_def put_def)

text \<open>
  Claim C10. In the TypeScript variant, \<open>removeMoney\<close> with a valid amount on a user ID that
  has no stored account stores the default account, returns the amount 0 (not the
  requested amount) and does not throw; the stored wallet is 0.
\<close>

theorem removeMoney_on_missing_account:
  "uid \<noteq> [] \<and> isValidAmount amount \<and> findOne users uid p = None
   \<longrightarrow> removeMoney_ts users uid amount p now =
         (Inr (Num 0),
          put users \<lparr>userID = uid, platform = p, wallet = Num 0, bank = Num 0,
                      bankCapacity = Num 2500, daily = 0, createdAt = now, updatedAt = now\<rparr>)
       \<and> findOne (snd (removeMoney_ts users uid amount p now)) uid p =
           Some \<lparr>userID = uid, platform = p, wallet = Num 0, bank = Num 0,
                  bankCapacity = Num 2500, daily = 0, createdAt = now, updatedAt = now\<rparr>"
  by (simp add: removeMoney_ts_def createUser_def Let_def findOne_put)

theorem removeMoney_on_missing_account_witness:
  "removeMoney_ts [] ''u'' (Val (Num 100)) ''discord'' 1000 =
     (Inr (Num 0),
      [((''u'', ''discord''), \<lparr>userID = ''u'', platform = ''discord'', wallet = Num 0, bank = Num 0,
                      bankCapacity = Num 2500, daily = 0, createdAt = 1000, updatedAt = 1000\<rparr>)])"
  using removeMoney_on_missing_account [where uid = "''u''" and p = "''discord''" and now = 1000
      and users = "[]" and amount = "Val (Num 100)"]
  by (simp add: findOne_def put_def isValidAmount_def)

subsection \<open>The remaining cooldown and its readable form\<close>







lemma formatCooldown_example: "formatCooldown 86399000 = \<lparr>hours = 23, minutes = 59, seconds = 59,
      formatted = ''23 hour(s), 59 minute(s), 59 second(s)''\<rparr>"
  by (simp add: formatCooldown_def Let_def decimal.simps digit_def)









subsection \<open>Validation of the leaderboard's arguments\<close>

lemma leaderboard_cjs_error:
  "isl (leaderboard_cjs users p limit type) =
     (p = [] \<or> isNaN (if limit = Undefined then Val (Num 10) else limit) \<or>
      type \<notin> set [''wallet'', ''bank'', ''total''])"
  unfolding leaderboard_cjs_def Let_def by (simp del: set_simps)

lemma leaderboard_cjs_error_early:
  "isl (leaderboard_cjs users p limit type) \<Longrightarrow>
     leaderboard_cjs users p limit type = leaderboard_cjs [] p limit type"
proof -
  assume "isl (leaderboard_cjs users p limit type)"
  then have "p = [] \<or> isNaN (if limit = Undefined then Val (Num 10) else limit) \<or>
      type \<notin> set [''wallet'', ''bank'', ''total'']"
    by (simp only: leaderboard_cjs_error)
  then show ?thesis
    unfolding leaderboard_cjs_def Let_def by (auto simp del: set_simps)
qed

lemma leaderboard_json_error:
  "isl (leaderboard_json data count p sortBy) =
     (isNaN (if count = Undefined then Val (Num 10) else count) \<or>
      js_lt (Number (if count = Undefined then Val (Num 10) else count)) (Num 1))"
  unfolding leaderboard_json_def Let_def by simp

lemma leaderboard_json_error_early:
  "isl (leaderboard_json data count p sortBy) \<Longrightarrow>
     leaderboard_json data count p sortBy = leaderboard_json [] count p sortBy"
proof -
  assume "isl (leaderboard_json data count p sortBy)"
  then have "isNaN (if count = Undefined then Val (Num 10) else count) \<or>
      js_lt (Number (if count = Undefined then Val (Num 10) else count)) (Num 1)"
    by (simp only: leaderboard_json_error)
  then show ?thesis
    unfolding leaderboard_json_def Let_def by auto
qed

lemma leaderboard_ts_error:
  "isl (leaderboard_ts users count p) =
     (\<not> truthy (if count = Undefined then Val (Num 10) else count) \<or>
      js_le (Number (if count = Undefined then Val (Num 10) else count)) (Num 0))"
  unfolding leaderboard_ts_def Let_def by simp

lemma leaderboard_ts_error_early:
  "isl (leaderboard_ts users count p) \<Longrightarrow>
     leaderboard_ts users count p = leaderboard_ts [] count p"
proof -
  assume "isl (leaderboard_ts users count p)"
  then have "\<not> truthy (if count = Undefined then Val (Num 10) else count) \<or>
      js_le (Number (if count = Undefined then Val (Num 10) else count)) (Num 0)"
    by (simp only: leaderboard_ts_error)
  then show ?thesis
    unfolding leaderboard_ts_def Let_def by auto
qed

text \<open>
  The claim as stated fails: the CommonJS \<open>leaderboard\<close> does not reject a limit below 1;
  with the limit 0 it returns the empty list.
\<close>

theorem leaderboard_limit_zero_counterexample:
  "leaderboard_cjs [((''u'', ''discord''), \<lparr>userID = ''u'', platform = ''discord'', wallet = Num 5,
                       bank = Num 0, bankCapacity = Num 2500, daily = 0\<rparr>)]
     ''discord'' (Val (Num 0)) ''total'' = Inr []"
  by (simp add: leaderboard_cjs_def isNaN_def Let_def)


text \<open>
  Claim C8, as amended. Each variant throws on the conditions it validates, and the
  thrown error does not depend on the stored accounts (it is the one thrown on the empty
  collection): the CommonJS \<open>leaderboard\<close> on an empty platform, on a limit for which
  \<open>isNaN(limit)\<close> holds (one that \<open>Number\<close> reads as \<open>NaN\<close>) or on a type other than
  \<open>wallet\<close>, \<open>bank\<close>, \<open>total\<close>; the JSON-file \<open>leaderboard\<close> on a count for which
  \<open>isNaN(count)\<close> holds or that \<open>Number\<close> reads as below 1; the TypeScript \<open>leaderboard\<close>,
  which has no sort key, on a count that is falsy or that \<open>Number\<close> reads as 0 or
  negative. An omitted (undefined) limit or count behaves as the default 10.
\<close>

theorem leaderboard_validation:
  "(p = [] \<or> (limit \<noteq> Undefined \<and> isNaN limit) \<or> type \<notin> set [''wallet'', ''bank'', ''total'']
    \<longrightarrow> isl (leaderboard_cjs users p limit type) \<and>
        leaderboard_cjs users p limit type = leaderboard_cjs [] p limit type) \<and>
   (limit \<noteq> Undefined \<and> (isNaN limit \<or> js_lt (Number limit) (Num 1))
    \<longrightarrow> isl (leaderboard_json data limit p type) \<and>
        leaderboard_json data limit p type = leaderboard_json [] limit p type) \<and>
   (limit \<noteq> Undefined \<and> (\<not> truthy limit \<or> js_le (Number limit) (Num 0))
    \<longrightarrow> isl (leaderboard_ts users' limit p) \<and>
        leaderboard_ts users' limit p = leaderboard_ts [] limit p) \<and>
   leaderboard_cjs users p Undefined type = leaderboard_cjs users p (Val (Num 10)) type \<and>
   leaderboard_json data Undefined p type = leaderboard_json data (Val (Num 10)) p type \<and>
   leaderboard_ts users' Undefined p = leaderboard_ts users' (Val (Num 10)) p"
proof (intro conjI impI)
  assume "p = [] \<or> (limit \<noteq> Undefined \<and> isNaN limit) \<or> type \<notin> set [''wallet'', ''bank'', ''total'']"
  then show c: "isl (leaderboard_cjs users p limit type)"
    unfolding leaderboard_cjs_error by auto
  show "leaderboard_cjs users p limit type = leaderboard_cjs [] p limit type"
    using c by (rule leaderboard_cjs_error_early)
next
  assume "limit \<noteq> Undefined \<and> (isNaN limit \<or> js_lt (Number limit) (Num 1))"
  then show c: "isl (leaderboard_json data limit p type)"
    unfolding leaderboard_json_error by auto
  show "leaderboard_json data limit p type = leaderboard_json [] limit p type"
    using c by (rule leaderboard_json_error_early)
next
  assume "limit \<noteq> Undefined \<and> (\<not> truthy limit \<or> js_le (Number limit) (Num 0))"
  then show c: "isl (leaderboard_ts users' limit p)"
    unfolding leaderboard_ts_error by auto
  show "leaderboard_ts users' limit p = leaderboard_ts [] limit p"
    using c by (rule leaderboard_ts_error_early)
next
  show "leaderboard_cjs users p Undefined type = leaderboard_cjs users p (Val (Num 10)) type"
    by (simp add: leaderboard_cjs_def)
next
  show "leaderboard_json data Undefined p type = leaderboard_json data (Val (Num 10)) p type"
    by (simp add: leaderboard_json_def)
next
  show "leaderboard_ts users' Undefined p = leaderboard_ts users' (Val (Num 10)) p"
    by (simp add: leaderboard_ts_def)
qed

text \<open>
  The string \<open>'abc'\<close> as the limit of the CommonJS variant, and the count 0 in the other
  two.
\<close>

theorem leaderboard_validation_witness:
  "leaderboard_cjs [((''u'', ''discord''), \<lparr>userID = ''u'', platform = ''discord'', wallet = Num 5,
                       bank = Num 0, bankCapacity = Num 2500, daily = 0\<rparr>)]
     ''discord'' Str_other ''total'' = Inl (TypeError ''Limit must be a number'') \<and>
   leaderboard_json [(''discord:u'', \<lparr>userID = ''u'', platform = ''discord'', wallet = Num 5,
                       bank = Num 0, bankCapacity = Num 2500, daily = 0\<rparr>)]
     (Val (Num 0)) ''discord'' ''total'' = Inl (TypeError ''Count must be at least 1'') \<and>
   leaderboard_ts [((''u'', ''discord''), \<lparr>userID = ''u'', platform = ''discord'', wallet = Num 5,
                       bank = Num 0, bankCapacity = Num 2500, daily = 0, createdAt = 1, updatedAt = 1\<rparr>)]
     (Val (Num 0)) ''discord'' = Inl (TypeError ''Please provide a valid count'')"
  using leaderboard_validation [where p = "''discord''" and limit = "Str_other" and type = "''total''"
      and users = "[((''u'', ''discord''), \<lparr>userID = ''u'', platform = ''discord'', wallet = Num 5,
                       bank = Num 0, bankCapacity = Num 2500, daily = 0\<rparr>)]"]
    leaderboard_validation [where p = "''discord''" and limit = "Val (Num 0)" and type = "''total''"
      and data = "[(''discord:u'', \<lparr>userID = ''u'', platform = ''discord'', wallet = Num 5,
                       bank = Num 0, bankCapacity = Num 2500, daily = 0\<rparr>)]"
      and users' = "[((''u'', ''discord''), \<lparr>userID = ''u'', platform = ''discord'', wallet = Num 5,
                       bank = Num 0, bankCapacity = Num 2500, daily = 0, createdAt = 1, updatedAt = 1\<rparr>)]"]
  by (simp add: isNaN_def leaderboard_cjs_def leaderboard_json_def leaderboard_ts_def)

subsection \<open>The first daily claim\<close>

lemma daily_ts_first_claim:
  assumes "uid \<noteq> []" "amount = Val (Num n) \<or> amount = Str x (Num n)" "0 < n"
    "findOrCreate_ts users uid p now = (user, stored)" "daily user = 0" "wallet user = Num w"
    "86400000 \<le> now"
  shows "daily_ts users uid amount p now =
          (Inr \<lparr>d_success = True, d_amount = Some (Num n), d_cooldown = None\<rparr>,
           updateOne stored uid p
             (\<lambda>_. user\<lparr>wallet := Num (w + n), daily := now, updatedAt := now\<rparr>))"
proof -
  from assms(2,3) have "isValidAmount amount" "parseAmount amount = Num n"
    by (auto simp: isValidAmount_def parseAmount_def)
  with assms(1,4-7) show ?thesis
    unfolding daily_ts_def Let_def DAILY_COOLDOWN_def by simp
qed

lemma daily_cjs_first_claim:
  assumes "uid \<noteq> []" "p \<noteq> []" "amount = Val (Num n) \<or> amount = Str_numeric n" "0 \<le> n"
    "findOrCreate_cjs users uid p = (Inr user, stored)" "daily user = 0" "wallet user = Num w"
    "exact [w, n, w + n]"
  shows "daily_cjs users uid p amount now =
          (Inr (Rewarded amount (Num (w + n))),
           updateOne stored uid p (\<lambda>u. u\<lparr>wallet := Num (w + n), daily := now\<rparr>))"
proof -
  from assms(3,8) have v: "\<not> (\<not> truthy amount \<and> amount \<noteq> Val (Num 0))" "\<not> isNaN amount"
    "parseInt amount = Num n"
    by (auto simp: isNaN_def exact_def MAX_SAFE_INTEGER_def)
  with assms(1,2,5-7) show ?thesis
    unfolding daily_cjs_def Let_def by simp
qed

text \<open>
  The claim as stated fails on the TypeScript variant, whose \<open>daily\<close> has no check of the
  sentinel and relies on the clock: a first claim (\<open>daily = 0\<close>) made while the clock reads
  less than the cooldown, here 1000 ms, is answered with a cooldown of 23 hours, 59
  minutes, 59 seconds and nothing is credited.
\<close>

theorem daily_ts_first_claim_cooldown:
  "daily_ts [((''u'', ''discord''), \<lparr>userID = ''u'', platform = ''discord'', wallet = Num 0,
                bank = Num 0, bankCapacity = Num 2500, daily = 0, createdAt = 500, updatedAt = 500\<rparr>)]
      ''u'' (Val (Num 100)) ''discord'' 1000 =
     (Inr \<lparr>d_success = False, d_amount = None,
            d_cooldown = Some \<lparr>hours = 23, minutes = 59, seconds = 59,
                                formatted = ''23 hour(s), 59 minute(s), 59 second(s)''\<rparr>\<rparr>,
      [((''u'', ''discord''), \<lparr>userID = ''u'', platform = ''discord'', wallet = Num 0,
                bank = Num 0, bankCapacity = Num 2500, daily = 0, createdAt = 500, updatedAt = 500\<rparr>)])"
  by (simp add: daily_ts_def isValidAmount_def parseAmount_def findOrCreate_ts_def findOne_def
      DAILY_COOLDOWN_def Let_def formatCooldown_example)

text \<open>
  Claim C6, as amended. A \<open>daily\<close> call with a valid amount \<open>n\<close>, given as a number or as
  its decimal string, for an account whose last claim time is 0 (\<open>user\<close> is the account as
  fetched or created, \<open>stored\<close> the collection after that) succeeds, credits the wallet
  with \<open>n\<close> and sets the last claim time to the current time: in the CommonJS variant,
  which checks the sentinel, at any time; in the TypeScript variant whenever the clock
  reads at least the cooldown of 86,400,000 ms. The wallet, the amount and their sum are
  within the exact range.
\<close>

theorem first_daily_claim:
  "(uid \<noteq> [] \<and> p \<noteq> [] \<and> (amount = Val (Num n) \<or> amount = Str_numeric n) \<and> 0 \<le> n \<and>
    findOrCreate_cjs users uid p = (Inr user, stored) \<and> daily user = 0 \<and> wallet user = Num w \<and>
    exact [w, n, w + n]
    \<longrightarrow> daily_cjs users uid p amount now =
          (Inr (Rewarded amount (Num (w + n))),
           updateOne stored uid p (\<lambda>u. u\<lparr>wallet := Num (w + n), daily := now\<rparr>))) \<and>
   (uid \<noteq> [] \<and> (amount = Val (Num n) \<or> amount = Str x (Num n)) \<and> 0 < n \<and>
    findOrCreate_ts users' uid p now = (user', stored') \<and> daily user' = 0 \<and> wallet user' = Num w \<and>
    86400000 \<le> now \<and> exact [w, n, w + n]
    \<longrightarrow> daily_ts users' uid amount p now =
          (Inr \<lparr>d_success = True, d_amount = Some (Num n), d_cooldown = None\<rparr>,
           updateOne stored' uid p
             (\<lambda>_. user'\<lparr>wallet := Num (w + n), daily := now, updatedAt := now\<rparr>)))"
proof (intro conjI impI)
  assume "uid \<noteq> [] \<and> p \<noteq> [] \<and> (amount = Val (Num n) \<or> amount = Str_numeric n) \<and> 0 \<le> n \<and>
    findOrCreate_cjs users uid p = (Inr user, stored) \<and> daily user = 0 \<and> wallet user = Num w \<and>
    exact [w, n, w + n]"
  then show "daily_cjs users uid p amount now =
          (Inr (Rewarded amount (Num (w + n))),
           updateOne stored uid p (\<lambda>u. u\<lparr>wallet := Num (w + n), daily := now\<rparr>))"
    by (elim conjE) (rule daily_cjs_first_claim; assumption)
next
  assume "uid \<noteq> [] \<and> (amount = Val (Num n) \<or> amount = Str x (Num n)) \<and> 0 < n \<and>
    findOrCreate_ts users' uid p now = (user', stored') \<and> daily user' = 0 \<and> wallet user' = Num w \<and>
    86400000 \<le> now \<and> exact [w, n, w + n]"
  then show "daily_ts users' uid amount p now =
          (Inr \<lparr>d_success = True, d_amount = Some (Num n), d_cooldown = None\<rparr>,
           updateOne stored' uid p
             (\<lambda>_. user'\<lparr>wallet := Num (w + n), daily := now, updatedAt := now\<rparr>))"
    by (elim conjE) (rule daily_ts_first_claim; assumption)
qed

text \<open>
  A first claim of 100: in the CommonJS variant while the clock reads 1000 ms, in the
  TypeScript variant while it reads 86,400,000 ms.
\<close>

theorem first_daily_claim_witness:
  "daily_cjs [((''u'', ''discord''), \<lparr>userID = ''u'', platform = ''discord'', wallet = Num 20,
                 bank = Num 0, bankCapacity = Num 2500, daily = 0\<rparr>)]
      ''u'' ''discord'' (Val (Num 100)) 1000 =
     (Inr (Rewarded (Val (Num 100)) (Num 120)),
      [((''u'', ''discord''), \<lparr>userID = ''u'', platform = ''discord'', wallet = Num 120,
                 bank = Num 0, bankCapacity = Num 2500, daily = 1000\<rparr>)]) \<and>
   daily_ts [((''u'', ''discord''), \<lparr>userID = ''u'', platform = ''discord'', wallet = Num 20,
                bank = Num 0, bankCapacity = Num 2500, daily = 0, createdAt = 500, updatedAt = 500\<rparr>)]
      ''u'' (Val (Num 100)) ''discord'' 86400000 =
     (Inr \<lparr>d_success = True, d_amount = Some (Num 100), d_cooldown = None\<rparr>,
      [((''u'', ''discord''), \<lparr>userID = ''u'', platform = ''discord'', wallet = Num 120,
                bank = Num 0, bankCapacity = Num 2500, daily = 86400000, createdAt = 500,
                updatedAt = 86400000\<rparr>)])"
  using first_daily_claim [where uid = "''u''" and p = "''discord''" and amount = "Val (Num 100)"
      and n = 100 and w = 20 and now = 1000
      and users = "[((''u'', ''discord''), \<lparr>userID = ''u'', platform = ''discord'', wallet = Num 20,
                 bank = Num 0, bankCapacity = Num 2500, daily = 0\<rparr>)]"
      and user = "\<lparr>userID = ''u'', platform = ''discord'', wallet = Num 20,
                 bank = Num 0, bankCapacity = Num 2500, daily = 0\<rparr>"
      and stored = "[((''u'', ''discord''), \<lparr>userID = ''u'', platform = ''discord'', wallet = Num 20,
                 bank = Num 0, bankCapacity = Num 2500, daily = 0\<rparr>)]"]
    first_daily_claim [where uid = "''u''" and p = "''discord''" and amount = "Val (Num 100)"
      and n = 100 and w = 20 and now = 86400000
      and users' = "[((''u'', ''discord''), \<lparr>userID = ''u'', platform = ''discord'', wallet = Num 20,
                bank = Num 0, bankCapacity = Num 2500, daily = 0, createdAt = 500, updatedAt = 500\<rparr>)]"
      and user' = "\<lparr>userID = ''u'', platform = ''discord'', wallet = Num 20,
                bank = Num 0, bankCapacity = Num 2500, daily = 0, createdAt = 500, updatedAt = 500\<rparr>"
      and stored' = "[((''u'', ''discord''), \<lparr>userID = ''u'', platform = ''discord'', wallet = Num 20,
                bank = Num 0, bankCapacity = Num 2500, daily = 0, createdAt = 500, updatedAt = 500\<rparr>)]"]
  by (simp add: findOrCreate_cjs_def findOrCreate_ts_def findOne_def updateOne_def exact_def
      MAX_SAFE_INTEGER_def)

subsection \<open>The frame of deposit and withdraw\<close>

text \<open>
  The TypeScript \<open>deposit\<close> and \<open>withdraw\<close> leave the capacity and the sum of wallet and
  bank as they were, for every whole amount.
\<close>

lemma findOrCreate_ts_stored:
  "findOrCreate_ts users uid p now = (user, stored) \<Longrightarrow> findOne stored uid p = Some user"
  by (auto simp: findOrCreate_ts_def createUser_def Let_def findOne_put split: option.splits)

lemma whole_valid:
  assumes "whole amount" "amount = Str_all \<or> isValidAmount amount"
  obtains n x where "amount = Str_all \<or> ((amount = Val (Num n) \<or> amount = Str x (Num n)) \<and> 0 < n)"
  using assms by (cases amount rule: whole.cases) (auto simp: isValidAmount_def)

lemma deposit_ts_frame:
  assumes "uid \<noteq> []" "findOrCreate_ts users uid p now = (user, stored)"
    "wallet user = Num w" "bank user = Num b" "bankCapacity user = Num c" "whole amount"
  shows "\<exists>u. findOne (snd (deposit_ts users uid amount p now)) uid p = Some u \<and>
             bankCapacity u = Num c \<and> js_add (wallet u) (bank u) = Num (w + b)"
proof (cases "amount \<noteq> Str_all \<and> \<not> isValidAmount amount")
  case True
  with assms findOrCreate_ts_stored[OF assms(2)] show ?thesis
    by (simp add: deposit_ts_def)
next
  case False
  then have "amount = Str_all \<or> isValidAmount amount" by blast
  with assms(6) obtain n x where
    "amount = Str_all \<or> ((amount = Val (Num n) \<or> amount = Str x (Num n)) \<and> 0 < n)"
    by (rule whole_valid)
  from deposit_ts_amount[OF assms(1,2,3,4,5) this refl refl] findOrCreate_ts_stored[OF assms(2)] assms(5)
  show ?thesis by (simp add: findOne_updateOne)
qed

lemma withdraw_ts_frame:
  assumes "uid \<noteq> []" "findOrCreate_ts users uid p now = (user, stored)"
    "wallet user = Num w" "bank user = Num b" "bankCapacity user = Num c" "whole amount"
  shows "\<exists>u. findOne (snd (withdraw_ts users uid amount p now)) uid p = Some u \<and>
             bankCapacity u = Num c \<and> js_add (wallet u) (bank u) = Num (w + b)"
proof (cases "amount \<noteq> Str_all \<and> \<not> isValidAmount amount")
  case True
  with assms findOrCreate_ts_stored[OF assms(2)] show ?thesis
    by (simp add: withdraw_ts_def)
next
  case False
  then have "amount = Str_all \<or> isValidAmount amount" by blast
  with assms(6) obtain n x where
    "amount = Str_all \<or> ((amount = Val (Num n) \<or> amount = Str x (Num n)) \<and> 0 < n)"
    by (rule whole_valid)
  then consider "amount = Str_all" | "amount = Val (Num n)" "0 < n" | "amount = Str x (Num n)" "0 < n"
    by blast
  then show ?thesis
  proof cases
    case 1
    with assms findOrCreate_ts_stored[OF assms(2)] show ?thesis
      unfolding withdraw_ts_def Let_def by (simp add: findOne_updateOne)
  next
    case 2
    with assms findOrCreate_ts_stored[OF assms(2)] show ?thesis
      unfolding withdraw_ts_def Let_def
      by (simp add: findOne_updateOne isValidAmount_def parseAmount_def)
  next
    case 3
    with assms findOrCreate_ts_stored[OF assms(2)] show ?thesis
      unfolding withdraw_ts_def Let_def
      by (simp add: findOne_updateOne isValidAmount_def parseAmount_def)
  qed
qed

text \<open>
  Claim C9 fails on the compact ES-module variant, whose \<open>deposit\<close> and \<open>withdraw\<close> have no
  check that the amount is a number: a deposit of the string \<open>'abc'\<close> on an account with
  wallet 100 and bank 50 reports success and stores \<open>NaN\<close> in both fields, so the sum of
  wallet and bank is not the 150 it was, and so does a withdrawal. The queued variant
  throws on the same deposit and writes nothing.
\<close>

theorem deposit_esm_non_numeric_amount:
  "deposit_esm [((''u'', ''whatsapp''), \<lparr>userID = ''u'', platform = ''whatsapp'', wallet = Num 100,
                   bank = Num 50, bankCapacity = Num 2500, daily = 0\<rparr>)]
      ''u'' ''whatsapp'' Str_other =
     (Inr (BankSuccess NaN NaN NaN),
      [((''u'', ''whatsapp''), \<lparr>userID = ''u'', platform = ''whatsapp'', wallet = NaN,
                   bank = NaN, bankCapacity = Num 2500, daily = 0\<rparr>)]) \<and>
   withdraw_esm [((''u'', ''whatsapp''), \<lparr>userID = ''u'', platform = ''whatsapp'', wallet = Num 100,
                   bank = Num 50, bankCapacity = Num 2500, daily = 0\<rparr>)]
      ''u'' ''whatsapp'' Str_other =
     (Inr (BankSuccess NaN NaN NaN),
      [((''u'', ''whatsapp''), \<lparr>userID = ''u'', platform = ''whatsapp'', wallet = NaN,
                   bank = NaN, bankCapacity = Num 2500, daily = 0\<rparr>)]) \<and>
   deposit_queued [((''u'', ''whatsapp''), \<lparr>userID = ''u'', platform = ''whatsapp'', wallet = Num 100,
                   bank = Num 50, bankCapacity = Num 2500, daily = 0\<rparr>)]
      ''u'' ''whatsapp'' Str_other =
     (Inl (TypeError (''Amount should be a number or 'all'' @ [CHR 0x27])),
      [((''u'', ''whatsapp''), \<lparr>userID = ''u'', platform = ''whatsapp'', wallet = Num 100,
                   bank = Num 50, bankCapacity = Num 2500, daily = 0\<rparr>)])"
  by (simp add: deposit_esm_def withdraw_esm_def deposit_queued_def findOrCreate_esm_def findOne_def
      put_def isNaN_def Let_def)

end
